theory Spec2Isabelle
  imports Complex_Main "HOL-Library.Sublist" "HOL-Library.Product_Lexorder"
begin

section \<open>Python values shared by the three components\<close>

text \<open>
  Python floats are modelled by real numbers (rounding is not modelled), Python ints by
  \<open>int\<close>, \<open>str\<close> by \<open>string\<close>. An exception is a value carrying its class and its message;
  a function that may raise returns \<open>py_exception + 'a\<close> with \<open>Inl\<close> for the raised exception.
\<close>

datatype py_exception =
    Exception string
  | ValueError string
  | TypeError string
  | KeyError string
  | OverflowError string
  | RedisError string

text \<open>
  \<open>repr(s)\<close> of a string: single quotes, or double quotes when the string holds a single
  quote and no double quote; the backslash and the chosen quote are escaped, tab, newline and
  carriage return are written \<open>\t\<close>, \<open>\n\<close>, \<open>\r\<close>, every other control character as \<open>\xNN\<close>.
  Bytes above 127 stand for printable text and are kept.
\<close>

definition hex_digit :: "nat \<Rightarrow> char" where
  "hex_digit n = (if n < 10 then char_of (48 + n) else char_of (87 + n))"

definition repr_char :: "char \<Rightarrow> char \<Rightarrow> string" where
  "repr_char q c =
     (let n = (of_char c :: nat) in
      if c = q \<or> c = CHR 0x5C then [CHR 0x5C, c]
      else if c = CHR 0x09 then [CHR 0x5C, CHR ''t'']
      else if c = CHR 0x0A then [CHR 0x5C, CHR ''n'']
      else if c = CHR 0x0D then [CHR 0x5C, CHR ''r'']
      else if n < 32 \<or> n = 127
        then [CHR 0x5C, CHR ''x'', hex_digit (n div 16), hex_digit (n mod 16)]
      else [c])"

definition py_repr :: "string \<Rightarrow> string" where
  "py_repr s =
     (let q = (if CHR 0x27 \<in> set s \<and> CHR 0x22 \<notin> set s then CHR 0x22 else CHR 0x27)
      in q # concat (map (repr_char q) s) @ [q])"

text \<open>
  \<open>str(e)\<close>: an exception built from one message gives that message; \<open>KeyError\<close> carries
  the missing key and gives its \<open>repr\<close>.
\<close>

fun str_exc :: "py_exception \<Rightarrow> string" where
  "str_exc (Exception m) = m"
| "str_exc (ValueError m) = m"
| "str_exc (TypeError m) = m"
| "str_exc (KeyError k) = py_repr k"
| "str_exc (OverflowError m) = m"
| "str_exc (RedisError m) = m"

text \<open>\<open>str.lower()\<close> on the ASCII letters; every other character is left as it is.\<close>

definition lower_char :: "char \<Rightarrow> char" where
  "lower_char c =
     (let n = (of_char c :: nat) in if 65 \<le> n \<and> n \<le> 90 then char_of (n + 32) else c)"

definition lower :: "string \<Rightarrow> string" where
  "lower s = map lower_char s"

text \<open>
  Python's \<open>sub in s\<close> on strings is \<open>sublist sub s\<close>: \<open>s\<close> is \<open>ps @ sub @ ss\<close> for some
  \<open>ps\<close>, \<open>ss\<close>.
\<close>

subsection \<open>core/models.py: enums\<close>

datatype FailureType =
    TRANSIENT
  | MODEL_ERROR
  | TOOL_ERROR
  | RESOURCE_EXHAUSTION
  | POLICY_VIOLATION
  | TIMEOUT
  | UNKNOWN

fun FailureType_value :: "FailureType \<Rightarrow> string" where
  "FailureType_value TRANSIENT = ''transient''"
| "FailureType_value MODEL_ERROR = ''model_error''"
| "FailureType_value TOOL_ERROR = ''tool_error''"
| "FailureType_value RESOURCE_EXHAUSTION = ''resource_exhaustion''"
| "FailureType_value POLICY_VIOLATION = ''policy_violation''"
| "FailureType_value TIMEOUT = ''timeout''"
| "FailureType_value UNKNOWN = ''unknown''"

datatype TrustLevel = RESTRICTED | STANDARD | ELEVATED | PRIVILEGED

fun TrustLevel_value :: "TrustLevel \<Rightarrow> string" where
  "TrustLevel_value RESTRICTED = ''restricted''"
| "TrustLevel_value STANDARD = ''standard''"
| "TrustLevel_value ELEVATED = ''elevated''"
| "TrustLevel_value PRIVILEGED = ''privileged''"

text \<open>
  \<open>TrustLevel(s)\<close>: the member whose value is \<open>s\<close>; for any other string the ValueError
  \<open>{s!r} is not a valid TrustLevel\<close>.
\<close>

definition TrustLevel_of :: "string \<Rightarrow> py_exception + TrustLevel" where
  "TrustLevel_of s =
     (if s = ''restricted'' then Inr RESTRICTED
      else if s = ''standard'' then Inr STANDARD
      else if s = ''elevated'' then Inr ELEVATED
      else if s = ''privileged'' then Inr PRIVILEGED
      else Inl (ValueError (py_repr s @ '' is not a valid TrustLevel'')))"

datatype WorkflowState = PENDING | RUNNING | PAUSED | COMPLETED | FAILED | CANCELLED

fun WorkflowState_value :: "WorkflowState \<Rightarrow> string" where
  "WorkflowState_value PENDING = ''pending''"
| "WorkflowState_value RUNNING = ''running''"
| "WorkflowState_value PAUSED = ''paused''"
| "WorkflowState_value COMPLETED = ''completed''"
| "WorkflowState_value FAILED = ''failed''"
| "WorkflowState_value CANCELLED = ''cancelled''"

definition WorkflowState_of :: "string \<Rightarrow> py_exception + WorkflowState" where
  "WorkflowState_of s =
     (if s = ''pending'' then Inr PENDING
      else if s = ''running'' then Inr RUNNING
      else if s = ''paused'' then Inr PAUSED
      else if s = ''completed'' then Inr COMPLETED
      else if s = ''failed'' then Inr FAILED
      else if s = ''cancelled'' then Inr CANCELLED
      else Inl (ValueError (py_repr s @ '' is not a valid WorkflowState'')))"

datatype AgentStatus = INITIALIZING | READY | WORKING | WAITING | AGENT_FAILED | RETIRED

datatype LLMRole = PLANNER | EXECUTOR | VERIFIER | AUDITOR | SYNTHESIZER

fun LLMRole_value :: "LLMRole \<Rightarrow> string" where
  "LLMRole_value PLANNER = ''planner''"
| "LLMRole_value EXECUTOR = ''executor''"
| "LLMRole_value VERIFIER = ''verifier''"
| "LLMRole_value AUDITOR = ''auditor''"
| "LLMRole_value SYNTHESIZER = ''synthesizer''"

subsection \<open>JSON-like values (\<open>Dict[str, Any]\<close> payloads, \<open>asdict\<close>, \<open>json.dumps\<close>)\<close>

datatype json =
    JNull
  | JBool bool
  | JInt int
  | JFloat real
  | JStr string
  | JList "json list"
  | JDict "(string \<times> json) list"

text \<open>\<open>d[k]\<close> on a dict: KeyError is reported as \<open>None\<close>.\<close>

fun dict_get :: "(string \<times> 'v) list \<Rightarrow> string \<Rightarrow> 'v option" where
  "dict_get [] k = None"
| "dict_get ((k', v) # kvs) k = (if k' = k then Some v else dict_get kvs k)"

text \<open>\<open>d[k] = v\<close>: an existing key keeps its position, a new key goes to the end.\<close>

fun dict_set :: "(string \<times> 'v) list \<Rightarrow> string \<Rightarrow> 'v \<Rightarrow> (string \<times> 'v) list" where
  "dict_set [] k v = [(k, v)]"
| "dict_set ((k', v') # kvs) k v =
     (if k' = k then (k, v) # kvs else (k', v') # dict_set kvs k v)"

text \<open>\<open>del d[k]\<close> (the callers test membership first).\<close>

fun dict_del :: "(string \<times> 'v) list \<Rightarrow> string \<Rightarrow> (string \<times> 'v) list" where
  "dict_del [] k = []"
| "dict_del ((k', v') # kvs) k = (if k' = k then kvs else (k', v') # dict_del kvs k)"

subsection \<open>infrastructure: event bus\<close>

text \<open>
  Logging and the Prometheus counters of \<open>infrastructure/metrics.py\<close> return nothing, raise
  nothing and are never read back by the three components; they are left out.


  \<open>EventBus.publish\<close> adds the event to a Redis stream and re-raises a \<open>RedisError\<close>.
  The bus is the list of events published so far together with a script of the outcomes of
  the coming calls: \<open>None\<close> (or an exhausted script) is a call that succeeds, \<open>Some m\<close> one
  that raises \<open>RedisError m\<close>. Event timestamps and ids are left out.
\<close>

record EventBus =
  published :: "(string \<times> (string \<times> json) list) list"
  bus_faults :: "string option list"

definition publish ::
  "string \<Rightarrow> (string \<times> json) list \<Rightarrow> EventBus \<Rightarrow> (py_exception + unit) \<times> EventBus" where
  "publish event_type payload bus =
     (case bus_faults bus of
        [] \<Rightarrow> (Inr (), bus\<lparr>published := published bus @ [(event_type, payload)]\<rparr>)
      | None # fs \<Rightarrow>
          (Inr (), bus\<lparr>published := published bus @ [(event_type, payload)], bus_faults := fs\<rparr>)
      | Some m # fs \<Rightarrow> (Inl (RedisError m), bus\<lparr>bus_faults := fs\<rparr>))"

definition publish_succeeds :: "EventBus \<Rightarrow> bool" where
  "publish_succeeds bus = (case bus_faults bus of Some m # fs \<Rightarrow> False | _ \<Rightarrow> True)"

definition EventBus_init :: EventBus where
  "EventBus_init = \<lparr>published = [], bus_faults = []\<rparr>"

subsection \<open>core/models.py: workflow steps\<close>

record RetryConfig =
  max_attempts :: int
  backoff_multiplier :: real
  initial_delay_seconds :: real
  max_delay_seconds :: real

record FallbackStrategy =
  strategy_type :: string
  trigger_condition :: string
  alternative_approach :: "(string \<times> json) list"

record WorkflowStep =
  step_id :: string
  goal_id :: string
  required_capabilities :: "string list"
  dependencies :: "string list"
  retry_config :: RetryConfig
  fallback_strategy :: FallbackStrategy
  checkpoint :: bool

text \<open>The dataclass defaults.\<close>

definition RetryConfig_default :: RetryConfig where
  "RetryConfig_default =
     \<lparr>max_attempts = 3, backoff_multiplier = 2, initial_delay_seconds = 1,
      max_delay_seconds = 60\<rparr>"

definition FallbackStrategy_default :: FallbackStrategy where
  "FallbackStrategy_default =
     \<lparr>strategy_type = ''agent_swap'', trigger_condition = [], alternative_approach = []\<rparr>"

definition new_WorkflowStep :: "string \<Rightarrow> string \<Rightarrow> string list \<Rightarrow> string list \<Rightarrow> WorkflowStep" where
  "new_WorkflowStep sid gid caps deps =
     \<lparr>step_id = sid, goal_id = gid, required_capabilities = caps, dependencies = deps,
      retry_config = RetryConfig_default, fallback_strategy = FallbackStrategy_default,
      checkpoint = True\<rparr>"

text \<open>
  The dataclasses are records with the fields of the source. Where two dataclasses share a
  field name, the field of one of them carries a prefix (\<open>tr_\<close> for \<open>TaskResult\<close>, \<open>vr_\<close> for
  \<open>VerificationResult\<close>, \<open>task_\<close> for \<open>Task\<close>, \<open>failure_\<close> for \<open>FailureRecord\<close>,
  \<open>provider_\<close> for the capabilities of \<open>LLMProvider\<close>). Timestamps and \<open>datetime\<close> values are
  kept as their ISO strings.
\<close>

record Workflow =
  workflow_id :: string
  steps :: "(string \<times> WorkflowStep) list"
  execution_order :: "string list list"
  state :: WorkflowState
  metadata :: "(string \<times> json) list"

record FailureRecord =
  failure_id :: string
  failure_timestamp :: string
  failure_type :: string
  error_message :: string
  failure_context :: "(string \<times> json) list"
  recovery_action :: string
  recovery_success :: bool

record Agent =
  agent_id :: string
  goal :: string
  capabilities :: "string list"
  allowed_tools :: "string list"
  preferred_llm_roles :: "(string \<times> string) list"
  trust_level :: TrustLevel
  memory_scope :: string
  confidence_threshold :: real
  failure_history :: "FailureRecord list"
  created_at :: string
  status :: AgentStatus

record TaskResult =
  success :: bool
  tr_output :: json
  tr_confidence :: real
  reasoning :: string
  tr_cost :: real
  tr_latency :: real
  errors :: "string list"

record LLMProvider =
  provider_id :: string
  provider_name :: string
  model_name :: string
  api_endpoint :: string
  cost_per_token :: real
  avg_latency :: real
  reliability_score :: real
  provider_capabilities :: "string list"

record LLMResponse =
  provider :: LLMProvider
  role :: LLMRole
  prompt :: string
  response :: string
  confidence :: real
  tokens_used :: int
  latency :: real
  cost :: real
  timestamp :: string

text \<open>
  A discrepancy is the f-string \<open>Model {model_name} disagreed (similarity: {s:.2f})\<close>; it is
  kept as the model name and the number \<open>s\<close> (the rounding to two decimals is not modelled).
\<close>

datatype discrepancy = Disagreed string real

record VerificationResult =
  consensus :: bool
  selected_response :: "LLMResponse option"
  discrepancies :: "discrepancy list"
  vr_confidence :: real

section \<open>orchestration/orchestrator.py\<close>

record RecoveryAction =
  action_type :: string
  details :: "(string \<times> json) list"

subsection \<open>\<open>Orchestrator._classify_failure\<close>\<close>

definition classify_failure :: "py_exception \<Rightarrow> FailureType" where
  "classify_failure error =
     (let error_str = lower (str_exc error) in
      if sublist ''timeout'' error_str then TIMEOUT
      else if sublist ''rate limit'' error_str \<or> sublist ''quota'' error_str
        then RESOURCE_EXHAUSTION
      else if sublist ''policy'' error_str \<or> sublist ''unauthorized'' error_str
        then POLICY_VIOLATION
      else if sublist ''model'' error_str \<or> sublist ''llm'' error_str then MODEL_ERROR
      else if sublist ''tool'' error_str then TOOL_ERROR
      else UNKNOWN)"

subsection \<open>\<open>Orchestrator.handle_failure\<close>\<close>

text \<open>
  The failure is classified and announced on the bus; then the recovery action is chosen.
  A failing publish raises out of \<open>handle_failure\<close> before any action is chosen.
\<close>

definition handle_failure ::
  "WorkflowStep \<Rightarrow> py_exception \<Rightarrow> EventBus \<Rightarrow> (py_exception + RecoveryAction) \<times> EventBus" where
  "handle_failure step error event_bus =
     (let failure_type = classify_failure error;
          (r, bus) = publish ''workflow.recovery_triggered''
                       [(''step_id'', JStr (step_id step)),
                        (''failure_type'', JStr (FailureType_value failure_type))] event_bus
      in case r of
           Inl e \<Rightarrow> (Inl e, bus)
         | Inr _ \<Rightarrow>
             (if failure_type = TRANSIENT
                then (Inr \<lparr>action_type = ''retry'',
                           details = [(''step_id'', JStr (step_id step))]\<rparr>, bus)
              else if failure_type = MODEL_ERROR
                then (Inr \<lparr>action_type = ''llm_swap'',
                           details = [(''step_id'', JStr (step_id step))]\<rparr>, bus)
              else if failure_type = TOOL_ERROR
                then (Inr \<lparr>action_type = ''agent_swap'',
                           details = [(''step_id'', JStr (step_id step))]\<rparr>, bus)
              else (Inr \<lparr>action_type = ''escalate'',
                         details = [(''step_id'', JStr (step_id step)),
                                    (''error'', JStr (str_exc error))]\<rparr>, bus)))"

subsection \<open>\<open>Orchestrator.execute_step\<close>\<close>

text \<open>
  \<open>time.time()\<close> and \<open>time.sleep\<close>: the clock is the current time and the list of the
  sleeps performed so far; only sleeping lets time pass. \<open>time.sleep\<close> raises ValueError on
  a negative length and OverflowError on a length that does not fit the 64-bit count of
  nanoseconds.
\<close>

record Clock =
  now :: real
  sleeps :: "real list"

definition sleep :: "real \<Rightarrow> Clock \<Rightarrow> py_exception + Clock" where
  "sleep delay clk =
     (if delay < 0 then Inl (ValueError ''sleep length must be non-negative'')
      else if 2 ^ 63 \<le> delay * 10 ^ 9
        then Inl (OverflowError ''timestamp out of range for platform time_t'')
      else Inr (clk\<lparr>now := now clk + delay, sleeps := sleeps clk @ [delay]\<rparr>))"

text \<open>
  The backoff delay computed after the failed attempt number \<open>retry_count\<close>:
  \<open>min(initial_delay_seconds * (backoff_multiplier ** retry_count), max_delay_seconds)\<close>.
  The power of a float raises OverflowError when its value is beyond the largest float,
  \<open>float_max\<close>; the product and \<open>min\<close> raise nothing. (Floats are real numbers here: what
  rounding does at the very boundary is not modelled.)
\<close>

definition float_max :: real where
  "float_max = (2 ^ 53 - 1) * 2 ^ 971"

definition delay_seconds :: "RetryConfig \<Rightarrow> int \<Rightarrow> real" where
  "delay_seconds c retry_count =
     min (initial_delay_seconds c * backoff_multiplier c ^ nat retry_count)
         (max_delay_seconds c)"

definition backoff_delay :: "RetryConfig \<Rightarrow> int \<Rightarrow> py_exception + real" where
  "backoff_delay c retry_count =
     (if float_max < \<bar>backoff_multiplier c ^ nat retry_count\<bar>
        then Inl (OverflowError (''(34, '' @ [CHR 0x27] @ ''Numerical result out of range''
                                 @ [CHR 0x27] @ '')''))
      else Inr (delay_seconds c retry_count))"

text \<open>
  The retry loop of \<open>execute_step\<close>, from \<open>while retry_count < max_attempts\<close> to
  \<open>raise last_error\<close>. The body of the inner \<open>try\<close> builds the successful result and
  publishes \<open>workflow.step_completed\<close>; the publish is the only call in it that can raise.
  An exception raised while the delay is computed or slept leaves the loop for the outer
  handler. \<open>raise None\<close> (no attempt was made) is a TypeError.
\<close>

function retry_loop ::
  "WorkflowStep \<Rightarrow> Agent \<Rightarrow> real \<Rightarrow> int \<Rightarrow> py_exception option \<Rightarrow> EventBus \<times> Clock
     \<Rightarrow> (py_exception + TaskResult) \<times> EventBus \<times> Clock" where
  "retry_loop step agent start_time retry_count last_error env =
     (if retry_count < max_attempts (retry_config step) then
        (let result = \<lparr>success = True,
                        tr_output = JDict [(''step_id'', JStr (step_id step)),
                                        (''status'', JStr ''completed'')],
                        tr_confidence = 0.85,
                        reasoning = ''Step executed successfully'',
                        tr_cost = 0.01,
                        tr_latency = now (snd env) - start_time,
                        errors = []\<rparr>;
             (r, bus) = publish ''workflow.step_completed''
                          [(''step_id'', JStr (step_id step)), (''agent_id'', JStr (agent_id agent))]
                          (fst env)
         in case r of
              Inr _ \<Rightarrow> (Inr result, bus, snd env)
            | Inl e \<Rightarrow>
                (let retry_count' = retry_count + 1 in
                 if retry_count' < max_attempts (retry_config step) then
                   (case backoff_delay (retry_config step) retry_count' of
                      Inl e' \<Rightarrow> (Inl e', bus, snd env)
                    | Inr delay \<Rightarrow>
                        (case sleep delay (snd env) of
                           Inl e' \<Rightarrow> (Inl e', bus, snd env)
                         | Inr clk \<Rightarrow>
                             retry_loop step agent start_time retry_count' (Some e) (bus, clk)))
                 else retry_loop step agent start_time retry_count' (Some e) (bus, snd env)))
      else
        (case last_error of
           Some e \<Rightarrow> (Inl e, env)
         | None \<Rightarrow> (Inl (TypeError ''exceptions must derive from BaseException''), env)))"
  by pat_completeness auto
termination
  by (relation "measure (\<lambda>(step, agent, start_time, retry_count, last_error, env).
                  nat (max_attempts (retry_config step) - retry_count))") auto

declare retry_loop.simps [simp del]

text \<open>
  \<open>execute_step\<close>: the \<open>workflow.step_started\<close> publish is outside every \<open>try\<close>; whatever
  the retry loop raises is caught by the outer handler, which publishes
  \<open>workflow.step_failed\<close> and returns a failed \<open>TaskResult\<close>.
\<close>

definition execute_step ::
  "WorkflowStep \<Rightarrow> Agent \<Rightarrow> EventBus \<times> Clock
     \<Rightarrow> (py_exception + TaskResult) \<times> EventBus \<times> Clock" where
  "execute_step step agent env =
     (let (r0, bus0) = publish ''workflow.step_started''
                         [(''step_id'', JStr (step_id step)), (''agent_id'', JStr (agent_id agent))]
                         (fst env)
      in case r0 of
           Inl e \<Rightarrow> (Inl e, bus0, snd env)
         | Inr _ \<Rightarrow>
             (let start_time = now (snd env);
                  (r, bus1, clk1) = retry_loop step agent start_time 0 None (bus0, snd env)
              in case r of
                   Inr result \<Rightarrow> (Inr result, bus1, clk1)
                 | Inl e \<Rightarrow>
                     (let (r2, bus2) = publish ''workflow.step_failed''
                                         [(''step_id'', JStr (step_id step)),
                                          (''agent_id'', JStr (agent_id agent)),
                                          (''error'', JStr (str_exc e))] bus1
                      in case r2 of
                           Inl e2 \<Rightarrow> (Inl e2, bus2, clk1)
                         | Inr _ \<Rightarrow>
                             (Inr \<lparr>success = False,
                                   tr_output = JNull,
                                   tr_confidence = 0,
                                   reasoning = ''Step execution failed'',
                                   tr_cost = 0,
                                   tr_latency = now clk1 - start_time,
                                   errors = [str_exc e]\<rparr>, bus2, clk1))))"

subsection \<open>memory/working_memory.py\<close>

text \<open>
  The Redis store behind \<open>WorkingMemory\<close>: each key holds the time-to-live it was set with
  and the stored JSON document (\<open>json.dumps\<close> followed by \<open>json.loads\<close> gives the document
  back; the passing of time, and so the expiry of a key, is not modelled). As for the event
  bus, a script gives the outcome of each coming Redis call.
\<close>

record WorkingMemory =
  redis :: "(string \<times> int \<times> json) list"
  default_ttl :: int
  wm_faults :: "string option list"

definition redis_call :: "WorkingMemory \<Rightarrow> (py_exception + unit) \<times> WorkingMemory" where
  "redis_call wm =
     (case wm_faults wm of
        [] \<Rightarrow> (Inr (), wm)
      | None # fs \<Rightarrow> (Inr (), wm\<lparr>wm_faults := fs\<rparr>)
      | Some m # fs \<Rightarrow> (Inl (RedisError m), wm\<lparr>wm_faults := fs\<rparr>))"

definition workflow_key :: "string \<Rightarrow> string" where
  "workflow_key wid = ''autoos:workflow:'' @ wid"

definition agent_key :: "string \<Rightarrow> string" where
  "agent_key aid = ''autoos:agent:'' @ aid"

definition store_workflow_state ::
  "string \<Rightarrow> json \<Rightarrow> WorkingMemory \<Rightarrow> (py_exception + unit) \<times> WorkingMemory" where
  "store_workflow_state wid st wm =
     (let key = workflow_key wid; ttl = default_ttl wm; (r, wm1) = redis_call wm
      in case r of
           Inl e \<Rightarrow> (Inl e, wm1)
         | Inr _ \<Rightarrow> (Inr (), wm1\<lparr>redis := dict_set (redis wm1) key (ttl, st)\<rparr>))"

definition get_workflow_state ::
  "string \<Rightarrow> WorkingMemory \<Rightarrow> (py_exception + json option) \<times> WorkingMemory" where
  "get_workflow_state wid wm =
     (let key = workflow_key wid; (r, wm1) = redis_call wm
      in case r of
           Inl e \<Rightarrow> (Inl e, wm1)
         | Inr _ \<Rightarrow> (Inr (map_option snd (dict_get (redis wm1) key)), wm1))"

definition store_agent_memory ::
  "string \<Rightarrow> json \<Rightarrow> WorkingMemory \<Rightarrow> (py_exception + unit) \<times> WorkingMemory" where
  "store_agent_memory aid memory wm =
     (let key = agent_key aid; ttl = default_ttl wm; (r, wm1) = redis_call wm
      in case r of
           Inl e \<Rightarrow> (Inl e, wm1)
         | Inr _ \<Rightarrow> (Inr (), wm1\<lparr>redis := dict_set (redis wm1) key (ttl, memory)\<rparr>))"

definition get_agent_memory ::
  "string \<Rightarrow> WorkingMemory \<Rightarrow> (py_exception + json option) \<times> WorkingMemory" where
  "get_agent_memory aid wm =
     (let key = agent_key aid; (r, wm1) = redis_call wm
      in case r of
           Inl e \<Rightarrow> (Inl e, wm1)
         | Inr _ \<Rightarrow> (Inr (map_option snd (dict_get (redis wm1) key)), wm1))"

definition clear_agent_memory ::
  "string \<Rightarrow> WorkingMemory \<Rightarrow> (py_exception + unit) \<times> WorkingMemory" where
  "clear_agent_memory aid wm =
     (let key = agent_key aid; (r, wm1) = redis_call wm
      in case r of
           Inl e \<Rightarrow> (Inl e, wm1)
         | Inr _ \<Rightarrow> (Inr (), wm1\<lparr>redis := dict_del (redis wm1) key\<rparr>))"

definition WorkingMemory_init :: WorkingMemory where
  "WorkingMemory_init = \<lparr>redis = [], default_ttl = 3600, wm_faults = []\<rparr>"

subsection \<open>\<open>Orchestrator.persist_state\<close> and \<open>Orchestrator.restore_state\<close>\<close>

text \<open>\<open>WorkflowStep.to_dict\<close> is \<open>asdict\<close>: the nested dataclasses become dicts.\<close>

definition step_to_dict :: "WorkflowStep \<Rightarrow> json" where
  "step_to_dict s =
     JDict [(''step_id'', JStr (step_id s)),
            (''goal_id'', JStr (goal_id s)),
            (''required_capabilities'', JList (map JStr (required_capabilities s))),
            (''dependencies'', JList (map JStr (dependencies s))),
            (''retry_config'',
               JDict [(''max_attempts'', JInt (max_attempts (retry_config s))),
                      (''backoff_multiplier'', JFloat (backoff_multiplier (retry_config s))),
                      (''initial_delay_seconds'',
                         JFloat (initial_delay_seconds (retry_config s))),
                      (''max_delay_seconds'', JFloat (max_delay_seconds (retry_config s)))]),
            (''fallback_strategy'',
               JDict [(''strategy_type'', JStr (strategy_type (fallback_strategy s))),
                      (''trigger_condition'', JStr (trigger_condition (fallback_strategy s))),
                      (''alternative_approach'',
                         JDict (alternative_approach (fallback_strategy s)))]),
            (''checkpoint'', JBool (checkpoint s))]"

text \<open>\<open>persist_state\<close>; the argument \<open>ts\<close> is \<open>datetime.utcnow().isoformat()\<close>.\<close>

definition persist_state ::
  "Workflow \<Rightarrow> string \<Rightarrow> WorkingMemory \<Rightarrow> (py_exception + unit) \<times> WorkingMemory" where
  "persist_state workflow ts wm =
     (let st = JDict [(''workflow_id'', JStr (workflow_id workflow)),
                      (''state'', JStr (WorkflowState_value (state workflow))),
                      (''steps'', JDict (map (\<lambda>(k, v). (k, step_to_dict v)) (steps workflow))),
                      (''execution_order'',
                         JList (map (\<lambda>g. JList (map JStr g)) (execution_order workflow))),
                      (''metadata'', JDict (metadata workflow)),
                      (''timestamp'', JStr ts)]
      in store_workflow_state (workflow_id workflow) st wm)"

text \<open>Python truthiness of a decoded JSON document (\<open>if state:\<close>).\<close>

fun truthy :: "json \<Rightarrow> bool" where
  "truthy JNull = False"
| "truthy (JBool b) = b"
| "truthy (JInt i) = (i \<noteq> 0)"
| "truthy (JFloat x) = (x \<noteq> 0)"
| "truthy (JStr s) = (s \<noteq> [])"
| "truthy (JList xs) = (xs \<noteq> [])"
| "truthy (JDict kvs) = (kvs \<noteq> [])"

text \<open>
  Reading the fields of the snapshot back into the typed \<open>Workflow\<close>. A missing key is the
  KeyError of \<open>state[...]\<close>. Python would store a value of any shape in the dataclass; a value
  of another shape than \<open>persist_state\<close> writes has no counterpart in the typed record and is
  reported as a TypeError.
\<close>

fun json_str :: "json \<Rightarrow> string option" where
  "json_str (JStr s) = Some s"
| "json_str _ = None"

fun json_str_list :: "json \<Rightarrow> string list option" where
  "json_str_list (JList xs) = those (map json_str xs)"
| "json_str_list _ = None"

fun json_str_list_list :: "json \<Rightarrow> string list list option" where
  "json_str_list_list (JList xs) = those (map json_str_list xs)"
| "json_str_list_list _ = None"

fun json_dict :: "json \<Rightarrow> (string \<times> json) list option" where
  "json_dict (JDict kvs) = Some kvs"
| "json_dict _ = None"

definition subscript :: "json \<Rightarrow> string \<Rightarrow> py_exception + json" where
  "subscript d k =
     (case d of
        JDict kvs \<Rightarrow> (case dict_get kvs k of None \<Rightarrow> Inl (KeyError k) | Some v \<Rightarrow> Inr v)
      | _ \<Rightarrow> Inl (TypeError ''not a dict''))"

definition typed :: "'a option \<Rightarrow> py_exception + 'a" where
  "typed v = (case v of None \<Rightarrow> Inl (TypeError ''unexpected shape'') | Some x \<Rightarrow> Inr x)"

text \<open>Sequencing of steps that may raise: the first exception ends the computation.\<close>

definition and_then :: "py_exception + 'a \<Rightarrow> ('a \<Rightarrow> py_exception + 'b) \<Rightarrow> py_exception + 'b" where
  "and_then r f = (case r of Inl e \<Rightarrow> Inl e | Inr x \<Rightarrow> f x)"

text \<open>
  \<open>restore_state\<close> builds \<open>Workflow(workflow_id=..., state=..., execution_order=...,
  metadata=...)\<close>: no \<open>steps\<close> argument is given, so \<open>steps\<close> takes the dataclass default, the
  empty dict.
\<close>

definition workflow_of_snapshot :: "json \<Rightarrow> py_exception + Workflow" where
  "workflow_of_snapshot st =
     and_then (subscript st ''workflow_id'') (\<lambda>j_id.
     and_then (subscript st ''state'') (\<lambda>j_state.
     and_then (typed (json_str j_state)) (\<lambda>s_state.
     and_then (WorkflowState_of s_state) (\<lambda>w_state.
     and_then (subscript st ''execution_order'') (\<lambda>j_eo.
     and_then (subscript st ''metadata'') (\<lambda>j_md.
     and_then (typed (json_str j_id)) (\<lambda>w_id.
     and_then (typed (json_str_list_list j_eo)) (\<lambda>w_eo.
     and_then (typed (json_dict j_md)) (\<lambda>w_md.
       Inr \<lparr>workflow_id = w_id, steps = [], execution_order = w_eo,
            state = w_state, metadata = w_md\<rparr>)))))))))"

definition restore_state ::
  "string \<Rightarrow> WorkingMemory \<Rightarrow> (py_exception + Workflow option) \<times> WorkingMemory" where
  "restore_state wid wm =
     (let (r, wm1) = get_workflow_state wid wm
      in case r of
           Inl e \<Rightarrow> (Inl e, wm1)
         | Inr None \<Rightarrow> (Inr None, wm1)
         | Inr (Some st) \<Rightarrow>
             (if truthy st then
                (case workflow_of_snapshot st of
                   Inl e \<Rightarrow> (Inl e, wm1)
                 | Inr workflow \<Rightarrow> (Inr (Some workflow), wm1))
              else (Inr None, wm1)))"

text \<open>\<open>pause_workflow\<close>: restore, and if the workflow is running, mark it paused and persist.\<close>

definition pause_workflow ::
  "string \<Rightarrow> string \<Rightarrow> WorkingMemory \<times> EventBus
     \<Rightarrow> (py_exception + bool) \<times> WorkingMemory \<times> EventBus" where
  "pause_workflow wid ts env =
     (let (r, wm1) = restore_state wid (fst env)
      in case r of
           Inl e \<Rightarrow> (Inl e, wm1, snd env)
         | Inr None \<Rightarrow> (Inr False, wm1, snd env)
         | Inr (Some workflow) \<Rightarrow>
             (if state workflow = RUNNING then
                (let (r2, wm2) = persist_state (workflow\<lparr>state := PAUSED\<rparr>) ts wm1
                 in case r2 of
                      Inl e \<Rightarrow> (Inl e, wm2, snd env)
                    | Inr _ \<Rightarrow>
                        (let (r3, bus) = publish ''workflow.paused''
                                           [(''workflow_id'', JStr wid)] (snd env)
                         in case r3 of
                              Inl e \<Rightarrow> (Inl e, wm2, bus)
                            | Inr _ \<Rightarrow> (Inr True, wm2, bus)))
              else (Inr False, wm1, snd env)))"

section \<open>orchestration/agent_manager.py\<close>

record AgentManager =
  active_agents :: "(string \<times> Agent) list"
  max_concurrent_agents :: int
  working_memory :: WorkingMemory
  event_bus :: EventBus

text \<open>\<open>AgentManager.__init__\<close>: no agent is active.\<close>

definition AgentManager_init :: "WorkingMemory \<Rightarrow> EventBus \<Rightarrow> int \<Rightarrow> AgentManager" where
  "AgentManager_init wm bus n =
     \<lparr>active_agents = [], max_concurrent_agents = n, working_memory = wm, event_bus = bus\<rparr>"

subsection \<open>\<open>AgentManager._get_allowed_tools\<close>\<close>

fun get_allowed_tools :: "TrustLevel \<Rightarrow> string list" where
  "get_allowed_tools RESTRICTED = [''read_file'', ''list_directory'']"
| "get_allowed_tools STANDARD =
     [''read_file'', ''list_directory'', ''write_file'', ''http_request'']"
| "get_allowed_tools ELEVATED =
     [''read_file'', ''list_directory'', ''write_file'', ''http_request'', ''execute_command'']"
| "get_allowed_tools PRIVILEGED = [''all'']"

subsection \<open>\<open>AgentManager.spawn_agent\<close>\<close>

text \<open>\<open>str(n)\<close> of an int, for the f-string of the capacity error.\<close>

fun str_nat :: "nat \<Rightarrow> string" where
  "str_nat n =
     (if n < 10 then [char_of (48 + n)] else str_nat (n div 10) @ [char_of (48 + n mod 10)])"

definition str_int :: "int \<Rightarrow> string" where
  "str_int i = (if i < 0 then CHR ''-'' # str_nat (nat (- i)) else str_nat (nat i))"

text \<open>
  The arguments \<open>uuid\<close> and \<open>ts\<close> are the values of \<open>str(uuid.uuid4())\<close> and of
  \<open>datetime.utcnow().isoformat()\<close>. The agent object stored in \<open>active_agents\<close> is the one
  whose status is set to \<open>READY\<close> afterwards, so the stored entry changes with it.
\<close>

definition spawn_agent ::
  "string list \<Rightarrow> string \<Rightarrow> string \<Rightarrow> string option \<Rightarrow> string \<Rightarrow> string \<Rightarrow> AgentManager
     \<Rightarrow> (py_exception + Agent) \<times> AgentManager" where
  "spawn_agent caps trust gl wf_id uuid ts m =
     (if int (length (active_agents m)) \<ge> max_concurrent_agents m then
        (Inl (Exception (''Maximum concurrent agents ('' @ str_int (max_concurrent_agents m)
                          @ '') reached'')), m)
      else
        (case TrustLevel_of trust of
           Inl e \<Rightarrow> (Inl e, m)
         | Inr lvl \<Rightarrow>
             (let agent = \<lparr>agent_id = uuid,
                            goal = gl,
                            capabilities = caps,
                            allowed_tools = get_allowed_tools lvl,
                            preferred_llm_roles = [(''planning'', ''planner''),
                                                   (''execution'', ''executor''),
                                                   (''verification'', ''verifier'')],
                            trust_level = lvl,
                            memory_scope = (if wf_id \<noteq> None \<and> wf_id \<noteq> Some []
                                            then ''workflow'' else ''session''),
                            confidence_threshold = 0.75,
                            failure_history = [],
                            created_at = ts,
                            status = INITIALIZING\<rparr>;
                  m1 = m\<lparr>active_agents := dict_set (active_agents m) uuid agent\<rparr>;
                  (r, wm) = store_agent_memory uuid
                              (JDict [(''goal'', JStr gl),
                                      (''capabilities'', JList (map JStr caps)),
                                      (''trust_level'', JStr trust),
                                      (''created_at'', JStr ts)]) (working_memory m1);
                  m2 = m1\<lparr>working_memory := wm\<rparr>
              in case r of
                   Inl e \<Rightarrow> (Inl e, m2)
                 | Inr _ \<Rightarrow>
                     (let agent' = agent\<lparr>status := READY\<rparr>;
                          m3 = m2\<lparr>active_agents := dict_set (active_agents m2) uuid agent'\<rparr>;
                          (r2, bus) = publish ''agent.spawned''
                                        [(''agent_id'', JStr uuid),
                                         (''capabilities'', JList (map JStr caps)),
                                         (''trust_level'', JStr trust),
                                         (''workflow_id'',
                                            (case wf_id of None \<Rightarrow> JNull | Some w \<Rightarrow> JStr w))]
                                        (event_bus m3);
                          m4 = m3\<lparr>event_bus := bus\<rparr>
                      in case r2 of
                           Inl e \<Rightarrow> (Inl e, m4)
                         | Inr _ \<Rightarrow> (Inr agent', m4)))))"

subsection \<open>\<open>AgentManager.retire_agent\<close>\<close>

definition retire_agent ::
  "string \<Rightarrow> string \<Rightarrow> AgentManager \<Rightarrow> (py_exception + unit) \<times> AgentManager" where
  "retire_agent aid reason m =
     (case dict_get (active_agents m) aid of
        None \<Rightarrow> (Inr (), m)
      | Some agent \<Rightarrow>
          (let m1 = m\<lparr>active_agents :=
                        dict_set (active_agents m) aid (agent\<lparr>status := RETIRED\<rparr>)\<rparr>;
               (r, wm) = get_agent_memory aid (working_memory m1);
               m2 = m1\<lparr>working_memory := wm\<rparr>
           in case r of
                Inl e \<Rightarrow> (Inl e, m2)
              | Inr _ \<Rightarrow>
                  (let (r2, wm2) = clear_agent_memory aid (working_memory m2);
                       m3 = m2\<lparr>working_memory := wm2\<rparr>
                   in case r2 of
                        Inl e \<Rightarrow> (Inl e, m3)
                      | Inr _ \<Rightarrow>
                          (let m4 = m3\<lparr>active_agents := dict_del (active_agents m3) aid\<rparr>;
                               (r3, bus) = publish ''agent.retired''
                                             [(''agent_id'', JStr aid), (''reason'', JStr reason)]
                                             (event_bus m4);
                               m5 = m4\<lparr>event_bus := bus\<rparr>
                           in case r3 of
                                Inl e \<Rightarrow> (Inl e, m5)
                              | Inr _ \<Rightarrow> (Inr (), m5)))))"

definition get_active_agent_count :: "AgentManager \<Rightarrow> int" where
  "get_active_agent_count m = int (length (active_agents m))"

text \<open>
  A caller's sequence of \<open>spawn_agent\<close> and \<open>retire_agent\<close> calls; a call that raises leaves
  the manager as it was when the exception left it, and the caller goes on.
\<close>

datatype manager_call =
    Spawn "string list" string string "string option" string string
  | Retire string string

fun manager_step :: "AgentManager \<Rightarrow> manager_call \<Rightarrow> AgentManager" where
  "manager_step m (Spawn caps trust gl wf_id uuid ts) =
     snd (spawn_agent caps trust gl wf_id uuid ts m)"
| "manager_step m (Retire aid reason) = snd (retire_agent aid reason m)"

definition manager_run :: "manager_call list \<Rightarrow> AgentManager \<Rightarrow> AgentManager" where
  "manager_run calls m = foldl manager_step m calls"

section \<open>execution/tool_executor.py\<close>

record Tool =
  tool_name :: string
  description :: string
  parameters_schema :: "(string \<times> json) list"
  required_trust_level :: TrustLevel
  timeout_seconds :: int
  rate_limit :: int

text \<open>The table \<open>trust_levels\<close> of \<open>check_authorization\<close>.\<close>

fun trust_levels :: "TrustLevel \<Rightarrow> int" where
  "trust_levels RESTRICTED = 1"
| "trust_levels STANDARD = 2"
| "trust_levels ELEVATED = 3"
| "trust_levels PRIVILEGED = 4"

definition check_authorization :: "Tool \<Rightarrow> Agent \<Rightarrow> bool" where
  "check_authorization tool agent =
     (let agent_level = trust_levels (trust_level agent);
          required_level = trust_levels (required_trust_level tool)
      in if agent_level < required_level then False
         else if ''all'' \<notin> set (allowed_tools agent)
                 \<and> tool_name tool \<notin> set (allowed_tools agent) then False
         else True)"

section \<open>execution/intelligence_fabric.py\<close>

record Task =
  task_id :: string
  task_description :: string
  task_prompt :: string
  task_context :: "(string \<times> json) list"
  critical :: bool

record LLMConfig =
  temperature :: real
  max_tokens :: int
  top_p :: real
  frequency_penalty :: real
  presence_penalty :: real
  stop_sequences :: "string list option"

subsection \<open>\<open>ModelCapabilityRegistry\<close>\<close>

text \<open>
  The registry is the store of the provider objects: the dict \<open>providers\<close>, keyed by
  \<open>provider_name:model_name\<close>. A provider object handed around by the fabric is referred
  to by its key, and is read and updated in this store.
\<close>

record ModelCapabilityRegistry =
  providers :: "(string \<times> LLMProvider) list"

definition provider_key :: "LLMProvider \<Rightarrow> string" where
  "provider_key p = provider_name p @ '':'' @ model_name p"

definition register_provider :: "LLMProvider \<Rightarrow> ModelCapabilityRegistry \<Rightarrow> ModelCapabilityRegistry" where
  "register_provider p reg = reg\<lparr>providers := dict_set (providers reg) (provider_key p) p\<rparr>"

fun role_preferences :: "LLMRole \<Rightarrow> string list" where
  "role_preferences PLANNER = [''gpt-4'', ''claude-3-opus'']"
| "role_preferences EXECUTOR = [''gpt-3.5-turbo'', ''claude-3-haiku'']"
| "role_preferences VERIFIER = [''claude-3-opus'', ''gpt-4'']"
| "role_preferences AUDITOR = [''gpt-4'', ''claude-3-sonnet'']"
| "role_preferences SYNTHESIZER = [''claude-3-opus'', ''gpt-4'']"

text \<open>
  \<open>get_providers_by_role\<close>: the providers whose model name contains a preferred model,
  in the order of the dict, then sorted (stably) by
  \<open>(-reliability_score, cost_per_token, avg_latency)\<close>.
\<close>

definition get_providers_by_role ::
  "ModelCapabilityRegistry \<Rightarrow> LLMRole \<Rightarrow> (string \<times> LLMProvider) list" where
  "get_providers_by_role reg rl =
     (let preferred_models = role_preferences rl;
          suitable_providers =
            filter (\<lambda>(k, p). list_ex (\<lambda>m. sublist m (model_name p)) preferred_models)
                   (providers reg)
      in sort_key (\<lambda>(k, p). (- reliability_score p, cost_per_token p, avg_latency p))
                  suitable_providers)"

definition update_performance :: "LLMProvider \<Rightarrow> real \<Rightarrow> bool \<Rightarrow> LLMProvider" where
  "update_performance p lat ok =
     (let p1 = p\<lparr>avg_latency := avg_latency p * 0.9 + lat * 0.1\<rparr>
      in if ok then p1\<lparr>reliability_score := min 1.0 (reliability_score p1 + 0.01)\<rparr>
         else p1\<lparr>reliability_score := max 0.0 (reliability_score p1 - 0.05)\<rparr>)"

text \<open>The feedback of a run of calls to one provider: (latency, success) for each call.\<close>

fun update_performances :: "LLMProvider \<Rightarrow> (real \<times> bool) list \<Rightarrow> LLMProvider" where
  "update_performances p [] = p"
| "update_performances p ((lat, ok) # rest) = update_performances (update_performance p lat ok) rest"

subsection \<open>\<open>IntelligenceFabric\<close>\<close>

text \<open>
  \<open>provider_instances\<close> caches one client per key; only the keys matter here. The backends
  behind \<open>provider_instance.call(prompt, config, role)\<close> are outside the repository: a
  \<open>Backend\<close> gives, for a provider key, what that provider's client does with the call at
  hand, answer with a response or raise; a provider without an entry is unreachable and its
  call raises.
\<close>

record IntelligenceFabric =
  api_keys :: "(string \<times> string) list"
  registry :: ModelCapabilityRegistry
  provider_instances :: "string list"

type_synonym Backend = "(string \<times> (py_exception + LLMResponse)) list"

definition backend_call ::
  "Backend \<Rightarrow> string \<Rightarrow> string \<Rightarrow> LLMConfig \<Rightarrow> LLMRole \<Rightarrow> py_exception + LLMResponse" where
  "backend_call backend k pr config rl =
     (case dict_get backend k of
        Some r \<Rightarrow> r
      | None \<Rightarrow> Inl (Exception ''provider unreachable''))"

text \<open>\<open>LLMProviderFactory.create\<close>: the vendors with a client class.\<close>

definition factory_supports :: "LLMProvider \<Rightarrow> bool" where
  "factory_supports p = (lower (provider_name p) \<in> set [''openai'', ''anthropic'', ''google''])"

text \<open>
  \<open>call_llm\<close> for the provider object with key \<open>k\<close>. The two ValueErrors (no API key,
  unsupported vendor) are raised before the \<open>try\<close>, so they leave the performance record
  untouched. The response returned by a client holds the provider object itself, which
  \<open>update_performance\<close> has just changed.
\<close>

definition call_llm ::
  "Backend \<Rightarrow> string \<Rightarrow> string \<Rightarrow> LLMConfig \<Rightarrow> LLMRole \<Rightarrow> IntelligenceFabric
     \<Rightarrow> (py_exception + LLMResponse) \<times> IntelligenceFabric" where
  "call_llm backend k pr config rl fab =
     (case dict_get (providers (registry fab)) k of
        None \<Rightarrow> (Inl (KeyError k), fab)
      | Some p \<Rightarrow>
          (let ready =
                 (if k \<notin> set (provider_instances fab) then
                    (case dict_get (api_keys fab) (provider_name p) of
                       None \<Rightarrow> Inl (ValueError (''No API key for provider '' @ provider_name p))
                     | Some api_key \<Rightarrow>
                         if api_key = []
                           then Inl (ValueError (''No API key for provider '' @ provider_name p))
                         else if \<not> factory_supports p
                           then Inl (ValueError (''Unsupported provider: '' @ provider_name p))
                         else Inr (fab\<lparr>provider_instances := provider_instances fab @ [k]\<rparr>))
                  else Inr fab)
           in case ready of
                Inl e \<Rightarrow> (Inl e, fab)
              | Inr fab1 \<Rightarrow>
                  (case backend_call backend k pr config rl of
                     Inr resp \<Rightarrow>
                       (let p' = update_performance p (latency resp) True
                        in (Inr (resp\<lparr>provider := p'\<rparr>),
                            fab1\<lparr>registry := (registry fab1)
                                   \<lparr>providers := dict_set (providers (registry fab1)) k p'\<rparr>\<rparr>))
                   | Inl e \<Rightarrow>
                       (let p' = update_performance p 0.0 False
                        in (Inl e,
                            fab1\<lparr>registry := (registry fab1)
                                   \<lparr>providers := dict_set (providers (registry fab1)) k p'\<rparr>\<rparr>)))))"

text \<open>
  The condition under which \<open>call_llm\<close> gets past the two ValueErrors and into its
  \<open>try\<close>: a client is cached for the key, or one can be made (an API key that is not
  empty, a vendor the factory knows).
\<close>

definition can_instantiate :: "IntelligenceFabric \<Rightarrow> string \<Rightarrow> LLMProvider \<Rightarrow> bool" where
  "can_instantiate fab k p =
     (k \<in> set (provider_instances fab)
      \<or> (case dict_get (api_keys fab) (provider_name p) of
            None \<Rightarrow> False
          | Some api_key \<Rightarrow> api_key \<noteq> [] \<and> factory_supports p))"

subsection \<open>\<open>IntelligenceFabric.execute_with_fallback\<close>\<close>

fun fallback_loop ::
  "Backend \<Rightarrow> string list \<Rightarrow> string \<Rightarrow> LLMConfig \<Rightarrow> LLMRole \<Rightarrow> py_exception option
     \<Rightarrow> IntelligenceFabric \<Rightarrow> (py_exception + LLMResponse) \<times> IntelligenceFabric" where
  "fallback_loop backend [] pr config rl last_error fab =
     (Inl (Exception (''All LLM providers failed: ''
                        @ (case last_error of None \<Rightarrow> ''None'' | Some e \<Rightarrow> str_exc e))), fab)"
| "fallback_loop backend (k # ks) pr config rl last_error fab =
     (case call_llm backend k pr config rl fab of
        (Inr resp, fab') \<Rightarrow> (Inr resp, fab')
      | (Inl e, fab') \<Rightarrow> fallback_loop backend ks pr config rl (Some e) fab')"

definition execute_with_fallback ::
  "Backend \<Rightarrow> Task \<Rightarrow> LLMRole \<Rightarrow> LLMConfig \<Rightarrow> IntelligenceFabric
     \<Rightarrow> (py_exception + LLMResponse) \<times> IntelligenceFabric" where
  "execute_with_fallback backend task rl config fab =
     fallback_loop backend (map fst (get_providers_by_role (registry fab) rl))
       (task_prompt task) config rl None fab"

subsection \<open>\<open>IntelligenceFabric.cross_verify\<close>\<close>

text \<open>
  \<open>SequenceMatcher(None, a, b).ratio()\<close> of \<open>difflib\<close> is the parameter \<open>ratio\<close>.
  The double loop collects the similarities of the pairs \<open>(i, j)\<close>, \<open>i < j\<close>, row by row.
\<close>

fun pair_similarities :: "(string \<Rightarrow> string \<Rightarrow> real) \<Rightarrow> LLMResponse list \<Rightarrow> real list" where
  "pair_similarities ratio [] = []"
| "pair_similarities ratio (r # rs) =
     map (\<lambda>r'. ratio (response r) (response r')) rs @ pair_similarities ratio rs"

text \<open>\<open>max(responses, key=lambda r: r.confidence)\<close>: the first response of maximal confidence.\<close>

fun max_confidence :: "LLMResponse \<Rightarrow> LLMResponse list \<Rightarrow> LLMResponse" where
  "max_confidence best [] = best"
| "max_confidence best (r # rs) =
     max_confidence (if confidence r > confidence best then r else best) rs"

text \<open>
  The loop over \<open>enumerate(responses)\<close>: position \<open>i\<close> reads \<open>similarities[i]\<close>, or \<open>0\<close>
  when \<open>i\<close> is past the end of \<open>similarities\<close>.
\<close>

fun collect_discrepancies ::
  "real list \<Rightarrow> LLMResponse \<Rightarrow> nat \<Rightarrow> LLMResponse list \<Rightarrow> discrepancy list" where
  "collect_discrepancies similarities selected i [] = []"
| "collect_discrepancies similarities selected i (r # rs) =
     (if r \<noteq> selected
        then [Disagreed (model_name (provider r))
                (if i < length similarities then similarities ! i else 0)]
        else [])
     @ collect_discrepancies similarities selected (Suc i) rs"

definition cross_verify ::
  "(string \<Rightarrow> string \<Rightarrow> real) \<Rightarrow> Task \<Rightarrow> LLMResponse list \<Rightarrow> VerificationResult" where
  "cross_verify ratio task responses =
     (if length responses < 2 then
        \<lparr>consensus = True,
         selected_response = (case responses of [] \<Rightarrow> None | r # rs \<Rightarrow> Some r),
         discrepancies = [],
         vr_confidence = (case responses of [] \<Rightarrow> 0 | r # rs \<Rightarrow> confidence r)\<rparr>
      else
        (let similarities = pair_similarities ratio responses;
             avg_similarity = (if similarities \<noteq> []
                               then sum_list similarities / real (length similarities) else 0);
             consensus' = (avg_similarity > 0.7);
             selected = max_confidence (hd responses) (tl responses);
             discrepancies' = (if \<not> consensus'
                               then collect_discrepancies similarities selected 0 responses
                               else [])
         in \<lparr>consensus = consensus',
             selected_response = Some selected,
             discrepancies = discrepancies',
             vr_confidence = (if consensus' then confidence selected
                              else confidence selected * 0.5)\<rparr>))"

section \<open>Properties of the orchestrator's failure handling\<close>

lemma sublist_lower:
  assumes "sublist k s" and "lower k = k"
  shows "sublist k (lower s)"
proof -
  from assms(1) have "sublist (map lower_char k) (map lower_char s)"
    by (rule map_mono_sublist)
  with assms(2) show ?thesis by (simp add: lower_def)
qed

lemma publish_ok:
  "publish_succeeds bus \<Longrightarrow> fst (publish t p bus) = Inr ()"
  by (auto simp: publish_succeeds_def publish_def split: list.splits option.splits)

lemma handle_failure_returned:
  assumes "handle_failure step error bus = (Inr ra, bus')"
  shows "action_type ra =
           (case classify_failure error of TRANSIENT \<Rightarrow> ''retry'' | MODEL_ERROR \<Rightarrow> ''llm_swap''
            | TOOL_ERROR \<Rightarrow> ''agent_swap'' | _ \<Rightarrow> ''escalate'')"
  using assms
  by (cases "classify_failure error")
     (auto simp: handle_failure_def Let_def split: prod.splits sum.splits)

lemma handle_failure_returns:
  assumes "publish_succeeds bus"
  shows "\<exists>ra bus'. handle_failure step error bus = (Inr ra, bus')"
proof -
  obtain r b where pb: "publish ''workflow.recovery_triggered''
                       [(''step_id'', JStr (step_id step)),
                        (''failure_type'', JStr (FailureType_value (classify_failure error)))]
                       bus = (r, b)"
    by (cases "publish ''workflow.recovery_triggered''
                       [(''step_id'', JStr (step_id step)),
                        (''failure_type'', JStr (FailureType_value (classify_failure error)))]
                       bus")
  with publish_ok[OF assms, of "''workflow.recovery_triggered''"] have "r = Inr ()"
    by (metis fst_conv)
  with pb show ?thesis
    by (simp add: handle_failure_def Let_def)
qed

lemma handle_failure_raises:
  assumes "bus_faults bus = Some m # fs"
  shows "handle_failure step error bus = (Inl (RedisError m), bus\<lparr>bus_faults := fs\<rparr>)"
  using assms by (simp add: handle_failure_def publish_def Let_def)

lemma handle_failure_publishes:
  assumes "handle_failure step error bus = (Inr ra, bus')"
  shows "published bus' = published bus
           @ [(''workflow.recovery_triggered'',
               [(''step_id'', JStr (step_id step)),
                (''failure_type'', JStr (FailureType_value (classify_failure error)))])]"
  using assms
  by (auto simp: handle_failure_def publish_def Let_def
           split: list.splits option.splits if_splits)

lemma classify_never_transient: "classify_failure error \<noteq> TRANSIENT"
  by (simp add: classify_failure_def Let_def)

text \<open>
  C2, as stated: for every error \<open>handle_failure\<close> maps the classification to a recovery
  action. The \<open>workflow.recovery_triggered\<close> publish comes first and is not guarded: when it
  raises, \<open>handle_failure\<close> raises with it and returns no action, here for an error that
  would escalate.
\<close>

theorem handle_failure_publish_raises_counterexample:
  "fst (handle_failure (new_WorkflowStep ''B'' ''goal'' [] []) (Exception ''model timeout'')
          \<lparr>published = [], bus_faults = [Some ''connection refused'']\<rparr>)
     = Inl (RedisError ''connection refused'')"
  by (simp add: handle_failure_raises)

text \<open>
  C2, amended. \<open>_classify_failure\<close> decides by the first substring found in the lowercased
  text \<open>str(error)\<close>, in the order \<open>timeout\<close>; \<open>rate limit\<close> or \<open>quota\<close>; \<open>policy\<close> or
  \<open>unauthorized\<close>; \<open>model\<close> or \<open>llm\<close>; \<open>tool\<close>; and answers \<open>UNKNOWN\<close> when none occurs.
  When its \<open>workflow.recovery_triggered\<close> event can be published, \<open>handle_failure\<close>
  publishes it and returns the action retry for \<open>TRANSIENT\<close>, llm_swap for \<open>MODEL_ERROR\<close>,
  agent_swap for \<open>TOOL_ERROR\<close> and escalate for every other type; when that publish raises,
  \<open>handle_failure\<close> raises the same error and returns no action. An error whose text contains
  both \<open>model\<close> and \<open>timeout\<close> is classified \<open>TIMEOUT\<close> and, its event published, escalates.
\<close>

theorem handle_failure_classification:
  "(let s = lower (str_exc error) in
      (sublist ''timeout'' s \<longrightarrow> classify_failure error = TIMEOUT)
    \<and> (\<not> sublist ''timeout'' s \<and> (sublist ''rate limit'' s \<or> sublist ''quota'' s)
          \<longrightarrow> classify_failure error = RESOURCE_EXHAUSTION)
    \<and> (\<not> sublist ''timeout'' s \<and> \<not> sublist ''rate limit'' s \<and> \<not> sublist ''quota'' s
          \<and> (sublist ''policy'' s \<or> sublist ''unauthorized'' s)
          \<longrightarrow> classify_failure error = POLICY_VIOLATION)
    \<and> (\<not> sublist ''timeout'' s \<and> \<not> sublist ''rate limit'' s \<and> \<not> sublist ''quota'' s
          \<and> \<not> sublist ''policy'' s \<and> \<not> sublist ''unauthorized'' s
          \<and> (sublist ''model'' s \<or> sublist ''llm'' s)
          \<longrightarrow> classify_failure error = MODEL_ERROR)
    \<and> (\<not> sublist ''timeout'' s \<and> \<not> sublist ''rate limit'' s \<and> \<not> sublist ''quota'' s
          \<and> \<not> sublist ''policy'' s \<and> \<not> sublist ''unauthorized'' s
          \<and> \<not> sublist ''model'' s \<and> \<not> sublist ''llm'' s \<and> sublist ''tool'' s
          \<longrightarrow> classify_failure error = TOOL_ERROR)
    \<and> (\<not> sublist ''timeout'' s \<and> \<not> sublist ''rate limit'' s \<and> \<not> sublist ''quota'' s
          \<and> \<not> sublist ''policy'' s \<and> \<not> sublist ''unauthorized'' s
          \<and> \<not> sublist ''model'' s \<and> \<not> sublist ''llm'' s \<and> \<not> sublist ''tool'' s
          \<longrightarrow> classify_failure error = UNKNOWN))
   \<and> (publish_succeeds bus \<longrightarrow>
        (\<exists>ra bus'. handle_failure step error bus = (Inr ra, bus')
           \<and> published bus' = published bus
                 @ [(''workflow.recovery_triggered'',
                     [(''step_id'', JStr (step_id step)),
                      (''failure_type'', JStr (FailureType_value (classify_failure error)))])]
           \<and> action_type ra =
               (case classify_failure error of
                  TRANSIENT \<Rightarrow> ''retry''
                | MODEL_ERROR \<Rightarrow> ''llm_swap''
                | TOOL_ERROR \<Rightarrow> ''agent_swap''
                | _ \<Rightarrow> ''escalate'')))
   \<and> (bus_faults bus = Some m # fs \<longrightarrow>
        handle_failure step error bus = (Inl (RedisError m), bus\<lparr>bus_faults := fs\<rparr>))
   \<and> (sublist ''model'' (str_exc error) \<and> sublist ''timeout'' (str_exc error)
        \<and> publish_succeeds bus \<longrightarrow>
        classify_failure error = TIMEOUT
        \<and> (\<exists>ra bus'. handle_failure step error bus = (Inr ra, bus')
              \<and> action_type ra = ''escalate''))"
proof -
  have table: "publish_succeeds bus \<Longrightarrow>
        (\<exists>ra bus'. handle_failure step error bus = (Inr ra, bus')
           \<and> published bus' = published bus
                 @ [(''workflow.recovery_triggered'',
                     [(''step_id'', JStr (step_id step)),
                      (''failure_type'', JStr (FailureType_value (classify_failure error)))])]
           \<and> action_type ra =
               (case classify_failure error of
                  TRANSIENT \<Rightarrow> ''retry''
                | MODEL_ERROR \<Rightarrow> ''llm_swap''
                | TOOL_ERROR \<Rightarrow> ''agent_swap''
                | _ \<Rightarrow> ''escalate''))"
    using handle_failure_returns handle_failure_returned handle_failure_publishes by blast
  have raises: "bus_faults bus = Some m # fs \<Longrightarrow>
        handle_failure step error bus = (Inl (RedisError m), bus\<lparr>bus_faults := fs\<rparr>)"
    by (rule handle_failure_raises)
  have both: "classify_failure error = TIMEOUT" if "sublist ''timeout'' (str_exc error)"
  proof -
    have "lower ''timeout'' = ''timeout''"
      by code_simp
    with that have "sublist ''timeout'' (lower (str_exc error))"
      by (rule sublist_lower)
    then show ?thesis by (simp add: classify_failure_def)
  qed
  have esc: "\<exists>ra bus'. handle_failure step error bus = (Inr ra, bus')
              \<and> action_type ra = ''escalate''"
    if "sublist ''timeout'' (str_exc error)" "publish_succeeds bus"
    using table[OF that(2)] both[OF that(1)] by auto
  show ?thesis
    unfolding Let_def
    using table both esc raises by (simp add: classify_failure_def)
qed

theorem handle_failure_classification_witness:
  "classify_failure (Exception ''Model TIMEOUT after 30s'') = TIMEOUT
   \<and> classify_failure (Exception ''Rate limit hit for model'') = RESOURCE_EXHAUSTION
   \<and> classify_failure (Exception ''Unauthorized tool'') = POLICY_VIOLATION
   \<and> classify_failure (Exception ''LLM returned garbage'') = MODEL_ERROR
   \<and> classify_failure (Exception ''Tool crashed'') = TOOL_ERROR
   \<and> classify_failure (Exception ''disk full'') = UNKNOWN
   \<and> classify_failure (KeyError (CHR 0x09 # ''ool'')) = TOOL_ERROR
   \<and> handle_failure (new_WorkflowStep ''B'' ''goal'' [] []) (Exception ''model timeout'')
         \<lparr>published = [], bus_faults = [Some ''connection refused'']\<rparr>
       = (Inl (RedisError ''connection refused''), \<lparr>published = [], bus_faults = []\<rparr>)
   \<and> sublist ''model'' ''model timeout'' \<and> sublist ''timeout'' ''model timeout''
   \<and> publish_succeeds EventBus_init
   \<and> classify_failure (Exception ''model timeout'') = TIMEOUT
   \<and> (\<exists>ra bus'.
         handle_failure (new_WorkflowStep ''B'' ''goal'' [] []) (Exception ''model timeout'')
           EventBus_init = (Inr ra, bus')
         \<and> action_type ra = ''escalate'')"
proof -
  have lw: "lower ''Model TIMEOUT after 30s'' = ''model timeout after 30s''"
    "lower ''Rate limit hit for model'' = ''rate limit hit for model''"
    "lower ''Unauthorized tool'' = ''unauthorized tool''"
    "lower ''LLM returned garbage'' = ''llm returned garbage''"
    "lower ''Tool crashed'' = ''tool crashed''"
    "lower ''disk full'' = ''disk full''"
    "lower (py_repr (CHR 0x09 # ''ool'')) = [CHR 0x27, CHR 0x5C] @ ''tool'' @ [CHR 0x27]"
    by code_simp+
  note ev = Let_def lw(1-6) sublist_code(3) publish_succeeds_def EventBus_init_def
  have 1: "classify_failure (Exception ''Model TIMEOUT after 30s'') = TIMEOUT"
    using handle_failure_classification [of "Exception ''Model TIMEOUT after 30s''"]
    by (simp add: ev)
  have 2: "classify_failure (Exception ''Rate limit hit for model'') = RESOURCE_EXHAUSTION"
    using handle_failure_classification [of "Exception ''Rate limit hit for model''"]
    by (simp add: ev)
  have 3: "classify_failure (Exception ''Unauthorized tool'') = POLICY_VIOLATION"
    using handle_failure_classification [of "Exception ''Unauthorized tool''"]
    by (simp add: ev)
  have 4: "classify_failure (Exception ''LLM returned garbage'') = MODEL_ERROR"
    using handle_failure_classification [of "Exception ''LLM returned garbage''"]
    by (simp add: ev)
  have 5: "classify_failure (Exception ''Tool crashed'') = TOOL_ERROR"
    using handle_failure_classification [of "Exception ''Tool crashed''"]
    by (simp add: ev)
  have 6: "classify_failure (Exception ''disk full'') = UNKNOWN"
    using handle_failure_classification [of "Exception ''disk full''"]
    by (simp add: ev)
  have k1: "classify_failure (KeyError (CHR 0x09 # ''ool'')) = TOOL_ERROR"
    using handle_failure_classification [of "KeyError (CHR 0x09 # ''ool'')"]
    by (simp add: Let_def lw(7) sublist_code(3))
  have k2: "handle_failure (new_WorkflowStep ''B'' ''goal'' [] []) (Exception ''model timeout'')
         \<lparr>published = [], bus_faults = [Some ''connection refused'']\<rparr>
       = (Inl (RedisError ''connection refused''), \<lparr>published = [], bus_faults = []\<rparr>)"
    using handle_failure_classification [of "Exception ''model timeout''"
        "\<lparr>published = [], bus_faults = [Some ''connection refused'']\<rparr>"
        "new_WorkflowStep ''B'' ''goal'' [] []" "''connection refused''" "[]"]
    by simp
  have 7: "sublist ''model'' ''model timeout'' \<and> sublist ''timeout'' ''model timeout''
           \<and> publish_succeeds EventBus_init"
    by (simp add: ev)
  with handle_failure_classification [of "Exception ''model timeout''" EventBus_init
      "new_WorkflowStep ''B'' ''goal'' [] []"]
  have 8: "classify_failure (Exception ''model timeout'') = TIMEOUT
   \<and> (\<exists>ra bus'.
         handle_failure (new_WorkflowStep ''B'' ''goal'' [] []) (Exception ''model timeout'')
           EventBus_init = (Inr ra, bus')
         \<and> action_type ra = ''escalate'')"
    by simp
  from 1 2 3 4 5 6 k1 k2 7 8 show ?thesis by blast
qed

text \<open>
  C10. The classifier has no branch that answers \<open>TRANSIENT\<close>; so whenever \<open>handle_failure\<close>
  returns an action, it is llm_swap, agent_swap or escalate, and never retry.
\<close>

theorem classifier_never_transient:
  "classify_failure error \<noteq> TRANSIENT
   \<and> (\<forall>ra bus'. handle_failure step error bus = (Inr ra, bus') \<longrightarrow>
          action_type ra \<noteq> ''retry''
          \<and> action_type ra \<in> {''llm_swap'', ''agent_swap'', ''escalate''})"
proof (intro conjI allI impI)
  show nt: "classify_failure error \<noteq> TRANSIENT"
    by (rule classify_never_transient)
  fix ra bus'
  assume "handle_failure step error bus = (Inr ra, bus')"
  from handle_failure_returned[OF this] nt
  have a: "action_type ra \<in> {''llm_swap'', ''agent_swap'', ''escalate''}"
    by (cases "classify_failure error") simp_all
  then show "action_type ra \<in> {''llm_swap'', ''agent_swap'', ''escalate''}" .
  from a show "action_type ra \<noteq> ''retry''" by auto
qed

theorem classifier_never_transient_witness:
  "handle_failure (new_WorkflowStep ''B'' ''goal'' [] []) (Exception ''transient network blip'')
       EventBus_init
     = (Inr \<lparr>action_type = ''escalate'',
             details = [(''step_id'', JStr ''B''), (''error'', JStr ''transient network blip'')]\<rparr>,
        \<lparr>published = [(''workflow.recovery_triggered'',
                        [(''step_id'', JStr ''B''), (''failure_type'', JStr ''unknown'')])],
         bus_faults = []\<rparr>)
   \<and> action_type \<lparr>action_type = ''escalate'',
             details = [(''step_id'', JStr ''B''), (''error'', JStr ''transient network blip'')]\<rparr>
        \<noteq> ''retry''"
proof -
  have lw: "lower ''transient network blip'' = ''transient network blip''"
    by code_simp
  show ?thesis
    using classifier_never_transient [of "Exception ''transient network blip''"
      "new_WorkflowStep ''B'' ''goal'' [] []" EventBus_init]
    by (simp add: handle_failure_def classify_failure_def Let_def lw
      sublist_code(3) publish_def EventBus_init_def new_WorkflowStep_def)
qed

section \<open>Properties of the agent lifecycle manager: tool permissions\<close>

lemma authorized_iff:
  "check_authorization tool a \<longleftrightarrow>
     trust_levels (required_trust_level tool) \<le> trust_levels (trust_level a)
     \<and> (''all'' \<in> set (allowed_tools a) \<or> tool_name tool \<in> set (allowed_tools a))"
  by (auto simp: check_authorization_def Let_def)

text \<open>
  C4, as stated: the allowed-tool list of a lower trust level is contained in the list of
  every higher one. This fails for the pair elevated, privileged: the list of privileged is
  the single entry \<open>all\<close>.
\<close>

theorem allowed_tools_not_nested_counterexample:
  "\<not> set (get_allowed_tools ELEVATED) \<subseteq> set (get_allowed_tools PRIVILEGED)"
  by simp

text \<open>
  C4, amended. For trust levels \<open>T1 < T2\<close> (in the order of the table \<open>trust_levels\<close>):
  if \<open>T2\<close> is not privileged, the list of \<open>T1\<close> is contained in the list of \<open>T2\<close>; the list
  of privileged is \<open>[all]\<close>, which \<open>check_authorization\<close> reads as every tool; and every tool
  that \<open>check_authorization\<close> grants to an agent of level \<open>T1\<close> holding the list of \<open>T1\<close> is
  granted to an agent of level \<open>T2\<close> holding the list of \<open>T2\<close>.
\<close>

theorem allowed_tools_monotone:
  assumes "trust_levels t1 < trust_levels t2"
  shows "(t2 \<noteq> PRIVILEGED \<longrightarrow> set (get_allowed_tools t1) \<subseteq> set (get_allowed_tools t2))
       \<and> (t2 = PRIVILEGED \<longrightarrow> get_allowed_tools t2 = [''all''])
       \<and> (\<forall>tool a1 a2.
             trust_level a1 = t1 \<and> allowed_tools a1 = get_allowed_tools t1
             \<and> trust_level a2 = t2 \<and> allowed_tools a2 = get_allowed_tools t2
             \<and> check_authorization tool a1
             \<longrightarrow> check_authorization tool a2)"
proof (intro conjI allI impI)
  assume "t2 \<noteq> PRIVILEGED"
  with assms show "set (get_allowed_tools t1) \<subseteq> set (get_allowed_tools t2)"
    by (cases t1; cases t2) auto
next
  assume "t2 = PRIVILEGED"
  then show "get_allowed_tools t2 = [''all'']" by simp
next
  fix tool and a1 a2 :: Agent
  assume h: "trust_level a1 = t1 \<and> allowed_tools a1 = get_allowed_tools t1
             \<and> trust_level a2 = t2 \<and> allowed_tools a2 = get_allowed_tools t2
             \<and> check_authorization tool a1"
  with assms show "check_authorization tool a2"
    by (cases t1; cases t2) (auto simp: authorized_iff)
qed

theorem allowed_tools_monotone_witness:
  "trust_levels ELEVATED < trust_levels PRIVILEGED
   \<and> trust_levels RESTRICTED < trust_levels STANDARD
   \<and> set (get_allowed_tools RESTRICTED) \<subseteq> set (get_allowed_tools STANDARD)
   \<and> check_authorization
        \<lparr>tool_name = ''execute_command'', description = ''Run a shell command'',
         parameters_schema = [], required_trust_level = ELEVATED,
         timeout_seconds = 60, rate_limit = 100\<rparr>
        \<lparr>agent_id = ''a1'', goal = ''g'', capabilities = [],
         allowed_tools = get_allowed_tools ELEVATED, preferred_llm_roles = [],
         trust_level = ELEVATED, memory_scope = ''session'', confidence_threshold = 0.75,
         failure_history = [], created_at = ''t'', status = READY\<rparr>
   \<and> check_authorization
        \<lparr>tool_name = ''execute_command'', description = ''Run a shell command'',
         parameters_schema = [], required_trust_level = ELEVATED,
         timeout_seconds = 60, rate_limit = 100\<rparr>
        \<lparr>agent_id = ''a2'', goal = ''g'', capabilities = [],
         allowed_tools = get_allowed_tools PRIVILEGED, preferred_llm_roles = [],
         trust_level = PRIVILEGED, memory_scope = ''session'', confidence_threshold = 0.75,
         failure_history = [], created_at = ''t'', status = READY\<rparr>"
proof -
  have lt: "trust_levels ELEVATED < trust_levels PRIVILEGED"
    "trust_levels RESTRICTED < trust_levels STANDARD" by simp_all
  have a1: "check_authorization
        \<lparr>tool_name = ''execute_command'', description = ''Run a shell command'',
         parameters_schema = [], required_trust_level = ELEVATED,
         timeout_seconds = 60, rate_limit = 100\<rparr>
        \<lparr>agent_id = ''a1'', goal = ''g'', capabilities = [],
         allowed_tools = get_allowed_tools ELEVATED, preferred_llm_roles = [],
         trust_level = ELEVATED, memory_scope = ''session'', confidence_threshold = 0.75,
         failure_history = [], created_at = ''t'', status = READY\<rparr>"
    by (simp add: check_authorization_def)
  from allowed_tools_monotone[OF lt(1)] a1
  have a2: "check_authorization
        \<lparr>tool_name = ''execute_command'', description = ''Run a shell command'',
         parameters_schema = [], required_trust_level = ELEVATED,
         timeout_seconds = 60, rate_limit = 100\<rparr>
        \<lparr>agent_id = ''a2'', goal = ''g'', capabilities = [],
         allowed_tools = get_allowed_tools PRIVILEGED, preferred_llm_roles = [],
         trust_level = PRIVILEGED, memory_scope = ''session'', confidence_threshold = 0.75,
         failure_history = [], created_at = ''t'', status = READY\<rparr>"
    by (metis Agent.select_convs(4,6))
  from allowed_tools_monotone[OF lt(2)]
  have s: "set (get_allowed_tools RESTRICTED) \<subseteq> set (get_allowed_tools STANDARD)"
    by simp
  from lt a1 a2 s show ?thesis by blast
qed

section \<open>Properties of the routing fabric: performance feedback\<close>

lemma successes_monotone:
  "reliability_score p \<le> 1 \<Longrightarrow> \<forall>x \<in> set fb. snd x \<Longrightarrow>
     reliability_score p \<le> reliability_score (update_performances p fb)
     \<and> reliability_score (update_performances p fb) \<le> 1"
proof (induction fb arbitrary: p)
  case Nil
  then show ?case by simp
next
  case (Cons x fb)
  obtain lat ok where x: "x = (lat, ok)" by (cases x)
  with Cons.prems have ok by simp
  let ?q = "update_performance p lat True"
  have q: "reliability_score p \<le> reliability_score ?q" "reliability_score ?q \<le> 1"
    using Cons.prems(1) by (auto simp: update_performance_def Let_def)
  from Cons.IH[OF q(2)] Cons.prems(2)
  have "reliability_score ?q \<le> reliability_score (update_performances ?q fb)
     \<and> reliability_score (update_performances ?q fb) \<le> 1" by simp
  with q x \<open>ok\<close> show ?case by simp
qed

lemma successes_increase:
  assumes "reliability_score p < 1" "fb \<noteq> []" "\<forall>x \<in> set fb. snd x"
  shows "reliability_score p < reliability_score (update_performances p fb)"
proof -
  from assms(2) obtain lat ok rest where fb: "fb = (lat, ok) # rest"
    by (cases fb) auto
  with assms(3) have ok and rest: "\<forall>x \<in> set rest. snd x" by auto
  let ?q = "update_performance p lat True"
  have q: "reliability_score p < reliability_score ?q" "reliability_score ?q \<le> 1"
    using assms(1) by (auto simp: update_performance_def Let_def)
  from successes_monotone[OF q(2) rest] q(1) fb \<open>ok\<close> show ?thesis by simp
qed

text \<open>
  C8. A successful call sets the reliability to \<open>min(1.0, old + 0.01)\<close>, a failed one to
  \<open>max(0.0, old - 0.05)\<close>; the average latency becomes \<open>0.9 * old + 0.1 * new\<close>. So the
  reliability strictly increases by a success while below 1, strictly decreases by a failure
  while above 0, and is strictly higher than at the start after any non-empty run of
  successes begun below 1.
\<close>

theorem update_performance_feedback:
  "reliability_score (update_performance p lat True) = min 1 (reliability_score p + 0.01)
   \<and> reliability_score (update_performance p lat False) = max 0 (reliability_score p - 0.05)
   \<and> avg_latency (update_performance p lat ok) = 0.9 * avg_latency p + 0.1 * lat
   \<and> (reliability_score p < 1 \<longrightarrow>
        reliability_score p < reliability_score (update_performance p lat True))
   \<and> (0 < reliability_score p \<longrightarrow>
        reliability_score (update_performance p lat False) < reliability_score p)
   \<and> (reliability_score p < 1 \<and> fb \<noteq> [] \<and> (\<forall>x \<in> set fb. snd x) \<longrightarrow>
        reliability_score p < reliability_score (update_performances p fb))"
  using successes_increase[of p fb]
  by (auto simp: update_performance_def Let_def)

theorem update_performance_feedback_witness:
  "reliability_score
     (update_performance
        \<lparr>provider_id = ''p1'', provider_name = ''openai'', model_name = ''gpt-4'',
         api_endpoint = ''https://api.openai.com/v1'', cost_per_token = 0.00003,
         avg_latency = 1, reliability_score = 0.5,
         provider_capabilities = [''reasoning'', ''planning'', ''analysis'']\<rparr> 2 True) = 0.51
   \<and> reliability_score
     (update_performance
        \<lparr>provider_id = ''p1'', provider_name = ''openai'', model_name = ''gpt-4'',
         api_endpoint = ''https://api.openai.com/v1'', cost_per_token = 0.00003,
         avg_latency = 1, reliability_score = 0.5,
         provider_capabilities = [''reasoning'', ''planning'', ''analysis'']\<rparr> 2 False) = 0.45
   \<and> avg_latency
     (update_performance
        \<lparr>provider_id = ''p1'', provider_name = ''openai'', model_name = ''gpt-4'',
         api_endpoint = ''https://api.openai.com/v1'', cost_per_token = 0.00003,
         avg_latency = 1, reliability_score = 0.5,
         provider_capabilities = [''reasoning'', ''planning'', ''analysis'']\<rparr> 2 True) = 1.1
   \<and> (0.5 :: real) < reliability_score
     (update_performances
        \<lparr>provider_id = ''p1'', provider_name = ''openai'', model_name = ''gpt-4'',
         api_endpoint = ''https://api.openai.com/v1'', cost_per_token = 0.00003,
         avg_latency = 1, reliability_score = 0.5,
         provider_capabilities = [''reasoning'', ''planning'', ''analysis'']\<rparr>
        [(2, True), (3, True), (1, True)])"
  using update_performance_feedback
    [of "\<lparr>provider_id = ''p1'', provider_name = ''openai'', model_name = ''gpt-4'',
         api_endpoint = ''https://api.openai.com/v1'', cost_per_token = 0.00003,
         avg_latency = 1, reliability_score = 0.5,
         provider_capabilities = [''reasoning'', ''planning'', ''analysis'']\<rparr>"
        2 True "[(2, True), (3, True), (1, True)]"]
  by simp


section \<open>Properties of the routing fabric: cross-verification\<close>

lemma max_confidence_in: "max_confidence best rs \<in> set (best # rs)"
  by (induction rs arbitrary: best) auto

lemma max_confidence_ge_best: "confidence best \<le> confidence (max_confidence best rs)"
proof (induction rs arbitrary: best)
  case Nil
  then show ?case by simp
next
  case (Cons x rs)
  show ?case
  proof (cases "confidence x > confidence best")
    case True
    with Cons.IH[of x] show ?thesis by simp
  next
    case False
    with Cons.IH[of best] show ?thesis by simp
  qed
qed

lemma max_confidence_ge:
  "r \<in> set rs \<Longrightarrow> confidence r \<le> confidence (max_confidence best rs)"
proof (induction rs arbitrary: best)
  case Nil
  then show ?case by simp
next
  case (Cons x rs)
  show ?case
  proof (cases "r = x")
    case True
    show ?thesis
    proof (cases "confidence x > confidence best")
      case True
      with \<open>r = x\<close> max_confidence_ge_best[of x rs] show ?thesis by simp
    next
      case False
      with \<open>r = x\<close> max_confidence_ge_best[of best rs] show ?thesis by simp
    qed
  next
    case False
    with Cons.prems have "r \<in> set rs" by simp
    from Cons.IH[OF this] show ?thesis by simp
  qed
qed

lemma cross_verify_pair_disagreeing:
  assumes "ratio (response r0) (response r1) \<le> 0.7"
    and "confidence r1 \<le> confidence r0" and "r1 \<noteq> r0"
  shows "cross_verify ratio task [r0, r1] =
           \<lparr>consensus = False, selected_response = Some r0,
            discrepancies = [Disagreed (model_name (provider r1)) 0],
            vr_confidence = confidence r0 * 0.5\<rparr>"
  using assms by (simp add: cross_verify_def Let_def)

lemma discrepancy_names:
  "map (\<lambda>d. case d of Disagreed n s \<Rightarrow> n) (collect_discrepancies sims sel i rs)
     = map (\<lambda>r. model_name (provider r)) (filter (\<lambda>r. r \<noteq> sel) rs)"
  by (induction rs arbitrary: i) auto

lemma pair_similarities_nonempty:
  "2 \<le> length rs \<Longrightarrow> pair_similarities ratio rs \<noteq> []"
  by (cases rs; cases "tl rs") auto

text \<open>
  C6. \<open>cross_verify\<close> reports consensus for the empty list and for a single response. For
  two responses with identical texts, to which the similarity measure gives 1 (as \<open>difflib\<close>
  does for identical sequences), it reports consensus and the higher of the two confidences.
\<close>

theorem cross_verify_small_inputs:
  "consensus (cross_verify ratio task [])
   \<and> consensus (cross_verify ratio task [r])
   \<and> (response r1 = response r2 \<and> ratio (response r1) (response r1) = 1 \<longrightarrow>
        consensus (cross_verify ratio task [r1, r2])
        \<and> vr_confidence (cross_verify ratio task [r1, r2])
            = max (confidence r1) (confidence r2))"
  by (auto simp: cross_verify_def Let_def)

theorem cross_verify_small_inputs_witness:
  "consensus
     (cross_verify (\<lambda>a b. if a = b then 1 else 0)
       \<lparr>task_id = ''t1'', task_description = ''check'', task_prompt = ''Is the plan safe?'',
        task_context = [], critical = True\<rparr>
       [])
   \<and> consensus
     (cross_verify (\<lambda>a b. if a = b then 1 else 0)
       \<lparr>task_id = ''t1'', task_description = ''check'', task_prompt = ''Is the plan safe?'',
        task_context = [], critical = True\<rparr>
       [\<lparr>provider =
          \<lparr>provider_id = ''p1'', provider_name = ''openai'', model_name = ''gpt-4'',
           api_endpoint = ''https://api.openai.com/v1'', cost_per_token = 0.00003,
           avg_latency = 0, reliability_score = 1, provider_capabilities = []\<rparr>,
        role = VERIFIER, prompt = ''Is the plan safe?'', response = ''yes'',
        confidence = 0.7, tokens_used = 12, latency = 1, cost = 0.001,
        timestamp = ''2024-01-01T00:00:00''\<rparr>])
   \<and> consensus
     (cross_verify (\<lambda>a b. if a = b then 1 else 0)
       \<lparr>task_id = ''t1'', task_description = ''check'', task_prompt = ''Is the plan safe?'',
        task_context = [], critical = True\<rparr>
       [\<lparr>provider =
          \<lparr>provider_id = ''p1'', provider_name = ''openai'', model_name = ''gpt-4'',
           api_endpoint = ''https://api.openai.com/v1'', cost_per_token = 0.00003,
           avg_latency = 0, reliability_score = 1, provider_capabilities = []\<rparr>,
        role = VERIFIER, prompt = ''Is the plan safe?'', response = ''yes'',
        confidence = 0.7, tokens_used = 12, latency = 1, cost = 0.001,
        timestamp = ''2024-01-01T00:00:00''\<rparr>,
        \<lparr>provider =
          \<lparr>provider_id = ''p2'', provider_name = ''anthropic'', model_name = ''claude-3-opus-20240229'',
           api_endpoint = ''https://api.anthropic.com/v1'', cost_per_token = 0.000015,
           avg_latency = 0, reliability_score = 1, provider_capabilities = []\<rparr>,
        role = VERIFIER, prompt = ''Is the plan safe?'', response = ''yes'',
        confidence = 0.9, tokens_used = 12, latency = 1, cost = 0.001,
        timestamp = ''2024-01-01T00:00:00''\<rparr>])
   \<and> vr_confidence
     (cross_verify (\<lambda>a b. if a = b then 1 else 0)
       \<lparr>task_id = ''t1'', task_description = ''check'', task_prompt = ''Is the plan safe?'',
        task_context = [], critical = True\<rparr>
       [\<lparr>provider =
          \<lparr>provider_id = ''p1'', provider_name = ''openai'', model_name = ''gpt-4'',
           api_endpoint = ''https://api.openai.com/v1'', cost_per_token = 0.00003,
           avg_latency = 0, reliability_score = 1, provider_capabilities = []\<rparr>,
        role = VERIFIER, prompt = ''Is the plan safe?'', response = ''yes'',
        confidence = 0.7, tokens_used = 12, latency = 1, cost = 0.001,
        timestamp = ''2024-01-01T00:00:00''\<rparr>,
        \<lparr>provider =
          \<lparr>provider_id = ''p2'', provider_name = ''anthropic'', model_name = ''claude-3-opus-20240229'',
           api_endpoint = ''https://api.anthropic.com/v1'', cost_per_token = 0.000015,
           avg_latency = 0, reliability_score = 1, provider_capabilities = []\<rparr>,
        role = VERIFIER, prompt = ''Is the plan safe?'', response = ''yes'',
        confidence = 0.9, tokens_used = 12, latency = 1, cost = 0.001,
        timestamp = ''2024-01-01T00:00:00''\<rparr>]) = 0.9"
  using cross_verify_small_inputs
    [of "(\<lambda>a b. if a = b then 1 else 0)"
        "\<lparr>task_id = ''t1'', task_description = ''check'', task_prompt = ''Is the plan safe?'',
        task_context = [], critical = True\<rparr>"
        "\<lparr>provider =
          \<lparr>provider_id = ''p1'', provider_name = ''openai'', model_name = ''gpt-4'',
           api_endpoint = ''https://api.openai.com/v1'', cost_per_token = 0.00003,
           avg_latency = 0, reliability_score = 1, provider_capabilities = []\<rparr>,
        role = VERIFIER, prompt = ''Is the plan safe?'', response = ''yes'',
        confidence = 0.7, tokens_used = 12, latency = 1, cost = 0.001,
        timestamp = ''2024-01-01T00:00:00''\<rparr>"
        "\<lparr>provider =
          \<lparr>provider_id = ''p1'', provider_name = ''openai'', model_name = ''gpt-4'',
           api_endpoint = ''https://api.openai.com/v1'', cost_per_token = 0.00003,
           avg_latency = 0, reliability_score = 1, provider_capabilities = []\<rparr>,
        role = VERIFIER, prompt = ''Is the plan safe?'', response = ''yes'',
        confidence = 0.7, tokens_used = 12, latency = 1, cost = 0.001,
        timestamp = ''2024-01-01T00:00:00''\<rparr>"
        "\<lparr>provider =
          \<lparr>provider_id = ''p2'', provider_name = ''anthropic'', model_name = ''claude-3-opus-20240229'',
           api_endpoint = ''https://api.anthropic.com/v1'', cost_per_token = 0.000015,
           avg_latency = 0, reliability_score = 1, provider_capabilities = []\<rparr>,
        role = VERIFIER, prompt = ''Is the plan safe?'', response = ''yes'',
        confidence = 0.9, tokens_used = 12, latency = 1, cost = 0.001,
        timestamp = ''2024-01-01T00:00:00''\<rparr>"]
  by simp

text \<open>
  C7. For at least two responses whose average pair similarity is at most 0.7,
  \<open>cross_verify\<close> reports no consensus, selects a response of highest confidence, reports
  half of its confidence, and lists the model of every response that differs from the
  selected one. The similarity written into a discrepancy is \<open>similarities[i]\<close> for the
  position \<open>i\<close> of the response in \<open>responses\<close>, an index into the flat list of pair
  similarities: it is not the similarity of that response to the selected one. With two
  responses of which the first is selected, the second is listed with similarity 0 whatever
  their similarity is; the witness has two texts of similarity 1/2.
\<close>

theorem cross_verify_without_consensus:
  assumes "2 \<le> length responses"
    and "sum_list (pair_similarities ratio responses)
           / real (length (pair_similarities ratio responses)) \<le> 0.7"
  shows "(\<exists>sel. cross_verify ratio task responses =
                  \<lparr>consensus = False, selected_response = Some sel,
                   discrepancies =
                     collect_discrepancies (pair_similarities ratio responses) sel 0 responses,
                   vr_confidence = confidence sel * 0.5\<rparr>
              \<and> sel \<in> set responses
              \<and> (\<forall>r \<in> set responses. confidence r \<le> confidence sel)
              \<and> map (\<lambda>d. case d of Disagreed n s \<Rightarrow> n)
                    (collect_discrepancies (pair_similarities ratio responses) sel 0 responses)
                  = map (\<lambda>r. model_name (provider r)) (filter (\<lambda>r. r \<noteq> sel) responses))
       \<and> (\<forall>r0 r1. responses = [r0, r1] \<and> confidence r1 \<le> confidence r0 \<and> r1 \<noteq> r0 \<longrightarrow>
              discrepancies (cross_verify ratio task responses)
                = [Disagreed (model_name (provider r1)) 0])"
proof (intro conjI allI impI)
  from assms(1) obtain a rest where rs: "responses = a # rest"
    by (cases responses) auto
  let ?sel = "max_confidence (hd responses) (tl responses)"
  have ne: "pair_similarities ratio responses \<noteq> []"
    using assms(1) by (rule pair_similarities_nonempty)
  have len: "\<not> length responses < 2" using assms(1) by simp
  have eq: "cross_verify ratio task responses =
                  \<lparr>consensus = False, selected_response = Some ?sel,
                   discrepancies =
                     collect_discrepancies (pair_similarities ratio responses) ?sel 0 responses,
                   vr_confidence = confidence ?sel * 0.5\<rparr>"
    using assms(2) ne len by (simp add: cross_verify_def Let_def)
  have mem: "?sel \<in> set responses"
    using max_confidence_in[of a rest] rs by simp
  have ge: "\<forall>r \<in> set responses. confidence r \<le> confidence ?sel"
  proof
    fix r assume "r \<in> set responses"
    with rs consider "r = a" | "r \<in> set rest" by auto
    then show "confidence r \<le> confidence ?sel"
    proof cases
      case 1 then show ?thesis using max_confidence_ge_best[of a rest] rs by simp
    next
      case 2 then show ?thesis using max_confidence_ge[of r rest a] rs by simp
    qed
  qed
  from eq mem ge discrepancy_names[of "pair_similarities ratio responses" ?sel 0 responses]
  show "\<exists>sel. cross_verify ratio task responses =
                  \<lparr>consensus = False, selected_response = Some sel,
                   discrepancies =
                     collect_discrepancies (pair_similarities ratio responses) sel 0 responses,
                   vr_confidence = confidence sel * 0.5\<rparr>
              \<and> sel \<in> set responses
              \<and> (\<forall>r \<in> set responses. confidence r \<le> confidence sel)
              \<and> map (\<lambda>d. case d of Disagreed n s \<Rightarrow> n)
                    (collect_discrepancies (pair_similarities ratio responses) sel 0 responses)
                  = map (\<lambda>r. model_name (provider r)) (filter (\<lambda>r. r \<noteq> sel) responses)"
    by blast
next
  fix r0 r1
  assume h: "responses = [r0, r1] \<and> confidence r1 \<le> confidence r0 \<and> r1 \<noteq> r0"
  with assms(2) have "ratio (response r0) (response r1) \<le> 0.7" by simp
  with h cross_verify_pair_disagreeing[of ratio r0 r1 task]
  show "discrepancies (cross_verify ratio task responses)
                = [Disagreed (model_name (provider r1)) 0]"
    by simp
qed
theorem cross_verify_without_consensus_witness:
  "consensus
     (cross_verify (\<lambda>a b. if a = b then 1 else 1 / 2)
       \<lparr>task_id = ''t1'', task_description = ''check'', task_prompt = ''Is the plan safe?'',
        task_context = [], critical = True\<rparr>
       [\<lparr>provider =
          \<lparr>provider_id = ''p1'', provider_name = ''openai'', model_name = ''gpt-4'',
           api_endpoint = ''https://api.openai.com/v1'', cost_per_token = 0.00003,
           avg_latency = 0, reliability_score = 1, provider_capabilities = []\<rparr>,
        role = VERIFIER, prompt = ''Is the plan safe?'', response = ''ab'',
        confidence = 0.9, tokens_used = 12, latency = 1, cost = 0.001,
        timestamp = ''2024-01-01T00:00:00''\<rparr>,
        \<lparr>provider =
          \<lparr>provider_id = ''p2'', provider_name = ''anthropic'', model_name = ''claude-3-opus-20240229'',
           api_endpoint = ''https://api.anthropic.com/v1'', cost_per_token = 0.000015,
           avg_latency = 0, reliability_score = 1, provider_capabilities = []\<rparr>,
        role = VERIFIER, prompt = ''Is the plan safe?'', response = ''ac'',
        confidence = 0.5, tokens_used = 12, latency = 1, cost = 0.001,
        timestamp = ''2024-01-01T00:00:00''\<rparr>]) = False
   \<and> discrepancies
     (cross_verify (\<lambda>a b. if a = b then 1 else 1 / 2)
       \<lparr>task_id = ''t1'', task_description = ''check'', task_prompt = ''Is the plan safe?'',
        task_context = [], critical = True\<rparr>
       [\<lparr>provider =
          \<lparr>provider_id = ''p1'', provider_name = ''openai'', model_name = ''gpt-4'',
           api_endpoint = ''https://api.openai.com/v1'', cost_per_token = 0.00003,
           avg_latency = 0, reliability_score = 1, provider_capabilities = []\<rparr>,
        role = VERIFIER, prompt = ''Is the plan safe?'', response = ''ab'',
        confidence = 0.9, tokens_used = 12, latency = 1, cost = 0.001,
        timestamp = ''2024-01-01T00:00:00''\<rparr>,
        \<lparr>provider =
          \<lparr>provider_id = ''p2'', provider_name = ''anthropic'', model_name = ''claude-3-opus-20240229'',
           api_endpoint = ''https://api.anthropic.com/v1'', cost_per_token = 0.000015,
           avg_latency = 0, reliability_score = 1, provider_capabilities = []\<rparr>,
        role = VERIFIER, prompt = ''Is the plan safe?'', response = ''ac'',
        confidence = 0.5, tokens_used = 12, latency = 1, cost = 0.001,
        timestamp = ''2024-01-01T00:00:00''\<rparr>]) = [Disagreed ''claude-3-opus-20240229'' 0]
   \<and> (\<lambda>a b. if a = b then 1 else 1 / 2) ''ac'' ''ab'' = 1 / 2"
proof -
  have h: "2 \<le> length
       [\<lparr>provider =
          \<lparr>provider_id = ''p1'', provider_name = ''openai'', model_name = ''gpt-4'',
           api_endpoint = ''https://api.openai.com/v1'', cost_per_token = 0.00003,
           avg_latency = 0, reliability_score = 1, provider_capabilities = []\<rparr>,
        role = VERIFIER, prompt = ''Is the plan safe?'', response = ''ab'',
        confidence = 0.9, tokens_used = 12, latency = 1, cost = 0.001,
        timestamp = ''2024-01-01T00:00:00''\<rparr>,
        \<lparr>provider =
          \<lparr>provider_id = ''p2'', provider_name = ''anthropic'', model_name = ''claude-3-opus-20240229'',
           api_endpoint = ''https://api.anthropic.com/v1'', cost_per_token = 0.000015,
           avg_latency = 0, reliability_score = 1, provider_capabilities = []\<rparr>,
        role = VERIFIER, prompt = ''Is the plan safe?'', response = ''ac'',
        confidence = 0.5, tokens_used = 12, latency = 1, cost = 0.001,
        timestamp = ''2024-01-01T00:00:00''\<rparr>]"
    "sum_list (pair_similarities (\<lambda>a b. if a = b then 1 else 1 / 2)
       [\<lparr>provider =
          \<lparr>provider_id = ''p1'', provider_name = ''openai'', model_name = ''gpt-4'',
           api_endpoint = ''https://api.openai.com/v1'', cost_per_token = 0.00003,
           avg_latency = 0, reliability_score = 1, provider_capabilities = []\<rparr>,
        role = VERIFIER, prompt = ''Is the plan safe?'', response = ''ab'',
        confidence = 0.9, tokens_used = 12, latency = 1, cost = 0.001,
        timestamp = ''2024-01-01T00:00:00''\<rparr>,
        \<lparr>provider =
          \<lparr>provider_id = ''p2'', provider_name = ''anthropic'', model_name = ''claude-3-opus-20240229'',
           api_endpoint = ''https://api.anthropic.com/v1'', cost_per_token = 0.000015,
           avg_latency = 0, reliability_score = 1, provider_capabilities = []\<rparr>,
        role = VERIFIER, prompt = ''Is the plan safe?'', response = ''ac'',
        confidence = 0.5, tokens_used = 12, latency = 1, cost = 0.001,
        timestamp = ''2024-01-01T00:00:00''\<rparr>])
      / real (length (pair_similarities (\<lambda>a b. if a = b then 1 else 1 / 2)
       [\<lparr>provider =
          \<lparr>provider_id = ''p1'', provider_name = ''openai'', model_name = ''gpt-4'',
           api_endpoint = ''https://api.openai.com/v1'', cost_per_token = 0.00003,
           avg_latency = 0, reliability_score = 1, provider_capabilities = []\<rparr>,
        role = VERIFIER, prompt = ''Is the plan safe?'', response = ''ab'',
        confidence = 0.9, tokens_used = 12, latency = 1, cost = 0.001,
        timestamp = ''2024-01-01T00:00:00''\<rparr>,
        \<lparr>provider =
          \<lparr>provider_id = ''p2'', provider_name = ''anthropic'', model_name = ''claude-3-opus-20240229'',
           api_endpoint = ''https://api.anthropic.com/v1'', cost_per_token = 0.000015,
           avg_latency = 0, reliability_score = 1, provider_capabilities = []\<rparr>,
        role = VERIFIER, prompt = ''Is the plan safe?'', response = ''ac'',
        confidence = 0.5, tokens_used = 12, latency = 1, cost = 0.001,
        timestamp = ''2024-01-01T00:00:00''\<rparr>])) \<le> 0.7"
    by simp_all
  note t = cross_verify_without_consensus[OF h,
      of "\<lparr>task_id = ''t1'', task_description = ''check'', task_prompt = ''Is the plan safe?'',
        task_context = [], critical = True\<rparr>"]
  from t[THEN conjunct1] have c: "consensus
     (cross_verify (\<lambda>a b. if a = b then 1 else 1 / 2)
       \<lparr>task_id = ''t1'', task_description = ''check'', task_prompt = ''Is the plan safe?'',
        task_context = [], critical = True\<rparr>
       [\<lparr>provider =
          \<lparr>provider_id = ''p1'', provider_name = ''openai'', model_name = ''gpt-4'',
           api_endpoint = ''https://api.openai.com/v1'', cost_per_token = 0.00003,
           avg_latency = 0, reliability_score = 1, provider_capabilities = []\<rparr>,
        role = VERIFIER, prompt = ''Is the plan safe?'', response = ''ab'',
        confidence = 0.9, tokens_used = 12, latency = 1, cost = 0.001,
        timestamp = ''2024-01-01T00:00:00''\<rparr>,
        \<lparr>provider =
          \<lparr>provider_id = ''p2'', provider_name = ''anthropic'', model_name = ''claude-3-opus-20240229'',
           api_endpoint = ''https://api.anthropic.com/v1'', cost_per_token = 0.000015,
           avg_latency = 0, reliability_score = 1, provider_capabilities = []\<rparr>,
        role = VERIFIER, prompt = ''Is the plan safe?'', response = ''ac'',
        confidence = 0.5, tokens_used = 12, latency = 1, cost = 0.001,
        timestamp = ''2024-01-01T00:00:00''\<rparr>]) = False"
    by (elim exE conjE) simp
  from t[THEN conjunct2] have d: "discrepancies
     (cross_verify (\<lambda>a b. if a = b then 1 else 1 / 2)
       \<lparr>task_id = ''t1'', task_description = ''check'', task_prompt = ''Is the plan safe?'',
        task_context = [], critical = True\<rparr>
       [\<lparr>provider =
          \<lparr>provider_id = ''p1'', provider_name = ''openai'', model_name = ''gpt-4'',
           api_endpoint = ''https://api.openai.com/v1'', cost_per_token = 0.00003,
           avg_latency = 0, reliability_score = 1, provider_capabilities = []\<rparr>,
        role = VERIFIER, prompt = ''Is the plan safe?'', response = ''ab'',
        confidence = 0.9, tokens_used = 12, latency = 1, cost = 0.001,
        timestamp = ''2024-01-01T00:00:00''\<rparr>,
        \<lparr>provider =
          \<lparr>provider_id = ''p2'', provider_name = ''anthropic'', model_name = ''claude-3-opus-20240229'',
           api_endpoint = ''https://api.anthropic.com/v1'', cost_per_token = 0.000015,
           avg_latency = 0, reliability_score = 1, provider_capabilities = []\<rparr>,
        role = VERIFIER, prompt = ''Is the plan safe?'', response = ''ac'',
        confidence = 0.5, tokens_used = 12, latency = 1, cost = 0.001,
        timestamp = ''2024-01-01T00:00:00''\<rparr>]) = [Disagreed ''claude-3-opus-20240229'' 0]"
    by simp
  from c d show ?thesis by simp
qed

section \<open>Properties of the agent lifecycle manager: the concurrency ceiling\<close>

lemma length_dict_set: "length (dict_set kvs k v) \<le> Suc (length kvs)"
  by (induction kvs) auto

lemma length_dict_set_again: "length (dict_set (dict_set kvs k v) k v') = length (dict_set kvs k v)"
  by (induction kvs) auto

lemma length_dict_set_present:
  "dict_get kvs k = Some a \<Longrightarrow> length (dict_set kvs k v) = length kvs"
  by (induction kvs) (auto split: if_splits)

lemma length_dict_del: "length (dict_del kvs k) \<le> length kvs"
  by (induction kvs) auto

lemma spawn_agent_at_capacity:
  "max_concurrent_agents m \<le> int (length (active_agents m)) \<Longrightarrow>
     spawn_agent caps trust gl wfid uuid ts m =
       (Inl (Exception (''Maximum concurrent agents ('' @ str_int (max_concurrent_agents m)
                          @ '') reached'')), m)"
  by (simp add: spawn_agent_def)

lemma spawn_agent_effect:
  "max_concurrent_agents (snd (spawn_agent caps trust gl wfid uuid ts m))
     = max_concurrent_agents m
   \<and> length (active_agents (snd (spawn_agent caps trust gl wfid uuid ts m)))
       \<le> (if max_concurrent_agents m \<le> int (length (active_agents m))
          then length (active_agents m) else Suc (length (active_agents m)))"
proof (cases "max_concurrent_agents m \<le> int (length (active_agents m))")
  case True
  then show ?thesis by (simp add: spawn_agent_def)
next
  case cap: False
  show ?thesis
  proof (cases "TrustLevel_of trust")
    case (Inl e)
    with cap show ?thesis by (simp add: spawn_agent_def)
  next
    case (Inr lvl)
    obtain r wm where st: "store_agent_memory uuid
                              (JDict [(''goal'', JStr gl),
                                      (''capabilities'', JList (map JStr caps)),
                                      (''trust_level'', JStr trust),
                                      (''created_at'', JStr ts)]) (working_memory m) = (r, wm)"
      by (cases "store_agent_memory uuid
                              (JDict [(''goal'', JStr gl),
                                      (''capabilities'', JList (map JStr caps)),
                                      (''trust_level'', JStr trust),
                                      (''created_at'', JStr ts)]) (working_memory m)")
    show ?thesis
    proof (cases r)
      case (Inl e)
      with cap Inr st show ?thesis by (simp add: spawn_agent_def Let_def length_dict_set length_dict_set_again)
    next
      case ok: (Inr u)
      obtain r2 bus where pb: "publish ''agent.spawned''
                                        [(''agent_id'', JStr uuid),
                                         (''capabilities'', JList (map JStr caps)),
                                         (''trust_level'', JStr trust),
                                         (''workflow_id'',
                                            (case wfid of None \<Rightarrow> JNull | Some w \<Rightarrow> JStr w))]
                                        (event_bus m) = (r2, bus)"
        by (cases "publish ''agent.spawned''
                                        [(''agent_id'', JStr uuid),
                                         (''capabilities'', JList (map JStr caps)),
                                         (''trust_level'', JStr trust),
                                         (''workflow_id'',
                                            (case wfid of None \<Rightarrow> JNull | Some w \<Rightarrow> JStr w))]
                                        (event_bus m)")
      show ?thesis
      proof (cases r2)
        case (Inl e)
        with cap Inr st ok pb show ?thesis by (simp add: spawn_agent_def Let_def length_dict_set length_dict_set_again)
      next
        case (Inr u2)
        with cap \<open>TrustLevel_of trust = Inr lvl\<close> st ok pb show ?thesis
          by (simp add: spawn_agent_def Let_def length_dict_set length_dict_set_again)
      qed
    qed
  qed
qed

lemma spawn_agent_ceiling:
  "max_concurrent_agents (snd (spawn_agent caps trust gl wfid uuid ts m)) = max_concurrent_agents m"
  using spawn_agent_effect[of caps trust gl wfid uuid ts m] by blast

lemma spawn_agent_count:
  assumes "int (length (active_agents m)) \<le> max_concurrent_agents m"
  shows "int (length (active_agents (snd (spawn_agent caps trust gl wfid uuid ts m))))
     \<le> max_concurrent_agents m"
  using spawn_agent_effect[of caps trust gl wfid uuid ts m] assms
  by (auto split: if_splits)

lemma length_dict_del_set:
  "dict_get kvs k = Some a \<Longrightarrow> length (dict_del (dict_set kvs k v) k) \<le> length kvs"
  using length_dict_del[of "dict_set kvs k v" k] by (simp add: length_dict_set_present)

lemma retire_agent_effect:
  "max_concurrent_agents (snd (retire_agent aid reason m)) = max_concurrent_agents m
   \<and> length (active_agents (snd (retire_agent aid reason m))) \<le> length (active_agents m)"
proof (cases "dict_get (active_agents m) aid")
  case None
  then show ?thesis by (simp add: retire_agent_def)
next
  case (Some agent)
  obtain r wm where g: "get_agent_memory aid (working_memory m) = (r, wm)"
    by (cases "get_agent_memory aid (working_memory m)")
  show ?thesis
  proof (cases r)
    case (Inl e)
    with Some g show ?thesis by (simp add: retire_agent_def Let_def length_dict_set_present length_dict_del_set)
  next
    case ok: (Inr u)
    obtain r2 wm2 where c: "clear_agent_memory aid wm = (r2, wm2)"
      by (cases "clear_agent_memory aid wm")
    show ?thesis
    proof (cases r2)
      case (Inl e)
      with Some g ok c show ?thesis by (simp add: retire_agent_def Let_def length_dict_set_present length_dict_del_set)
    next
      case ok2: (Inr u2)
      obtain r3 bus where pb: "publish ''agent.retired''
                                 [(''agent_id'', JStr aid), (''reason'', JStr reason)]
                                 (event_bus m) = (r3, bus)"
        by (cases "publish ''agent.retired''
                                 [(''agent_id'', JStr aid), (''reason'', JStr reason)]
                                 (event_bus m)")
      show ?thesis
      proof (cases r3)
        case (Inl e)
        with Some g ok c ok2 pb show ?thesis by (simp add: retire_agent_def Let_def length_dict_set_present length_dict_del_set)
      next
        case (Inr u3)
        with Some g ok c ok2 pb show ?thesis by (simp add: retire_agent_def Let_def length_dict_set_present length_dict_del_set)
      qed
    qed
  qed
qed

lemma retire_agent_ceiling:
  "max_concurrent_agents (snd (retire_agent aid reason m)) = max_concurrent_agents m"
  using retire_agent_effect[of aid reason m] by blast

lemma retire_agent_count:
  "length (active_agents (snd (retire_agent aid reason m))) \<le> length (active_agents m)"
  using retire_agent_effect[of aid reason m] by blast

lemma manager_step_effect:
  "max_concurrent_agents (manager_step m c) = max_concurrent_agents m
   \<and> int (length (active_agents (manager_step m c)))
       \<le> max (max_concurrent_agents m) (int (length (active_agents m)))"
proof (cases c)
  case (Spawn caps trust gl wfid uuid ts)
  with spawn_agent_effect[of caps trust gl wfid uuid ts m] show ?thesis
    by (auto split: if_splits)
next
  case (Retire aid reason)
  with retire_agent_effect[of aid reason m] show ?thesis by auto
qed

lemma manager_run_effect:
  "max_concurrent_agents (manager_run calls m) = max_concurrent_agents m
   \<and> int (length (active_agents (manager_run calls m)))
       \<le> max (max_concurrent_agents m) (int (length (active_agents m)))"
proof (induction calls arbitrary: m)
  case Nil
  then show ?case by (simp add: manager_run_def)
next
  case (Cons c calls)
  have run: "manager_run (c # calls) m = manager_run calls (manager_step m c)"
    by (simp add: manager_run_def)
  from Cons.IH[of "manager_step m c"] manager_step_effect[of m c]
  show ?case unfolding run by auto
qed

text \<open>
  The dict \<open>active_agents\<close> is kept as an association list. Its keys stay distinct under
  every sequence of calls, so the length of the list is the number of active agents,
  \<open>len(self.active_agents)\<close>.
\<close>

lemma dict_set_keys:
  "map fst (dict_set kvs k v)
     = (if k \<in> set (map fst kvs) then map fst kvs else map fst kvs @ [k])"
  by (induction kvs) force+

lemma dict_set_distinct: "distinct (map fst kvs) \<Longrightarrow> distinct (map fst (dict_set kvs k v))"
  by (simp add: dict_set_keys)

lemma dict_del_keys: "map fst (dict_del kvs k) = remove1 k (map fst kvs)"
  by (induction kvs) auto

lemma dict_del_distinct: "distinct (map fst kvs) \<Longrightarrow> distinct (map fst (dict_del kvs k))"
  by (simp add: dict_del_keys)

lemma spawn_agent_keeps_keys_distinct:
  assumes "distinct (map fst (active_agents m))"
  shows "distinct (map fst (active_agents (snd (spawn_agent caps trust gl wfid uuid ts m))))"
proof (cases "max_concurrent_agents m \<le> int (length (active_agents m))")
  case True
  with assms show ?thesis by (simp add: spawn_agent_def)
next
  case cap: False
  show ?thesis
  proof (cases "TrustLevel_of trust")
    case (Inl e)
    with cap assms show ?thesis by (simp add: spawn_agent_def)
  next
    case (Inr lvl)
    obtain r wm where st: "store_agent_memory uuid
                              (JDict [(''goal'', JStr gl),
                                      (''capabilities'', JList (map JStr caps)),
                                      (''trust_level'', JStr trust),
                                      (''created_at'', JStr ts)]) (working_memory m) = (r, wm)"
      by (cases "store_agent_memory uuid
                              (JDict [(''goal'', JStr gl),
                                      (''capabilities'', JList (map JStr caps)),
                                      (''trust_level'', JStr trust),
                                      (''created_at'', JStr ts)]) (working_memory m)")
    show ?thesis
    proof (cases r)
      case (Inl e)
      with cap Inr st assms show ?thesis
        by (simp add: spawn_agent_def Let_def dict_set_distinct)
    next
      case ok: (Inr u)
      obtain r2 bus where pb: "publish ''agent.spawned''
                                        [(''agent_id'', JStr uuid),
                                         (''capabilities'', JList (map JStr caps)),
                                         (''trust_level'', JStr trust),
                                         (''workflow_id'',
                                            (case wfid of None \<Rightarrow> JNull | Some w \<Rightarrow> JStr w))]
                                        (event_bus m) = (r2, bus)"
        by (cases "publish ''agent.spawned''
                                        [(''agent_id'', JStr uuid),
                                         (''capabilities'', JList (map JStr caps)),
                                         (''trust_level'', JStr trust),
                                         (''workflow_id'',
                                            (case wfid of None \<Rightarrow> JNull | Some w \<Rightarrow> JStr w))]
                                        (event_bus m)")
      show ?thesis
      proof (cases r2)
        case (Inl e)
        with cap Inr st ok pb assms show ?thesis
          by (simp add: spawn_agent_def Let_def dict_set_distinct)
      next
        case (Inr u2)
        with cap \<open>TrustLevel_of trust = Inr lvl\<close> st ok pb assms show ?thesis
          by (simp add: spawn_agent_def Let_def dict_set_distinct)
      qed
    qed
  qed
qed

lemma retire_agent_keeps_keys_distinct:
  assumes "distinct (map fst (active_agents m))"
  shows "distinct (map fst (active_agents (snd (retire_agent aid reason m))))"
proof (cases "dict_get (active_agents m) aid")
  case None
  with assms show ?thesis by (simp add: retire_agent_def)
next
  case (Some agent)
  obtain r wm where g: "get_agent_memory aid (working_memory m) = (r, wm)"
    by (cases "get_agent_memory aid (working_memory m)")
  show ?thesis
  proof (cases r)
    case (Inl e)
    with Some g assms show ?thesis
      by (simp add: retire_agent_def Let_def dict_set_distinct)
  next
    case ok: (Inr u)
    obtain r2 wm2 where c: "clear_agent_memory aid wm = (r2, wm2)"
      by (cases "clear_agent_memory aid wm")
    show ?thesis
    proof (cases r2)
      case (Inl e)
      with Some g ok c assms show ?thesis
        by (simp add: retire_agent_def Let_def dict_set_distinct)
    next
      case ok2: (Inr u2)
      obtain r3 bus where pb: "publish ''agent.retired''
                                 [(''agent_id'', JStr aid), (''reason'', JStr reason)]
                                 (event_bus m) = (r3, bus)"
        by (cases "publish ''agent.retired''
                                 [(''agent_id'', JStr aid), (''reason'', JStr reason)]
                                 (event_bus m)")
      show ?thesis
      proof (cases r3)
        case (Inl e)
        with Some g ok c ok2 pb assms show ?thesis
          by (simp add: retire_agent_def Let_def dict_set_distinct dict_del_distinct)
      next
        case (Inr u3)
        with Some g ok c ok2 pb assms show ?thesis
          by (simp add: retire_agent_def Let_def dict_set_distinct dict_del_distinct)
      qed
    qed
  qed
qed

lemma manager_run_keeps_keys_distinct:
  "distinct (map fst (active_agents m)) \<Longrightarrow>
     distinct (map fst (active_agents (manager_run calls m)))"
proof (induction calls arbitrary: m)
  case Nil
  then show ?case by (simp add: manager_run_def)
next
  case (Cons c calls)
  have run: "manager_run (c # calls) m = manager_run calls (manager_step m c)"
    by (simp add: manager_run_def)
  have "distinct (map fst (active_agents (manager_step m c)))"
    using Cons.prems
    by (cases c) (simp_all add: spawn_agent_keeps_keys_distinct retire_agent_keeps_keys_distinct)
  from Cons.IH[OF this] show ?case unfolding run .
qed

text \<open>
  C5. When the number of active agents is at or above \<open>max_concurrent_agents\<close>,
  \<open>spawn_agent\<close> raises the capacity error and leaves the manager, and so the active set, as
  it was. Hence no sequence of \<open>spawn_agent\<close> and \<open>retire_agent\<close> calls changes the ceiling
  or brings the count above the larger of the ceiling and the count at the start: a count
  within the ceiling stays within it, whatever calls raise on the way, and the manager made
  by \<open>__init__\<close> with a ceiling \<open>n \<ge> 0\<close> never holds more than \<open>n\<close> agents.
\<close>

theorem spawn_agent_capacity:
  "(max_concurrent_agents m \<le> get_active_agent_count m \<longrightarrow>
      spawn_agent caps trust gl wfid uuid ts m =
        (Inl (Exception (''Maximum concurrent agents ('' @ str_int (max_concurrent_agents m)
                           @ '') reached'')), m))
   \<and> max_concurrent_agents (manager_run calls m) = max_concurrent_agents m
   \<and> get_active_agent_count (manager_run calls m)
       \<le> max (max_concurrent_agents m) (get_active_agent_count m)
   \<and> (get_active_agent_count m \<le> max_concurrent_agents m \<longrightarrow>
        get_active_agent_count (manager_run calls m) \<le> max_concurrent_agents m)
   \<and> (0 \<le> n \<longrightarrow>
        get_active_agent_count (manager_run calls (AgentManager_init wm bus n)) \<le> n)"
proof -
  have init: "max_concurrent_agents (AgentManager_init wm bus n) = n"
    "active_agents (AgentManager_init wm bus n) = []"
    by (simp_all add: AgentManager_init_def)
  from manager_run_effect[of calls m] manager_run_effect[of calls "AgentManager_init wm bus n"]
    spawn_agent_at_capacity[of m caps trust gl wfid uuid ts] init
  show ?thesis
    by (auto simp: get_active_agent_count_def)
qed

theorem spawn_agent_capacity_witness:
  "max_concurrent_agents
     (snd (spawn_agent [] ''standard'' ''g'' None ''a1'' ''t1''
             (AgentManager_init WorkingMemory_init EventBus_init 1)))
     \<le> get_active_agent_count
         (snd (spawn_agent [] ''standard'' ''g'' None ''a1'' ''t1''
                 (AgentManager_init WorkingMemory_init EventBus_init 1)))
   \<and> spawn_agent [] ''standard'' ''g'' None ''a2'' ''t2''
        (snd (spawn_agent [] ''standard'' ''g'' None ''a1'' ''t1''
                (AgentManager_init WorkingMemory_init EventBus_init 1)))
      = (Inl (Exception ''Maximum concurrent agents (1) reached''),
         snd (spawn_agent [] ''standard'' ''g'' None ''a1'' ''t1''
                (AgentManager_init WorkingMemory_init EventBus_init 1)))
   \<and> (0 :: int) \<le> 1
   \<and> get_active_agent_count
        (manager_run
           [Spawn [] ''standard'' ''g'' None ''a1'' ''t1'',
            Spawn [] ''standard'' ''g'' None ''a2'' ''t2'',
            Retire ''a1'' ''completed'',
            Spawn [] ''elevated'' ''g'' None ''a3'' ''t3'']
           (AgentManager_init WorkingMemory_init EventBus_init 1)) \<le> 1"
proof -
  let ?m1 = "snd (spawn_agent [] ''standard'' ''g'' None ''a1'' ''t1''
                (AgentManager_init WorkingMemory_init EventBus_init 1))"
  have c: "get_active_agent_count ?m1 = 1" "max_concurrent_agents ?m1 = 1"
    by (simp_all add: get_active_agent_count_def spawn_agent_def AgentManager_init_def
        TrustLevel_of_def store_agent_memory_def redis_call_def publish_def
        WorkingMemory_init_def EventBus_init_def Let_def)
  have s: "str_int 1 = ''1''" by code_simp
  note t = spawn_agent_capacity[of ?m1 "[]" "''standard''" "''g''" None "''a2''" "''t2''"
      "[Spawn [] ''standard'' ''g'' None ''a1'' ''t1'',
        Spawn [] ''standard'' ''g'' None ''a2'' ''t2'',
        Retire ''a1'' ''completed'',
        Spawn [] ''elevated'' ''g'' None ''a3'' ''t3'']" 1 WorkingMemory_init EventBus_init]
  from t c s show ?thesis by simp
qed

section \<open>Properties of the orchestrator's persistence\<close>

lemma dict_get_set: "dict_get (dict_set kvs k v) k = Some v"
  by (induction kvs) auto

lemma WorkflowState_roundtrip: "WorkflowState_of (WorkflowState_value s) = Inr s"
  by (cases s) (simp_all add: WorkflowState_of_def)

lemma json_str_list_roundtrip: "those (map (json_str \<circ> JStr) g) = Some g"
  by (induction g) auto

lemma json_str_list_list_roundtrip:
  "those (map (json_str_list \<circ> (\<lambda>g. JList (map JStr g))) eo) = Some eo"
  by (induction eo) (auto simp: json_str_list_roundtrip)

lemma persist_state_ok:
  assumes "wm_faults wm = []"
  shows "persist_state w ts wm =
           (Inr (), wm\<lparr>redis := dict_set (redis wm) (workflow_key (workflow_id w))
              (default_ttl wm,
               JDict [(''workflow_id'', JStr (workflow_id w)),
                      (''state'', JStr (WorkflowState_value (state w))),
                      (''steps'', JDict (map (\<lambda>(k, v). (k, step_to_dict v)) (steps w))),
                      (''execution_order'',
                         JList (map (\<lambda>g. JList (map JStr g)) (execution_order w))),
                      (''metadata'', JDict (metadata w)),
                      (''timestamp'', JStr ts)])\<rparr>)"
  using assms by (simp add: persist_state_def store_workflow_state_def redis_call_def Let_def)

lemma workflow_of_snapshot_persisted:
  "workflow_of_snapshot
     (JDict [(''workflow_id'', JStr (workflow_id w)),
             (''state'', JStr (WorkflowState_value (state w))),
             (''steps'', sts),
             (''execution_order'',
                JList (map (\<lambda>g. JList (map JStr g)) (execution_order w))),
             (''metadata'', JDict (metadata w)),
             (''timestamp'', JStr ts)])
   = Inr (w\<lparr>steps := []\<rparr>)"
  by (cases w)
     (simp add: workflow_of_snapshot_def and_then_def subscript_def typed_def
        WorkflowState_roundtrip json_str_list_list_roundtrip)

lemma restore_after_persist:
  assumes "wm_faults wm = []"
  shows "restore_state (workflow_id w) (snd (persist_state w ts wm))
           = (Inr (Some (w\<lparr>steps := []\<rparr>)), snd (persist_state w ts wm))"
  using assms
  by (simp add: persist_state_ok restore_state_def get_workflow_state_def redis_call_def
      Let_def dict_get_set workflow_of_snapshot_persisted)

text \<open>
  C3. With the store reachable, \<open>restore_state\<close> after \<open>persist_state\<close> returns the workflow
  with the persisted workflow id, state, execution order and metadata, but with \<open>steps\<close>
  empty: the snapshot holds the steps, and \<open>restore_state\<close> does not read them back. The
  witness persists a workflow with the one step \<open>A\<close> and restores a workflow without steps.
\<close>

theorem restore_state_after_persist:
  assumes "wm_faults wm = []"
  shows "restore_state (workflow_id w) (snd (persist_state w ts wm))
           = (Inr (Some (w\<lparr>steps := []\<rparr>)), snd (persist_state w ts wm))"
  using assms by (rule restore_after_persist)

theorem restore_state_after_persist_witness:
  "wm_faults WorkingMemory_init = []
   \<and> fst (restore_state ''wf-1''
           (snd (persist_state
                   \<lparr>workflow_id = ''wf-1'',
                    steps = [(''A'', new_WorkflowStep ''A'' ''goal-a'' [] [])],
                    execution_order = [[''A'']], state = RUNNING, metadata = []\<rparr>
                   ''2024-01-01T00:00:00'' WorkingMemory_init)))
       = Inr (Some \<lparr>workflow_id = ''wf-1'', steps = [], execution_order = [[''A'']],
                    state = RUNNING, metadata = []\<rparr>)
   \<and> steps \<lparr>workflow_id = ''wf-1'',
              steps = [(''A'', new_WorkflowStep ''A'' ''goal-a'' [] [])],
              execution_order = [[''A'']], state = RUNNING, metadata = []\<rparr> \<noteq> []"
  using restore_state_after_persist
    [of WorkingMemory_init
        "\<lparr>workflow_id = ''wf-1'',
          steps = [(''A'', new_WorkflowStep ''A'' ''goal-a'' [] [])],
          execution_order = [[''A'']], state = RUNNING, metadata = []\<rparr>"
        "''2024-01-01T00:00:00''"]
  by (simp add: WorkingMemory_init_def)

text \<open>
  A consequence: \<open>pause_workflow\<close> restores, marks the workflow paused and persists it
  again, so after a pause the stored snapshot is that of a workflow without steps.
\<close>

lemma pause_workflow_after_persist:
  assumes "wm_faults wm = []" and "state w = RUNNING" and "publish_succeeds bus"
  shows "\<exists>bus'. pause_workflow (workflow_id w) ts' (snd (persist_state w ts wm), bus)
           = (Inr True,
              snd (persist_state (w\<lparr>steps := [], state := PAUSED\<rparr>) ts'
                     (snd (persist_state w ts wm))), bus')"
proof -
  let ?wm1 = "snd (persist_state w ts wm)"
  have f1: "wm_faults ?wm1 = []" using assms(1) by (simp add: persist_state_ok)
  have r: "restore_state (workflow_id w) ?wm1 = (Inr (Some (w\<lparr>steps := []\<rparr>)), ?wm1)"
    using assms(1) by (rule restore_after_persist)
  obtain wm2 where p: "persist_state (w\<lparr>steps := [], state := PAUSED\<rparr>) ts' ?wm1
             = (Inr (), wm2)"
    using persist_state_ok[OF f1] by blast
  obtain r3 b where pb: "publish ''workflow.paused'' [(''workflow_id'', JStr (workflow_id w))] bus
                          = (r3, b)"
    by (cases "publish ''workflow.paused'' [(''workflow_id'', JStr (workflow_id w))] bus")
  with publish_ok[OF assms(3), of "''workflow.paused''"] have r3: "r3 = Inr ()"
    by (metis fst_conv)
  show ?thesis
    using r p pb r3 assms(2)
    by (simp add: pause_workflow_def Let_def)
qed

section \<open>Properties of the orchestrator's step execution\<close>

lemma sleep_ok:
  "0 \<le> d \<Longrightarrow> d * 10 ^ 9 < 2 ^ 63 \<Longrightarrow>
     sleep d clk = Inr (clk\<lparr>now := now clk + d, sleeps := sleeps clk @ [d]\<rparr>)"
  by (simp add: sleep_def)

lemma delay_seconds_bounds:
  assumes "0 \<le> initial_delay_seconds c" "0 \<le> backoff_multiplier c" "0 \<le> max_delay_seconds c"
  shows "0 \<le> delay_seconds c j" "delay_seconds c j \<le> max_delay_seconds c"
  using assms by (simp_all add: delay_seconds_def)

lemma retry_config_fine:
  assumes "0 \<le> initial_delay_seconds c" "0 \<le> backoff_multiplier c" "0 \<le> max_delay_seconds c"
    and "max_delay_seconds c * 10 ^ 9 < 2 ^ 63"
    and "\<forall>j. 0 < j \<and> j < max_attempts c \<longrightarrow> backoff_multiplier c ^ nat j \<le> float_max"
  shows "\<forall>j. 0 < j \<and> j < max_attempts c \<longrightarrow>
           backoff_delay c j = Inr (delay_seconds c j)
           \<and> 0 \<le> delay_seconds c j \<and> delay_seconds c j * 10 ^ 9 < 2 ^ 63"
proof (intro allI impI)
  fix j assume j: "0 < j \<and> j < max_attempts c"
  with assms(5) have p: "backoff_multiplier c ^ nat j \<le> float_max" by blast
  have a: "\<bar>backoff_multiplier c ^ nat j\<bar> = backoff_multiplier c ^ nat j"
    using assms(2) by simp
  have b: "backoff_delay c j = Inr (delay_seconds c j)"
    using p by (simp add: backoff_delay_def a)
  have "delay_seconds c j * 10 ^ 9 \<le> max_delay_seconds c * 10 ^ 9"
    using delay_seconds_bounds(2)[OF assms(1-3), of j] by simp
  with assms(4) have d: "delay_seconds c j * 10 ^ 9 < 2 ^ 63" by linarith
  from b d delay_seconds_bounds(1)[OF assms(1-3), of j]
  show "backoff_delay c j = Inr (delay_seconds c j)
           \<and> 0 \<le> delay_seconds c j \<and> delay_seconds c j * 10 ^ 9 < 2 ^ 63"
    by simp
qed

lemma retry_loop_exhausted:
  "\<not> retry_count < max_attempts (retry_config step) \<Longrightarrow>
     retry_loop step agent st retry_count (Some e) env = (Inl e, env)"
  by (subst retry_loop.simps) simp

lemma retry_loop_fail_again:
  assumes "retry_count < max_attempts (retry_config step)"
    and "bus_faults bus = Some m # fs"
    and "retry_count + 1 < max_attempts (retry_config step)"
    and "backoff_delay (retry_config step) (retry_count + 1) = Inr d"
    and "0 \<le> d" and "d * 10 ^ 9 < 2 ^ 63"
  shows "retry_loop step agent st retry_count le (bus, clk) =
           retry_loop step agent st (retry_count + 1) (Some (RedisError m))
             (bus\<lparr>bus_faults := fs\<rparr>,
              clk\<lparr>now := now clk + d, sleeps := sleeps clk @ [d]\<rparr>)"
  using assms
  by (subst retry_loop.simps) (simp add: publish_def sleep_ok Let_def)

lemma retry_loop_fail_last:
  assumes "retry_count < max_attempts (retry_config step)"
    and "bus_faults bus = Some m # fs"
    and "\<not> retry_count + 1 < max_attempts (retry_config step)"
  shows "retry_loop step agent st retry_count le (bus, clk) =
           (Inl (RedisError m), bus\<lparr>bus_faults := fs\<rparr>, clk)"
  using assms
  by (subst retry_loop.simps) (simp add: publish_def Let_def retry_loop_exhausted)

lemma retry_loop_fail_overflow:
  assumes "retry_count < max_attempts (retry_config step)"
    and "bus_faults bus = Some m # fs"
    and "retry_count + 1 < max_attempts (retry_config step)"
    and "backoff_delay (retry_config step) (retry_count + 1) = Inl e"
  shows "retry_loop step agent st retry_count le (bus, clk) =
           (Inl e, bus\<lparr>bus_faults := fs\<rparr>, clk)"
  using assms
  by (subst retry_loop.simps) (simp add: publish_def Let_def)

lemma retry_loop_success:
  assumes "retry_count < max_attempts (retry_config step)"
    and "bus_faults bus = None # rest"
  shows "retry_loop step agent st retry_count le (bus, clk) =
           (Inr \<lparr>success = True,
                 tr_output = JDict [(''step_id'', JStr (step_id step)),
                                    (''status'', JStr ''completed'')],
                 tr_confidence = 0.85,
                 reasoning = ''Step executed successfully'',
                 tr_cost = 0.01,
                 tr_latency = now clk - st,
                 errors = []\<rparr>,
            bus\<lparr>published := published bus
                   @ [(''workflow.step_completed'',
                       [(''step_id'', JStr (step_id step)),
                        (''agent_id'', JStr (agent_id agent))])],
                bus_faults := rest\<rparr>, clk)"
  using assms
  by (subst retry_loop.simps) (simp add: publish_def Let_def)

lemma retry_loop_all_fail:
  assumes "msgs \<noteq> []"
    and "int (length msgs) = max_attempts (retry_config step) - k"
    and "0 \<le> k"
    and "bus_faults bus = map Some msgs @ rest"
    and "\<forall>j. 0 < j \<and> j < max_attempts (retry_config step) \<longrightarrow>
           backoff_delay (retry_config step) j = Inr (delay_seconds (retry_config step) j)
           \<and> 0 \<le> delay_seconds (retry_config step) j
           \<and> delay_seconds (retry_config step) j * 10 ^ 9 < 2 ^ 63"
  shows "retry_loop step agent st k le (bus, clk) =
           (Inl (RedisError (last msgs)), bus\<lparr>bus_faults := rest\<rparr>,
            clk\<lparr>now := now clk
                     + sum_list (map (delay_seconds (retry_config step))
                                   [k + 1 .. max_attempts (retry_config step) - 1]),
                sleeps := sleeps clk
                     @ map (delay_seconds (retry_config step))
                        [k + 1 .. max_attempts (retry_config step) - 1]\<rparr>)"
  using assms
proof (induction msgs arbitrary: k le bus clk rule: list_nonempty_induct)
  case (single m)
  then have k: "k < max_attempts (retry_config step)"
    "\<not> k + 1 < max_attempts (retry_config step)" by simp_all
  from single have f: "bus_faults bus = Some m # rest" by simp
  from k have e: "[k + 1 .. max_attempts (retry_config step) - 1] = []" by simp
  show ?case
    unfolding retry_loop_fail_last[OF k(1) f k(2)] e by simp
next
  case (cons m ms)
  let ?n = "max_attempts (retry_config step)"
  let ?d = "delay_seconds (retry_config step)"
  from cons.prems(1) cons.hyps have k: "k < ?n" "k + 1 < ?n"
    by (cases ms; simp)+
  from cons.prems(3) have f: "bus_faults bus = Some m # (map Some ms @ rest)" by simp
  from cons.prems(2,4) k(2)
  have d: "backoff_delay (retry_config step) (k + 1) = Inr (?d (k + 1))"
    "0 \<le> ?d (k + 1)" "?d (k + 1) * 10 ^ 9 < 2 ^ 63"
    by simp_all
  have len: "int (length ms) = ?n - (k + 1)" using cons.prems(1) by simp
  have k1: "0 \<le> k + 1" using cons.prems(2) by simp
  have up: "[k + 1 .. ?n - 1] = (k + 1) # [k + 1 + 1 .. ?n - 1]"
    using k(2) by (simp add: upto_rec1)
  have ih: "retry_loop step agent st (k + 1) (Some (RedisError m))
             (bus\<lparr>bus_faults := map Some ms @ rest\<rparr>,
              clk\<lparr>now := now clk + ?d (k + 1), sleeps := sleeps clk @ [?d (k + 1)]\<rparr>)
        = (Inl (RedisError (last ms)), bus\<lparr>bus_faults := map Some ms @ rest\<rparr>\<lparr>bus_faults := rest\<rparr>,
            clk\<lparr>now := now clk + ?d (k + 1), sleeps := sleeps clk @ [?d (k + 1)]\<rparr>
               \<lparr>now := now (clk\<lparr>now := now clk + ?d (k + 1),
                                 sleeps := sleeps clk @ [?d (k + 1)]\<rparr>)
                     + sum_list (map ?d [k + 1 + 1 .. ?n - 1]),
                sleeps := sleeps (clk\<lparr>now := now clk + ?d (k + 1),
                                 sleeps := sleeps clk @ [?d (k + 1)]\<rparr>)
                     @ map ?d [k + 1 + 1 .. ?n - 1]\<rparr>)"
    by (rule cons.IH[OF len k1 _ cons.prems(4)]) simp
  show ?case
    unfolding retry_loop_fail_again[OF k(1) f k(2) d] ih up
    using cons.hyps by (simp add: add.assoc)
qed

lemma retry_loop_then_success:
  assumes "int (length msgs) < max_attempts (retry_config step) - k"
    and "0 \<le> k"
    and "bus_faults bus = map Some msgs @ None # rest"
    and "\<forall>j. 0 < j \<and> j < max_attempts (retry_config step) \<longrightarrow>
           backoff_delay (retry_config step) j = Inr (delay_seconds (retry_config step) j)
           \<and> 0 \<le> delay_seconds (retry_config step) j
           \<and> delay_seconds (retry_config step) j * 10 ^ 9 < 2 ^ 63"
  shows "retry_loop step agent st k le (bus, clk) =
           (Inr \<lparr>success = True,
                 tr_output = JDict [(''step_id'', JStr (step_id step)),
                                    (''status'', JStr ''completed'')],
                 tr_confidence = 0.85,
                 reasoning = ''Step executed successfully'',
                 tr_cost = 0.01,
                 tr_latency = now clk
                     + sum_list (map (delay_seconds (retry_config step))
                                   [k + 1 .. k + int (length msgs)]) - st,
                 errors = []\<rparr>,
            bus\<lparr>published := published bus
                   @ [(''workflow.step_completed'',
                       [(''step_id'', JStr (step_id step)),
                        (''agent_id'', JStr (agent_id agent))])],
                bus_faults := rest\<rparr>,
            clk\<lparr>now := now clk
                     + sum_list (map (delay_seconds (retry_config step))
                                   [k + 1 .. k + int (length msgs)]),
                sleeps := sleeps clk
                     @ map (delay_seconds (retry_config step))
                        [k + 1 .. k + int (length msgs)]\<rparr>)"
  using assms
proof (induction msgs arbitrary: k le bus clk)
  case Nil
  then have k: "k < max_attempts (retry_config step)" by simp
  from Nil have f: "bus_faults bus = None # rest" by simp
  show ?case
    unfolding retry_loop_success[OF k f] by simp
next
  case (Cons m ms)
  let ?n = "max_attempts (retry_config step)"
  let ?d = "delay_seconds (retry_config step)"
  from Cons.prems(1) have k: "k < ?n" "k + 1 < ?n" by simp_all
  from Cons.prems(3) have f: "bus_faults bus = Some m # (map Some ms @ None # rest)" by simp
  from Cons.prems(2,4) k(2)
  have d: "backoff_delay (retry_config step) (k + 1) = Inr (?d (k + 1))"
    "0 \<le> ?d (k + 1)" "?d (k + 1) * 10 ^ 9 < 2 ^ 63"
    by simp_all
  have len: "int (length ms) < ?n - (k + 1)" using Cons.prems(1) by simp
  have k1: "0 \<le> k + 1" using Cons.prems(2) by simp
  have e: "k + int (length (m # ms)) = k + 1 + int (length ms)" by simp
  have up: "[k + 1 .. k + 1 + int (length ms)] = (k + 1) # [k + 1 + 1 .. k + 1 + int (length ms)]"
    by (rule upto_rec1) simp
  from Cons.IH[OF len k1 _ Cons.prems(4), of "bus\<lparr>bus_faults := map Some ms @ None # rest\<rparr>"
      "Some (RedisError m)"
      "clk\<lparr>now := now clk + ?d (k + 1), sleeps := sleeps clk @ [?d (k + 1)]\<rparr>"]
  show ?case
    unfolding retry_loop_fail_again[OF k(1) f k(2) d] e up
    by (simp add: add.assoc)
qed

lemma execute_step_all_fail:
  assumes "msgs \<noteq> []"
    and "int (length msgs) = max_attempts (retry_config step)"
    and "bus_faults bus = None # map Some msgs @ None # rest"
    and "\<forall>j. 0 < j \<and> j < max_attempts (retry_config step) \<longrightarrow>
           backoff_delay (retry_config step) j = Inr (delay_seconds (retry_config step) j)
           \<and> 0 \<le> delay_seconds (retry_config step) j
           \<and> delay_seconds (retry_config step) j * 10 ^ 9 < 2 ^ 63"
  shows "execute_step step agent (bus, clk) =
           (Inr \<lparr>success = False, tr_output = JNull, tr_confidence = 0,
                 reasoning = ''Step execution failed'', tr_cost = 0,
                 tr_latency = sum_list (map (delay_seconds (retry_config step))
                       [1 .. max_attempts (retry_config step) - 1]),
                 errors = [last msgs]\<rparr>,
            bus\<lparr>published := published bus
                   @ [(''workflow.step_started'',
                       [(''step_id'', JStr (step_id step)), (''agent_id'', JStr (agent_id agent))]),
                      (''workflow.step_failed'',
                       [(''step_id'', JStr (step_id step)), (''agent_id'', JStr (agent_id agent)),
                        (''error'', JStr (last msgs))])],
                bus_faults := rest\<rparr>,
            clk\<lparr>now := now clk + sum_list (map (delay_seconds (retry_config step))
                       [1 .. max_attempts (retry_config step) - 1]),
                sleeps := sleeps clk @ (map (delay_seconds (retry_config step))
                       [1 .. max_attempts (retry_config step) - 1])\<rparr>)"
proof -
  let ?bus0 = "bus\<lparr>published := published bus @ [(''workflow.step_started'',
                       [(''step_id'', JStr (step_id step)), (''agent_id'', JStr (agent_id agent))])],
                    bus_faults := map Some msgs @ None # rest\<rparr>"
  have len: "int (length msgs) = max_attempts (retry_config step) - 0"
    using assms(2) by simp
  have f0: "bus_faults ?bus0 = map Some msgs @ None # rest" by simp
  note loop = retry_loop_all_fail[OF assms(1) len _ f0 assms(4), of agent "now clk" None clk]
  show ?thesis
    using assms(3) by (simp add: execute_step_def publish_def loop Let_def)
qed

lemma execute_step_all_fail_bus_down:
  assumes "msgs \<noteq> []"
    and "int (length msgs) = max_attempts (retry_config step)"
    and "bus_faults bus = None # map Some msgs @ Some m # rest"
    and "\<forall>j. 0 < j \<and> j < max_attempts (retry_config step) \<longrightarrow>
           backoff_delay (retry_config step) j = Inr (delay_seconds (retry_config step) j)
           \<and> 0 \<le> delay_seconds (retry_config step) j
           \<and> delay_seconds (retry_config step) j * 10 ^ 9 < 2 ^ 63"
  shows "execute_step step agent (bus, clk) =
           (Inl (RedisError m),
            bus\<lparr>published := published bus
                   @ [(''workflow.step_started'',
                       [(''step_id'', JStr (step_id step)), (''agent_id'', JStr (agent_id agent))])],
                bus_faults := rest\<rparr>,
            clk\<lparr>now := now clk + sum_list (map (delay_seconds (retry_config step))
                       [1 .. max_attempts (retry_config step) - 1]),
                sleeps := sleeps clk @ (map (delay_seconds (retry_config step))
                       [1 .. max_attempts (retry_config step) - 1])\<rparr>)"
proof -
  let ?bus0 = "bus\<lparr>published := published bus @ [(''workflow.step_started'',
                       [(''step_id'', JStr (step_id step)), (''agent_id'', JStr (agent_id agent))])],
                    bus_faults := map Some msgs @ Some m # rest\<rparr>"
  have len: "int (length msgs) = max_attempts (retry_config step) - 0"
    using assms(2) by simp
  have f0: "bus_faults ?bus0 = map Some msgs @ Some m # rest" by simp
  note loop = retry_loop_all_fail[OF assms(1) len _ f0 assms(4), of agent "now clk" None clk]
  show ?thesis
    using assms(3) by (simp add: execute_step_def publish_def loop Let_def)
qed

lemma execute_step_then_success:
  assumes "int (length failed) < max_attempts (retry_config step)"
    and "bus_faults bus = None # map Some failed @ None # rest"
    and "\<forall>j. 0 < j \<and> j < max_attempts (retry_config step) \<longrightarrow>
           backoff_delay (retry_config step) j = Inr (delay_seconds (retry_config step) j)
           \<and> 0 \<le> delay_seconds (retry_config step) j
           \<and> delay_seconds (retry_config step) j * 10 ^ 9 < 2 ^ 63"
  shows "execute_step step agent (bus, clk) =
           (Inr \<lparr>success = True,
                 tr_output = JDict [(''step_id'', JStr (step_id step)),
                                    (''status'', JStr ''completed'')],
                 tr_confidence = 0.85,
                 reasoning = ''Step executed successfully'',
                 tr_cost = 0.01,
                 tr_latency = sum_list (map (delay_seconds (retry_config step))
                       [1 .. int (length failed)]),
                 errors = []\<rparr>,
            bus\<lparr>published := published bus
                   @ [(''workflow.step_started'',
                       [(''step_id'', JStr (step_id step)), (''agent_id'', JStr (agent_id agent))]),
                      (''workflow.step_completed'',
                       [(''step_id'', JStr (step_id step)), (''agent_id'', JStr (agent_id agent))])],
                bus_faults := rest\<rparr>,
            clk\<lparr>now := now clk + sum_list (map (delay_seconds (retry_config step))
                       [1 .. int (length failed)]),
                sleeps := sleeps clk @ (map (delay_seconds (retry_config step))
                       [1 .. int (length failed)])\<rparr>)"
proof -
  let ?bus0 = "bus\<lparr>published := published bus @ [(''workflow.step_started'',
                       [(''step_id'', JStr (step_id step)), (''agent_id'', JStr (agent_id agent))])],
                    bus_faults := map Some failed @ None # rest\<rparr>"
  have len: "int (length failed) < max_attempts (retry_config step) - 0"
    using assms(1) by simp
  have f0: "bus_faults ?bus0 = map Some failed @ None # rest" by simp
  note loop = retry_loop_then_success[OF len _ f0 assms(3), of agent "now clk" None clk]
  show ?thesis
    using assms(2) by (simp add: execute_step_def publish_def loop Let_def)
qed

lemma execute_step_start_bus_down:
  assumes "bus_faults bus = Some m # rest"
  shows "execute_step step agent (bus, clk) = (Inl (RedisError m), bus\<lparr>bus_faults := rest\<rparr>, clk)"
  using assms by (simp add: execute_step_def publish_def Let_def)

lemma execute_step_power_overflow:
  assumes "1 < max_attempts (retry_config step)"
    and "float_max < \<bar>backoff_multiplier (retry_config step)\<bar>"
    and "bus_faults bus = None # Some m # None # rest"
  shows "fst (execute_step step agent (bus, clk)) =
           Inr \<lparr>success = False, tr_output = JNull, tr_confidence = 0,
                 reasoning = ''Step execution failed'', tr_cost = 0,
                 tr_latency = 0,
                 errors = [''(34, '' @ [CHR 0x27] @ ''Numerical result out of range''
                             @ [CHR 0x27] @ '')'']\<rparr>
         \<and> sleeps (snd (snd (execute_step step agent (bus, clk)))) = sleeps clk"
proof -
  let ?bus0 = "bus\<lparr>published := published bus @ [(''workflow.step_started'',
                       [(''step_id'', JStr (step_id step)), (''agent_id'', JStr (agent_id agent))])],
                    bus_faults := Some m # None # rest\<rparr>"
  have k: "(0::int) < max_attempts (retry_config step)" "(0::int) + 1 < max_attempts (retry_config step)"
    using assms(1) by simp_all
  have f0: "bus_faults ?bus0 = Some m # None # rest" by simp
  have ov: "backoff_delay (retry_config step) (0 + 1)
              = Inl (OverflowError (''(34, '' @ [CHR 0x27] @ ''Numerical result out of range''
                                 @ [CHR 0x27] @ '')''))"
    using assms(2) by (simp add: backoff_delay_def)
  note loop = retry_loop_fail_overflow[OF k(1) f0 k(2) ov, of agent "now clk" None clk]
  show ?thesis
    using assms(3) by (simp add: execute_step_def publish_def loop Let_def)
qed

lemma default_step_config:
  "retry_config (new_WorkflowStep sid gid caps deps) = RetryConfig_default"
  "max_attempts RetryConfig_default = 3"
  "delay_seconds RetryConfig_default 1 = 2"
  "delay_seconds RetryConfig_default 2 = 4"
  "[1 .. (2::int)] = [1, 2]"
  "[1 .. (1::int)] = [1]"
  "0 \<le> initial_delay_seconds RetryConfig_default"
  "0 \<le> backoff_multiplier RetryConfig_default"
  "0 \<le> max_delay_seconds RetryConfig_default"
  "max_delay_seconds RetryConfig_default * 10 ^ 9 < 2 ^ 63"
  by (simp_all add: new_WorkflowStep_def RetryConfig_default_def delay_seconds_def upto_rec1)

lemma default_step_no_overflow:
  "\<forall>j. 0 < j \<and> j < max_attempts RetryConfig_default \<longrightarrow>
       backoff_multiplier RetryConfig_default ^ nat j \<le> float_max"
proof (intro allI impI)
  fix j :: int assume "0 < j \<and> j < max_attempts RetryConfig_default"
  then have "j < 3" by (simp add: RetryConfig_default_def)
  then have "nat j \<le> 2" by linarith
  then have "(2::real) ^ nat j \<le> 2 ^ 2" by (intro power_increasing) simp_all
  also have "\<dots> \<le> float_max" by (simp add: float_max_def)
  finally show "backoff_multiplier RetryConfig_default ^ nat j \<le> float_max"
    by (simp add: RetryConfig_default_def)
qed

lemma default_step_fine:
  "\<forall>j. 0 < j \<and> j < max_attempts (retry_config (new_WorkflowStep sid gid caps deps)) \<longrightarrow>
       backoff_delay (retry_config (new_WorkflowStep sid gid caps deps)) j
         = Inr (delay_seconds (retry_config (new_WorkflowStep sid gid caps deps)) j)
       \<and> 0 \<le> delay_seconds (retry_config (new_WorkflowStep sid gid caps deps)) j
       \<and> delay_seconds (retry_config (new_WorkflowStep sid gid caps deps)) j * 10 ^ 9 < 2 ^ 63"
  unfolding default_step_config(1)
  by (rule retry_config_fine[OF default_step_config(7-10) default_step_no_overflow])

text \<open>
  C1, as stated: after the last failed attempt the last error is raised to the caller of
  \<open>execute_step\<close>. For the default retry configuration (three attempts) and a step whose
  three attempts raise \<open>e1\<close>, \<open>e2\<close>, \<open>e3\<close>, \<open>execute_step\<close> raises nothing: it returns a
  failed \<open>TaskResult\<close> whose error list is \<open>[e3]\<close>.
\<close>

theorem execute_step_returns_failure_counterexample:
  "fst (execute_step (new_WorkflowStep ''B'' ''goal'' [] [])
         \<lparr>agent_id = ''agent-1'', goal = ''goal'', capabilities = [],
          allowed_tools = get_allowed_tools STANDARD, preferred_llm_roles = [],
          trust_level = STANDARD, memory_scope = ''session'', confidence_threshold = 0.75,
          failure_history = [], created_at = ''2024-01-01T00:00:00'', status = READY\<rparr>
         (\<lparr>published = [], bus_faults = [None, Some ''e1'', Some ''e2'', Some ''e3'', None]\<rparr>, \<lparr>now = 0, sleeps = []\<rparr>))
     = Inr \<lparr>success = False, tr_output = JNull, tr_confidence = 0,
               reasoning = ''Step execution failed'', tr_cost = 0, tr_latency = 6,
               errors = [''e3'']\<rparr>
   \<and> fst (execute_step (new_WorkflowStep ''B'' ''goal'' [] [])
         \<lparr>agent_id = ''agent-1'', goal = ''goal'', capabilities = [],
          allowed_tools = get_allowed_tools STANDARD, preferred_llm_roles = [],
          trust_level = STANDARD, memory_scope = ''session'', confidence_threshold = 0.75,
          failure_history = [], created_at = ''2024-01-01T00:00:00'', status = READY\<rparr>
         (\<lparr>published = [], bus_faults = [None, Some ''e1'', Some ''e2'', Some ''e3'', None]\<rparr>, \<lparr>now = 0, sleeps = []\<rparr>))
     \<noteq> Inl (RedisError ''e3'')"
proof -
  have "execute_step (new_WorkflowStep ''B'' ''goal'' [] [])
         \<lparr>agent_id = ''agent-1'', goal = ''goal'', capabilities = [],
          allowed_tools = get_allowed_tools STANDARD, preferred_llm_roles = [],
          trust_level = STANDARD, memory_scope = ''session'', confidence_threshold = 0.75,
          failure_history = [], created_at = ''2024-01-01T00:00:00'', status = READY\<rparr>
         (\<lparr>published = [], bus_faults = [None, Some ''e1'', Some ''e2'', Some ''e3'', None]\<rparr>, \<lparr>now = 0, sleeps = []\<rparr>)
     = (Inr \<lparr>success = False, tr_output = JNull, tr_confidence = 0,
               reasoning = ''Step execution failed'', tr_cost = 0, tr_latency = 6,
               errors = [''e3'']\<rparr>,
        \<lparr>published = [(''workflow.step_started'',
                        [(''step_id'', JStr ''B''), (''agent_id'', JStr ''agent-1'')]),
                       (''workflow.step_failed'',
                        [(''step_id'', JStr ''B''), (''agent_id'', JStr ''agent-1''),
                         (''error'', JStr ''e3'')])],
         bus_faults = []\<rparr>,
        \<lparr>now = 6, sleeps = [2, 4]\<rparr>)"
    using execute_step_all_fail[of "[''e1'', ''e2'', ''e3'']" "(new_WorkflowStep ''B'' ''goal'' [] [])"
        "\<lparr>published = [], bus_faults = [None, Some ''e1'', Some ''e2'', Some ''e3'', None]\<rparr>" "[]"
        "\<lparr>agent_id = ''agent-1'', goal = ''goal'', capabilities = [],
          allowed_tools = get_allowed_tools STANDARD, preferred_llm_roles = [],
          trust_level = STANDARD, memory_scope = ''session'', confidence_threshold = 0.75,
          failure_history = [], created_at = ''2024-01-01T00:00:00'', status = READY\<rparr>"
        "\<lparr>now = 0, sleeps = []\<rparr>", OF _ _ _ default_step_fine]
    by (simp add: default_step_config) (simp add: new_WorkflowStep_def)
  then show ?thesis by simp
qed

text \<open>
  C1, amended. Take a step whose retry configuration has a non-negative initial delay,
  multiplier and maximum delay, a maximum delay that \<open>time.sleep\<close> accepts, and powers
  \<open>multiplier^j\<close> within the float range for \<open>0 < j < max_attempts\<close>. The delay slept after
  the failed attempt number \<open>j\<close> is \<open>min(initial_delay * multiplier^j, max_delay)\<close>.

  \<^item> If every one of the \<open>max_attempts\<close> attempts raises, \<open>execute_step\<close> sleeps these
    delays for \<open>j = 1, ..., max_attempts - 1\<close> (none after the last attempt) and publishes
    \<open>workflow.step_failed\<close> with the text of the last error. If that publish succeeds, it
    returns, without raising, a \<open>TaskResult\<close> with \<open>success = False\<close> whose error list
    holds the text of the last error. If that publish raises, the error it raises reaches
    the caller and no \<open>TaskResult\<close> is returned.
  \<^item> If fewer than \<open>max_attempts\<close> attempts raise and the next one succeeds, it publishes
    \<open>workflow.step_completed\<close> and returns the successful result after one delay for each
    failed attempt.
  \<^item> If the \<open>workflow.step_started\<close> publish raises, the error reaches the caller before any
    attempt is made.
\<close>

theorem execute_step_retry:
  assumes "0 \<le> initial_delay_seconds (retry_config step)"
    and "0 \<le> backoff_multiplier (retry_config step)"
    and "0 \<le> max_delay_seconds (retry_config step)"
    and "max_delay_seconds (retry_config step) * 10 ^ 9 < 2 ^ 63"
    and "\<forall>j. 0 < j \<and> j < max_attempts (retry_config step) \<longrightarrow>
           backoff_multiplier (retry_config step) ^ nat j \<le> float_max"
  shows "(\<forall>j. delay_seconds (retry_config step) j
              = min (initial_delay_seconds (retry_config step)
                       * backoff_multiplier (retry_config step) ^ nat j)
                    (max_delay_seconds (retry_config step)))
       \<and> (msgs \<noteq> [] \<and> int (length msgs) = max_attempts (retry_config step)
            \<and> bus_faults bus = None # map Some msgs @ None # rest \<longrightarrow>
            execute_step step agent (bus, clk) =
           (Inr \<lparr>success = False, tr_output = JNull, tr_confidence = 0,
                 reasoning = ''Step execution failed'', tr_cost = 0,
                 tr_latency = sum_list (map (delay_seconds (retry_config step))
                       [1 .. max_attempts (retry_config step) - 1]),
                 errors = [last msgs]\<rparr>,
            bus\<lparr>published := published bus
                   @ [(''workflow.step_started'',
                       [(''step_id'', JStr (step_id step)), (''agent_id'', JStr (agent_id agent))]),
                      (''workflow.step_failed'',
                       [(''step_id'', JStr (step_id step)), (''agent_id'', JStr (agent_id agent)),
                        (''error'', JStr (last msgs))])],
                bus_faults := rest\<rparr>,
            clk\<lparr>now := now clk + sum_list (map (delay_seconds (retry_config step))
                       [1 .. max_attempts (retry_config step) - 1]),
                sleeps := sleeps clk @ (map (delay_seconds (retry_config step))
                       [1 .. max_attempts (retry_config step) - 1])\<rparr>))
       \<and> (msgs \<noteq> [] \<and> int (length msgs) = max_attempts (retry_config step)
            \<and> bus_faults bus = None # map Some msgs @ Some m # rest \<longrightarrow>
            execute_step step agent (bus, clk) =
           (Inl (RedisError m),
            bus\<lparr>published := published bus
                   @ [(''workflow.step_started'',
                       [(''step_id'', JStr (step_id step)), (''agent_id'', JStr (agent_id agent))])],
                bus_faults := rest\<rparr>,
            clk\<lparr>now := now clk + sum_list (map (delay_seconds (retry_config step))
                       [1 .. max_attempts (retry_config step) - 1]),
                sleeps := sleeps clk @ (map (delay_seconds (retry_config step))
                       [1 .. max_attempts (retry_config step) - 1])\<rparr>))
       \<and> (int (length failed) < max_attempts (retry_config step)
            \<and> bus_faults bus = None # map Some failed @ None # rest \<longrightarrow>
            execute_step step agent (bus, clk) =
           (Inr \<lparr>success = True,
                 tr_output = JDict [(''step_id'', JStr (step_id step)),
                                    (''status'', JStr ''completed'')],
                 tr_confidence = 0.85,
                 reasoning = ''Step executed successfully'',
                 tr_cost = 0.01,
                 tr_latency = sum_list (map (delay_seconds (retry_config step))
                       [1 .. int (length failed)]),
                 errors = []\<rparr>,
            bus\<lparr>published := published bus
                   @ [(''workflow.step_started'',
                       [(''step_id'', JStr (step_id step)), (''agent_id'', JStr (agent_id agent))]),
                      (''workflow.step_completed'',
                       [(''step_id'', JStr (step_id step)), (''agent_id'', JStr (agent_id agent))])],
                bus_faults := rest\<rparr>,
            clk\<lparr>now := now clk + sum_list (map (delay_seconds (retry_config step))
                       [1 .. int (length failed)]),
                sleeps := sleeps clk @ (map (delay_seconds (retry_config step))
                       [1 .. int (length failed)])\<rparr>))
       \<and> (bus_faults bus = Some m # rest \<longrightarrow>
            execute_step step agent (bus, clk) = (Inl (RedisError m), bus\<lparr>bus_faults := rest\<rparr>, clk))"
proof (intro conjI impI allI)
  note fine = retry_config_fine[OF assms]
  show "delay_seconds (retry_config step) j
          = min (initial_delay_seconds (retry_config step)
                   * backoff_multiplier (retry_config step) ^ nat j)
                (max_delay_seconds (retry_config step))" for j
    by (simp add: delay_seconds_def)
  {
    assume h: "msgs \<noteq> [] \<and> int (length msgs) = max_attempts (retry_config step)
            \<and> bus_faults bus = None # map Some msgs @ None # rest"
    then have a: "msgs \<noteq> []" "int (length msgs) = max_attempts (retry_config step)"
      "bus_faults bus = None # map Some msgs @ None # rest" by simp_all
    show "execute_step step agent (bus, clk) =
           (Inr \<lparr>success = False, tr_output = JNull, tr_confidence = 0,
                 reasoning = ''Step execution failed'', tr_cost = 0,
                 tr_latency = sum_list (map (delay_seconds (retry_config step))
                       [1 .. max_attempts (retry_config step) - 1]),
                 errors = [last msgs]\<rparr>,
            bus\<lparr>published := published bus
                   @ [(''workflow.step_started'',
                       [(''step_id'', JStr (step_id step)), (''agent_id'', JStr (agent_id agent))]),
                      (''workflow.step_failed'',
                       [(''step_id'', JStr (step_id step)), (''agent_id'', JStr (agent_id agent)),
                        (''error'', JStr (last msgs))])],
                bus_faults := rest\<rparr>,
            clk\<lparr>now := now clk + sum_list (map (delay_seconds (retry_config step))
                       [1 .. max_attempts (retry_config step) - 1]),
                sleeps := sleeps clk @ (map (delay_seconds (retry_config step))
                       [1 .. max_attempts (retry_config step) - 1])\<rparr>)"
      by (rule execute_step_all_fail[OF a fine])
  }
  {
    assume h: "msgs \<noteq> [] \<and> int (length msgs) = max_attempts (retry_config step)
            \<and> bus_faults bus = None # map Some msgs @ Some m # rest"
    then have a: "msgs \<noteq> []" "int (length msgs) = max_attempts (retry_config step)"
      "bus_faults bus = None # map Some msgs @ Some m # rest" by simp_all
    show "execute_step step agent (bus, clk) =
           (Inl (RedisError m),
            bus\<lparr>published := published bus
                   @ [(''workflow.step_started'',
                       [(''step_id'', JStr (step_id step)), (''agent_id'', JStr (agent_id agent))])],
                bus_faults := rest\<rparr>,
            clk\<lparr>now := now clk + sum_list (map (delay_seconds (retry_config step))
                       [1 .. max_attempts (retry_config step) - 1]),
                sleeps := sleeps clk @ (map (delay_seconds (retry_config step))
                       [1 .. max_attempts (retry_config step) - 1])\<rparr>)"
      by (rule execute_step_all_fail_bus_down[OF a fine])
  }
  {
    assume h: "int (length failed) < max_attempts (retry_config step)
            \<and> bus_faults bus = None # map Some failed @ None # rest"
    then have a: "int (length failed) < max_attempts (retry_config step)"
      "bus_faults bus = None # map Some failed @ None # rest" by simp_all
    show "execute_step step agent (bus, clk) =
           (Inr \<lparr>success = True,
                 tr_output = JDict [(''step_id'', JStr (step_id step)),
                                    (''status'', JStr ''completed'')],
                 tr_confidence = 0.85,
                 reasoning = ''Step executed successfully'',
                 tr_cost = 0.01,
                 tr_latency = sum_list (map (delay_seconds (retry_config step))
                       [1 .. int (length failed)]),
                 errors = []\<rparr>,
            bus\<lparr>published := published bus
                   @ [(''workflow.step_started'',
                       [(''step_id'', JStr (step_id step)), (''agent_id'', JStr (agent_id agent))]),
                      (''workflow.step_completed'',
                       [(''step_id'', JStr (step_id step)), (''agent_id'', JStr (agent_id agent))])],
                bus_faults := rest\<rparr>,
            clk\<lparr>now := now clk + sum_list (map (delay_seconds (retry_config step))
                       [1 .. int (length failed)]),
                sleeps := sleeps clk @ (map (delay_seconds (retry_config step))
                       [1 .. int (length failed)])\<rparr>)"
      by (rule execute_step_then_success[OF a fine])
  }
  {
    assume h: "bus_faults bus = Some m # rest"
    then show "execute_step step agent (bus, clk) = (Inl (RedisError m), bus\<lparr>bus_faults := rest\<rparr>, clk)"
      by (rule execute_step_start_bus_down)
  }
qed

theorem execute_step_retry_witness:
  "0 \<le> initial_delay_seconds (retry_config (new_WorkflowStep ''B'' ''goal'' [] []))
   \<and> 0 \<le> backoff_multiplier (retry_config (new_WorkflowStep ''B'' ''goal'' [] []))
   \<and> 0 \<le> max_delay_seconds (retry_config (new_WorkflowStep ''B'' ''goal'' [] []))
   \<and> max_delay_seconds (retry_config (new_WorkflowStep ''B'' ''goal'' [] [])) * 10 ^ 9 < 2 ^ 63
   \<and> execute_step (new_WorkflowStep ''B'' ''goal'' [] [])
         \<lparr>agent_id = ''agent-1'', goal = ''goal'', capabilities = [],
          allowed_tools = get_allowed_tools STANDARD, preferred_llm_roles = [],
          trust_level = STANDARD, memory_scope = ''session'', confidence_threshold = 0.75,
          failure_history = [], created_at = ''2024-01-01T00:00:00'', status = READY\<rparr>
         (\<lparr>published = [], bus_faults = [None, Some ''e1'', Some ''e2'', Some ''e3'', None]\<rparr>, \<lparr>now = 0, sleeps = []\<rparr>)
     = (Inr \<lparr>success = False, tr_output = JNull, tr_confidence = 0,
               reasoning = ''Step execution failed'', tr_cost = 0, tr_latency = 6,
               errors = [''e3'']\<rparr>,
        \<lparr>published = [(''workflow.step_started'',
                        [(''step_id'', JStr ''B''), (''agent_id'', JStr ''agent-1'')]),
                       (''workflow.step_failed'',
                        [(''step_id'', JStr ''B''), (''agent_id'', JStr ''agent-1''),
                         (''error'', JStr ''e3'')])],
         bus_faults = []\<rparr>,
        \<lparr>now = 6, sleeps = [2, 4]\<rparr>)
   \<and> fst (execute_step (new_WorkflowStep ''B'' ''goal'' [] [])
         \<lparr>agent_id = ''agent-1'', goal = ''goal'', capabilities = [],
          allowed_tools = get_allowed_tools STANDARD, preferred_llm_roles = [],
          trust_level = STANDARD, memory_scope = ''session'', confidence_threshold = 0.75,
          failure_history = [], created_at = ''2024-01-01T00:00:00'', status = READY\<rparr>
         (\<lparr>published = [], bus_faults = [None, Some ''e1'', Some ''e2'', Some ''e3'', Some ''down'']\<rparr>, \<lparr>now = 0, sleeps = []\<rparr>))
     = Inl (RedisError ''down'')
   \<and> sleeps (snd (snd (execute_step (new_WorkflowStep ''B'' ''goal'' [] [])
         \<lparr>agent_id = ''agent-1'', goal = ''goal'', capabilities = [],
          allowed_tools = get_allowed_tools STANDARD, preferred_llm_roles = [],
          trust_level = STANDARD, memory_scope = ''session'', confidence_threshold = 0.75,
          failure_history = [], created_at = ''2024-01-01T00:00:00'', status = READY\<rparr>
         (\<lparr>published = [], bus_faults = [None, Some ''e1'', Some ''e2'', Some ''e3'', Some ''down'']\<rparr>, \<lparr>now = 0, sleeps = []\<rparr>))))
     = [2, 4]
   \<and> fst (execute_step (new_WorkflowStep ''B'' ''goal'' [] [])
         \<lparr>agent_id = ''agent-1'', goal = ''goal'', capabilities = [],
          allowed_tools = get_allowed_tools STANDARD, preferred_llm_roles = [],
          trust_level = STANDARD, memory_scope = ''session'', confidence_threshold = 0.75,
          failure_history = [], created_at = ''2024-01-01T00:00:00'', status = READY\<rparr>
         (\<lparr>published = [], bus_faults = [None, Some ''e1'', None]\<rparr>, \<lparr>now = 0, sleeps = []\<rparr>))
     = Inr \<lparr>success = True,
               tr_output = JDict [(''step_id'', JStr ''B''), (''status'', JStr ''completed'')],
               tr_confidence = 0.85, reasoning = ''Step executed successfully'',
               tr_cost = 0.01, tr_latency = 2, errors = []\<rparr>
   \<and> sleeps (snd (snd (execute_step (new_WorkflowStep ''B'' ''goal'' [] [])
         \<lparr>agent_id = ''agent-1'', goal = ''goal'', capabilities = [],
          allowed_tools = get_allowed_tools STANDARD, preferred_llm_roles = [],
          trust_level = STANDARD, memory_scope = ''session'', confidence_threshold = 0.75,
          failure_history = [], created_at = ''2024-01-01T00:00:00'', status = READY\<rparr>
         (\<lparr>published = [], bus_faults = [None, Some ''e1'', None]\<rparr>, \<lparr>now = 0, sleeps = []\<rparr>))))
     = [2]
   \<and> fst (execute_step (new_WorkflowStep ''B'' ''goal'' [] [])
         \<lparr>agent_id = ''agent-1'', goal = ''goal'', capabilities = [],
          allowed_tools = get_allowed_tools STANDARD, preferred_llm_roles = [],
          trust_level = STANDARD, memory_scope = ''session'', confidence_threshold = 0.75,
          failure_history = [], created_at = ''2024-01-01T00:00:00'', status = READY\<rparr>
         (\<lparr>published = [], bus_faults = [Some ''down'']\<rparr>, \<lparr>now = 0, sleeps = []\<rparr>))
     = Inl (RedisError ''down'')"
proof -
  have c: "0 \<le> initial_delay_seconds (retry_config (new_WorkflowStep ''B'' ''goal'' [] []))"
    "0 \<le> backoff_multiplier (retry_config (new_WorkflowStep ''B'' ''goal'' [] []))"
    "0 \<le> max_delay_seconds (retry_config (new_WorkflowStep ''B'' ''goal'' [] []))"
    "max_delay_seconds (retry_config (new_WorkflowStep ''B'' ''goal'' [] [])) * 10 ^ 9 < 2 ^ 63"
    "\<forall>j. 0 < j \<and> j < max_attempts (retry_config (new_WorkflowStep ''B'' ''goal'' [] [])) \<longrightarrow>
           backoff_multiplier (retry_config (new_WorkflowStep ''B'' ''goal'' [] [])) ^ nat j \<le> float_max"
    unfolding default_step_config(1)
    by (rule default_step_config default_step_no_overflow)+
  note tA = execute_step_retry[OF c, of "[''e1'', ''e2'', ''e3'']"
        "\<lparr>published = [], bus_faults = [None, Some ''e1'', Some ''e2'', Some ''e3'', None]\<rparr>" "[]"
        "\<lparr>agent_id = ''agent-1'', goal = ''goal'', capabilities = [],
          allowed_tools = get_allowed_tools STANDARD, preferred_llm_roles = [],
          trust_level = STANDARD, memory_scope = ''session'', confidence_threshold = 0.75,
          failure_history = [], created_at = ''2024-01-01T00:00:00'', status = READY\<rparr>"
        "\<lparr>now = 0, sleeps = []\<rparr>"]
  note tB = execute_step_retry[OF c, of "[''e1'', ''e2'', ''e3'']"
        "\<lparr>published = [], bus_faults = [None, Some ''e1'', Some ''e2'', Some ''e3'', Some ''down'']\<rparr>" "[]"
        "\<lparr>agent_id = ''agent-1'', goal = ''goal'', capabilities = [],
          allowed_tools = get_allowed_tools STANDARD, preferred_llm_roles = [],
          trust_level = STANDARD, memory_scope = ''session'', confidence_threshold = 0.75,
          failure_history = [], created_at = ''2024-01-01T00:00:00'', status = READY\<rparr>"
        "\<lparr>now = 0, sleeps = []\<rparr>" "''down''"]
  note tC = execute_step_retry[OF c, of _
        "\<lparr>published = [], bus_faults = [None, Some ''e1'', None]\<rparr>" "[]"
        "\<lparr>agent_id = ''agent-1'', goal = ''goal'', capabilities = [],
          allowed_tools = get_allowed_tools STANDARD, preferred_llm_roles = [],
          trust_level = STANDARD, memory_scope = ''session'', confidence_threshold = 0.75,
          failure_history = [], created_at = ''2024-01-01T00:00:00'', status = READY\<rparr>"
        "\<lparr>now = 0, sleeps = []\<rparr>" _ "[''e1'']"]
  note tD = execute_step_retry[OF c, of _
        "\<lparr>published = [], bus_faults = [Some ''down'']\<rparr>" "[]"
        "\<lparr>agent_id = ''agent-1'', goal = ''goal'', capabilities = [],
          allowed_tools = get_allowed_tools STANDARD, preferred_llm_roles = [],
          trust_level = STANDARD, memory_scope = ''session'', confidence_threshold = 0.75,
          failure_history = [], created_at = ''2024-01-01T00:00:00'', status = READY\<rparr>"
        "\<lparr>now = 0, sleeps = []\<rparr>" "''down''"]
  from tA have a: "execute_step (new_WorkflowStep ''B'' ''goal'' [] [])
         \<lparr>agent_id = ''agent-1'', goal = ''goal'', capabilities = [],
          allowed_tools = get_allowed_tools STANDARD, preferred_llm_roles = [],
          trust_level = STANDARD, memory_scope = ''session'', confidence_threshold = 0.75,
          failure_history = [], created_at = ''2024-01-01T00:00:00'', status = READY\<rparr>
         (\<lparr>published = [], bus_faults = [None, Some ''e1'', Some ''e2'', Some ''e3'', None]\<rparr>, \<lparr>now = 0, sleeps = []\<rparr>)
     = (Inr \<lparr>success = False, tr_output = JNull, tr_confidence = 0,
               reasoning = ''Step execution failed'', tr_cost = 0, tr_latency = 6,
               errors = [''e3'']\<rparr>,
        \<lparr>published = [(''workflow.step_started'',
                        [(''step_id'', JStr ''B''), (''agent_id'', JStr ''agent-1'')]),
                       (''workflow.step_failed'',
                        [(''step_id'', JStr ''B''), (''agent_id'', JStr ''agent-1''),
                         (''error'', JStr ''e3'')])],
         bus_faults = []\<rparr>,
        \<lparr>now = 6, sleeps = [2, 4]\<rparr>)"
    by (simp add: default_step_config) (simp add: new_WorkflowStep_def)
  from tB have b: "fst (execute_step (new_WorkflowStep ''B'' ''goal'' [] [])
         \<lparr>agent_id = ''agent-1'', goal = ''goal'', capabilities = [],
          allowed_tools = get_allowed_tools STANDARD, preferred_llm_roles = [],
          trust_level = STANDARD, memory_scope = ''session'', confidence_threshold = 0.75,
          failure_history = [], created_at = ''2024-01-01T00:00:00'', status = READY\<rparr>
         (\<lparr>published = [], bus_faults = [None, Some ''e1'', Some ''e2'', Some ''e3'', Some ''down'']\<rparr>, \<lparr>now = 0, sleeps = []\<rparr>))
     = Inl (RedisError ''down'')
   \<and> sleeps (snd (snd (execute_step (new_WorkflowStep ''B'' ''goal'' [] [])
         \<lparr>agent_id = ''agent-1'', goal = ''goal'', capabilities = [],
          allowed_tools = get_allowed_tools STANDARD, preferred_llm_roles = [],
          trust_level = STANDARD, memory_scope = ''session'', confidence_threshold = 0.75,
          failure_history = [], created_at = ''2024-01-01T00:00:00'', status = READY\<rparr>
         (\<lparr>published = [], bus_faults = [None, Some ''e1'', Some ''e2'', Some ''e3'', Some ''down'']\<rparr>, \<lparr>now = 0, sleeps = []\<rparr>))))
     = [2, 4]"
    by (simp add: default_step_config)
  from tC have cc: "fst (execute_step (new_WorkflowStep ''B'' ''goal'' [] [])
         \<lparr>agent_id = ''agent-1'', goal = ''goal'', capabilities = [],
          allowed_tools = get_allowed_tools STANDARD, preferred_llm_roles = [],
          trust_level = STANDARD, memory_scope = ''session'', confidence_threshold = 0.75,
          failure_history = [], created_at = ''2024-01-01T00:00:00'', status = READY\<rparr>
         (\<lparr>published = [], bus_faults = [None, Some ''e1'', None]\<rparr>, \<lparr>now = 0, sleeps = []\<rparr>))
     = Inr \<lparr>success = True,
               tr_output = JDict [(''step_id'', JStr ''B''), (''status'', JStr ''completed'')],
               tr_confidence = 0.85, reasoning = ''Step executed successfully'',
               tr_cost = 0.01, tr_latency = 2, errors = []\<rparr>
   \<and> sleeps (snd (snd (execute_step (new_WorkflowStep ''B'' ''goal'' [] [])
         \<lparr>agent_id = ''agent-1'', goal = ''goal'', capabilities = [],
          allowed_tools = get_allowed_tools STANDARD, preferred_llm_roles = [],
          trust_level = STANDARD, memory_scope = ''session'', confidence_threshold = 0.75,
          failure_history = [], created_at = ''2024-01-01T00:00:00'', status = READY\<rparr>
         (\<lparr>published = [], bus_faults = [None, Some ''e1'', None]\<rparr>, \<lparr>now = 0, sleeps = []\<rparr>))))
     = [2]"
    by (simp add: default_step_config) (simp add: new_WorkflowStep_def)
  from tD have d: "fst (execute_step (new_WorkflowStep ''B'' ''goal'' [] [])
         \<lparr>agent_id = ''agent-1'', goal = ''goal'', capabilities = [],
          allowed_tools = get_allowed_tools STANDARD, preferred_llm_roles = [],
          trust_level = STANDARD, memory_scope = ''session'', confidence_threshold = 0.75,
          failure_history = [], created_at = ''2024-01-01T00:00:00'', status = READY\<rparr>
         (\<lparr>published = [], bus_faults = [Some ''down'']\<rparr>, \<lparr>now = 0, sleeps = []\<rparr>))
     = Inl (RedisError ''down'')"
    by simp
  from a b cc d c(1-4) show ?thesis by blast
qed

section \<open>Properties of the routing fabric: fallback\<close>

lemma dict_get_set_other: "k' \<noteq> k \<Longrightarrow> dict_get (dict_set kvs k v) k' = dict_get kvs k'"
  by (induction kvs) auto

lemma call_llm_backend_raises:
  assumes "dict_get (providers (registry fab)) k = Some p"
    and "can_instantiate fab k p"
    and "backend_call backend k pr config rl = Inl e"
  shows "call_llm backend k pr config rl fab =
           (Inl e,
            fab\<lparr>provider_instances :=
                   (if k \<in> set (provider_instances fab) then provider_instances fab
                    else provider_instances fab @ [k]),
                registry := (registry fab)
                   \<lparr>providers := dict_set (providers (registry fab)) k
                                     (update_performance p 0 False)\<rparr>\<rparr>)"
  using assms
  by (auto simp: call_llm_def can_instantiate_def Let_def split: option.splits)

lemma call_llm_backend_answers:
  assumes "dict_get (providers (registry fab)) k = Some p"
    and "can_instantiate fab k p"
    and "backend_call backend k pr config rl = Inr resp"
  shows "call_llm backend k pr config rl fab =
           (Inr (resp\<lparr>provider := update_performance p (latency resp) True\<rparr>),
            fab\<lparr>provider_instances :=
                   (if k \<in> set (provider_instances fab) then provider_instances fab
                    else provider_instances fab @ [k]),
                registry := (registry fab)
                   \<lparr>providers := dict_set (providers (registry fab)) k
                                     (update_performance p (latency resp) True)\<rparr>\<rparr>)"
  using assms
  by (auto simp: call_llm_def can_instantiate_def Let_def split: option.splits)

lemma call_llm_no_client:
  assumes "dict_get (providers (registry fab)) k = Some p"
    and "\<not> can_instantiate fab k p"
  shows "\<exists>m. call_llm backend k pr config rl fab = (Inl (ValueError m), fab)"
  using assms
  by (auto simp: call_llm_def can_instantiate_def Let_def split: option.splits)

lemma fallback_short_circuit:
  "fst (fallback_loop backend ks pr config rl le fab) = Inr r \<Longrightarrow>
     fallback_loop backend (ks @ ks') pr config rl le fab
       = fallback_loop backend ks pr config rl le fab"
proof (induction ks arbitrary: le fab)
  case Nil
  then show ?case by simp
next
  case (Cons k ks)
  obtain x fab1 where c: "call_llm backend k pr config rl fab = (x, fab1)"
    by (cases "call_llm backend k pr config rl fab")
  show ?case
  proof (cases x)
    case (Inr resp)
    with c show ?thesis by simp
  next
    case (Inl e)
    with c Cons.prems have "fst (fallback_loop backend ks pr config rl (Some e) fab1) = Inr r"
      by simp
    from Cons.IH[OF this] c Inl show ?thesis by simp
  qed
qed

lemma fallback_first_success:
  "fallback_loop backend ks pr config rl le fab = (Inr r, fab') \<Longrightarrow>
     \<exists>ks1 k ks2 fab1 e1.
        ks = ks1 @ k # ks2
        \<and> fallback_loop backend ks1 pr config rl le fab = (Inl e1, fab1)
        \<and> call_llm backend k pr config rl fab1 = (Inr r, fab')"
proof (induction ks arbitrary: le fab)
  case Nil
  then show ?case by simp
next
  case (Cons k ks)
  obtain x fab0 where c: "call_llm backend k pr config rl fab = (x, fab0)"
    by (cases "call_llm backend k pr config rl fab")
  show ?case
  proof (cases x)
    case (Inr resp)
    with c Cons.prems have "resp = r" "fab0 = fab'" by simp_all
    with c Inr have "k # ks = [] @ k # ks
        \<and> fallback_loop backend [] pr config rl le fab
            = (Inl (Exception (''All LLM providers failed: ''
                        @ (case le of None \<Rightarrow> ''None'' | Some e \<Rightarrow> str_exc e))), fab)
        \<and> call_llm backend k pr config rl fab = (Inr r, fab')"
      by simp
    then show ?thesis by blast
  next
    case (Inl e)
    with c Cons.prems have "fallback_loop backend ks pr config rl (Some e) fab0 = (Inr r, fab')"
      by simp
    from Cons.IH[OF this] obtain ks1 k' ks2 fab1 e1 where
      h: "ks = ks1 @ k' # ks2"
         "fallback_loop backend ks1 pr config rl (Some e) fab0 = (Inl e1, fab1)"
         "call_llm backend k' pr config rl fab1 = (Inr r, fab')"
      by blast
    from h(2) c Inl have "fallback_loop backend (k # ks1) pr config rl le fab = (Inl e1, fab1)"
      by simp
    with h(1,3) have "k # ks = (k # ks1) @ k' # ks2
        \<and> fallback_loop backend (k # ks1) pr config rl le fab = (Inl e1, fab1)
        \<and> call_llm backend k' pr config rl fab1 = (Inr r, fab')"
      by simp
    then show ?thesis by blast
  qed
qed

lemma fallback_all_failed:
  "fallback_loop backend ks pr config rl le fab = (Inl x, fab') \<Longrightarrow> ks \<noteq> [] \<Longrightarrow>
     \<exists>ks1 k fab1 e1 e.
        ks = ks1 @ [k]
        \<and> fallback_loop backend ks1 pr config rl le fab = (Inl e1, fab1)
        \<and> call_llm backend k pr config rl fab1 = (Inl e, fab')
        \<and> x = Exception (''All LLM providers failed: '' @ str_exc e)"
proof (induction ks arbitrary: le fab)
  case Nil
  then show ?case by simp
next
  case (Cons k ks)
  obtain y fab0 where c: "call_llm backend k pr config rl fab = (y, fab0)"
    by (cases "call_llm backend k pr config rl fab")
  from c Cons.prems(1) obtain e where y: "y = Inl e"
    by (cases y) auto
  with c Cons.prems(1)
  have rest: "fallback_loop backend ks pr config rl (Some e) fab0 = (Inl x, fab')"
    by simp
  show ?case
  proof (cases "ks = []")
    case True
    with rest have "x = Exception (''All LLM providers failed: '' @ str_exc e)" "fab0 = fab'"
      by simp_all
    with c y True have "k # ks = [] @ [k]
        \<and> fallback_loop backend [] pr config rl le fab
            = (Inl (Exception (''All LLM providers failed: ''
                        @ (case le of None \<Rightarrow> ''None'' | Some e \<Rightarrow> str_exc e))), fab)
        \<and> call_llm backend k pr config rl fab = (Inl e, fab')
        \<and> x = Exception (''All LLM providers failed: '' @ str_exc e)"
      by simp
    then show ?thesis by blast
  next
    case False
    from Cons.IH[OF rest False] obtain ks1 k' fab1 e1 e' where
      h: "ks = ks1 @ [k']"
         "fallback_loop backend ks1 pr config rl (Some e) fab0 = (Inl e1, fab1)"
         "call_llm backend k' pr config rl fab1 = (Inl e', fab')"
         "x = Exception (''All LLM providers failed: '' @ str_exc e')"
      by blast
    from h(2) c y have "fallback_loop backend (k # ks1) pr config rl le fab = (Inl e1, fab1)"
      by simp
    with h(1,3,4) have "k # ks = (k # ks1) @ [k']
        \<and> fallback_loop backend (k # ks1) pr config rl le fab = (Inl e1, fab1)
        \<and> call_llm backend k' pr config rl fab1 = (Inl e', fab')
        \<and> x = Exception (''All LLM providers failed: '' @ str_exc e')"
      by simp
    then show ?thesis by blast
  qed
qed

lemma fallback_two_providers:
  assumes ranked: "map fst (get_providers_by_role (registry fab) rl) = [kA, kB]"
    and ne: "kA \<noteq> kB"
    and pA: "dict_get (providers (registry fab)) kA = Some pA"
    and pB: "dict_get (providers (registry fab)) kB = Some pB"
    and iA: "can_instantiate fab kA pA"
    and iB: "can_instantiate fab kB pB"
    and bA: "backend_call backend kA (task_prompt task) config rl = Inl e"
    and bB: "backend_call backend kB (task_prompt task) config rl = Inr resp"
  shows "fst (execute_with_fallback backend task rl config fab)
           = Inr (resp\<lparr>provider := update_performance pB (latency resp) True\<rparr>)
       \<and> dict_get (providers (registry (snd (execute_with_fallback backend task rl config fab))))
           kA = Some (update_performance pA 0 False)"
proof -
  define fab1 where "fab1 = fab\<lparr>provider_instances :=
                   (if kA \<in> set (provider_instances fab) then provider_instances fab
                    else provider_instances fab @ [kA]),
                registry := (registry fab)
                   \<lparr>providers := dict_set (providers (registry fab)) kA
                                     (update_performance pA 0 False)\<rparr>\<rparr>"
  have cA: "call_llm backend kA (task_prompt task) config rl fab = (Inl e, fab1)"
    unfolding fab1_def using pA iA bA by (rule call_llm_backend_raises)
  have reg1: "providers (registry fab1)
                = dict_set (providers (registry fab)) kA (update_performance pA 0 False)"
    by (simp add: fab1_def)
  have pA1: "dict_get (providers (registry fab1)) kA = Some (update_performance pA 0 False)"
    by (simp add: reg1 dict_get_set)
  have pB1: "dict_get (providers (registry fab1)) kB = Some pB"
    using pB ne by (simp add: reg1 dict_get_set_other)
  have iB1: "can_instantiate fab1 kB pB"
    using iB by (auto simp: can_instantiate_def fab1_def)
  note cB = call_llm_backend_answers[OF pB1 iB1 bB]
  have run: "execute_with_fallback backend task rl config fab
             = call_llm backend kB (task_prompt task) config rl fab1"
    by (simp add: execute_with_fallback_def ranked cA cB)
  show ?thesis
    unfolding run cB using ne pA1 by (simp add: dict_get_set_other)
qed

lemma lower_vendors:
  "lower ''openai'' = ''openai''" "lower ''anthropic'' = ''anthropic''"
  by code_simp+

lemma sample_floor:
  "map fst (get_providers_by_role (registry
   \<lparr>api_keys = [(''openai'', ''sk-o''), (''anthropic'', ''sk-a'')],
   registry = register_provider
     \<lparr>provider_id = ''p-claude'', provider_name = ''anthropic'', model_name = ''claude-3-opus-20240229'',
      api_endpoint = ''https://api.anthropic.com/v1'', cost_per_token = 0.000015,
      avg_latency = 0, reliability_score = 0, provider_capabilities = []\<rparr>
     (register_provider
     \<lparr>provider_id = ''p-gpt4'', provider_name = ''openai'', model_name = ''gpt-4'',
      api_endpoint = ''https://api.openai.com/v1'', cost_per_token = 0.00003,
      avg_latency = 0, reliability_score = 0, provider_capabilities = []\<rparr>
     \<lparr>providers = []\<rparr>),
   provider_instances = []\<rparr>) PLANNER) = [''anthropic:claude-3-opus-20240229'', ''openai:gpt-4'']"
  "dict_get (providers (registry
   \<lparr>api_keys = [(''openai'', ''sk-o''), (''anthropic'', ''sk-a'')],
   registry = register_provider
     \<lparr>provider_id = ''p-claude'', provider_name = ''anthropic'', model_name = ''claude-3-opus-20240229'',
      api_endpoint = ''https://api.anthropic.com/v1'', cost_per_token = 0.000015,
      avg_latency = 0, reliability_score = 0, provider_capabilities = []\<rparr>
     (register_provider
     \<lparr>provider_id = ''p-gpt4'', provider_name = ''openai'', model_name = ''gpt-4'',
      api_endpoint = ''https://api.openai.com/v1'', cost_per_token = 0.00003,
      avg_latency = 0, reliability_score = 0, provider_capabilities = []\<rparr>
     \<lparr>providers = []\<rparr>),
   provider_instances = []\<rparr>)) ''anthropic:claude-3-opus-20240229'' = Some
   \<lparr>provider_id = ''p-claude'', provider_name = ''anthropic'', model_name = ''claude-3-opus-20240229'',
      api_endpoint = ''https://api.anthropic.com/v1'', cost_per_token = 0.000015,
      avg_latency = 0, reliability_score = 0, provider_capabilities = []\<rparr>"
  "dict_get (providers (registry
   \<lparr>api_keys = [(''openai'', ''sk-o''), (''anthropic'', ''sk-a'')],
   registry = register_provider
     \<lparr>provider_id = ''p-claude'', provider_name = ''anthropic'', model_name = ''claude-3-opus-20240229'',
      api_endpoint = ''https://api.anthropic.com/v1'', cost_per_token = 0.000015,
      avg_latency = 0, reliability_score = 0, provider_capabilities = []\<rparr>
     (register_provider
     \<lparr>provider_id = ''p-gpt4'', provider_name = ''openai'', model_name = ''gpt-4'',
      api_endpoint = ''https://api.openai.com/v1'', cost_per_token = 0.00003,
      avg_latency = 0, reliability_score = 0, provider_capabilities = []\<rparr>
     \<lparr>providers = []\<rparr>),
   provider_instances = []\<rparr>)) ''openai:gpt-4'' = Some
   \<lparr>provider_id = ''p-gpt4'', provider_name = ''openai'', model_name = ''gpt-4'',
      api_endpoint = ''https://api.openai.com/v1'', cost_per_token = 0.00003,
      avg_latency = 0, reliability_score = 0, provider_capabilities = []\<rparr>"
  "can_instantiate
   \<lparr>api_keys = [(''openai'', ''sk-o''), (''anthropic'', ''sk-a'')],
   registry = register_provider
     \<lparr>provider_id = ''p-claude'', provider_name = ''anthropic'', model_name = ''claude-3-opus-20240229'',
      api_endpoint = ''https://api.anthropic.com/v1'', cost_per_token = 0.000015,
      avg_latency = 0, reliability_score = 0, provider_capabilities = []\<rparr>
     (register_provider
     \<lparr>provider_id = ''p-gpt4'', provider_name = ''openai'', model_name = ''gpt-4'',
      api_endpoint = ''https://api.openai.com/v1'', cost_per_token = 0.00003,
      avg_latency = 0, reliability_score = 0, provider_capabilities = []\<rparr>
     \<lparr>providers = []\<rparr>),
   provider_instances = []\<rparr> ''anthropic:claude-3-opus-20240229''
   \<lparr>provider_id = ''p-claude'', provider_name = ''anthropic'', model_name = ''claude-3-opus-20240229'',
      api_endpoint = ''https://api.anthropic.com/v1'', cost_per_token = 0.000015,
      avg_latency = 0, reliability_score = 0, provider_capabilities = []\<rparr>"
  "can_instantiate
   \<lparr>api_keys = [(''openai'', ''sk-o''), (''anthropic'', ''sk-a'')],
   registry = register_provider
     \<lparr>provider_id = ''p-claude'', provider_name = ''anthropic'', model_name = ''claude-3-opus-20240229'',
      api_endpoint = ''https://api.anthropic.com/v1'', cost_per_token = 0.000015,
      avg_latency = 0, reliability_score = 0, provider_capabilities = []\<rparr>
     (register_provider
     \<lparr>provider_id = ''p-gpt4'', provider_name = ''openai'', model_name = ''gpt-4'',
      api_endpoint = ''https://api.openai.com/v1'', cost_per_token = 0.00003,
      avg_latency = 0, reliability_score = 0, provider_capabilities = []\<rparr>
     \<lparr>providers = []\<rparr>),
   provider_instances = []\<rparr> ''openai:gpt-4''
   \<lparr>provider_id = ''p-gpt4'', provider_name = ''openai'', model_name = ''gpt-4'',
      api_endpoint = ''https://api.openai.com/v1'', cost_per_token = 0.00003,
      avg_latency = 0, reliability_score = 0, provider_capabilities = []\<rparr>"
  "backend_call
   [(''anthropic:claude-3-opus-20240229'', Inl (Exception ''overloaded'')),
   (''openai:gpt-4'', Inr
   \<lparr>provider =
     \<lparr>provider_id = ''p-gpt4'', provider_name = ''openai'', model_name = ''gpt-4'',
      api_endpoint = ''https://api.openai.com/v1'', cost_per_token = 0.00003,
      avg_latency = 0, reliability_score = 0, provider_capabilities = []\<rparr>,
   role = PLANNER, prompt = ''Plan the work'', response = ''Step 1'',
   confidence = 0.7, tokens_used = 12, latency = 2, cost = 0.00036,
   timestamp = ''2024-01-01T00:00:00''\<rparr>)] ''anthropic:claude-3-opus-20240229'' (task_prompt
   \<lparr>task_id = ''t1'', task_description = ''plan'', task_prompt = ''Plan the work'',
   task_context = [], critical = False\<rparr>)
   \<lparr>temperature = 0.7, max_tokens = 2000, top_p = 1, frequency_penalty = 0,
   presence_penalty = 0, stop_sequences = None\<rparr> PLANNER = Inl (Exception ''overloaded'')"
  "backend_call
   [(''anthropic:claude-3-opus-20240229'', Inl (Exception ''overloaded'')),
   (''openai:gpt-4'', Inr
   \<lparr>provider =
     \<lparr>provider_id = ''p-gpt4'', provider_name = ''openai'', model_name = ''gpt-4'',
      api_endpoint = ''https://api.openai.com/v1'', cost_per_token = 0.00003,
      avg_latency = 0, reliability_score = 0, provider_capabilities = []\<rparr>,
   role = PLANNER, prompt = ''Plan the work'', response = ''Step 1'',
   confidence = 0.7, tokens_used = 12, latency = 2, cost = 0.00036,
   timestamp = ''2024-01-01T00:00:00''\<rparr>)] ''openai:gpt-4'' (task_prompt
   \<lparr>task_id = ''t1'', task_description = ''plan'', task_prompt = ''Plan the work'',
   task_context = [], critical = False\<rparr>)
   \<lparr>temperature = 0.7, max_tokens = 2000, top_p = 1, frequency_penalty = 0,
   presence_penalty = 0, stop_sequences = None\<rparr> PLANNER = Inr
   \<lparr>provider =
     \<lparr>provider_id = ''p-gpt4'', provider_name = ''openai'', model_name = ''gpt-4'',
      api_endpoint = ''https://api.openai.com/v1'', cost_per_token = 0.00003,
      avg_latency = 0, reliability_score = 0, provider_capabilities = []\<rparr>,
   role = PLANNER, prompt = ''Plan the work'', response = ''Step 1'',
   confidence = 0.7, tokens_used = 12, latency = 2, cost = 0.00036,
   timestamp = ''2024-01-01T00:00:00''\<rparr>"
  by (simp_all add: get_providers_by_role_def register_provider_def provider_key_def
      sort_key_def sublist_code(3) less_eq_prod_def can_instantiate_def factory_supports_def
      backend_call_def lower_vendors)

lemma sample_fresh:
  "map fst (get_providers_by_role (registry
   \<lparr>api_keys = [(''openai'', ''sk-o''), (''anthropic'', ''sk-a'')],
   registry = register_provider
     \<lparr>provider_id = ''p-claude'', provider_name = ''anthropic'', model_name = ''claude-3-opus-20240229'',
      api_endpoint = ''https://api.anthropic.com/v1'', cost_per_token = 0.000015,
      avg_latency = 0, reliability_score = 1, provider_capabilities = []\<rparr>
     (register_provider
     \<lparr>provider_id = ''p-gpt4'', provider_name = ''openai'', model_name = ''gpt-4'',
      api_endpoint = ''https://api.openai.com/v1'', cost_per_token = 0.00003,
      avg_latency = 0, reliability_score = 1, provider_capabilities = []\<rparr>
     \<lparr>providers = []\<rparr>),
   provider_instances = []\<rparr>) PLANNER) = [''anthropic:claude-3-opus-20240229'', ''openai:gpt-4'']"
  "dict_get (providers (registry
   \<lparr>api_keys = [(''openai'', ''sk-o''), (''anthropic'', ''sk-a'')],
   registry = register_provider
     \<lparr>provider_id = ''p-claude'', provider_name = ''anthropic'', model_name = ''claude-3-opus-20240229'',
      api_endpoint = ''https://api.anthropic.com/v1'', cost_per_token = 0.000015,
      avg_latency = 0, reliability_score = 1, provider_capabilities = []\<rparr>
     (register_provider
     \<lparr>provider_id = ''p-gpt4'', provider_name = ''openai'', model_name = ''gpt-4'',
      api_endpoint = ''https://api.openai.com/v1'', cost_per_token = 0.00003,
      avg_latency = 0, reliability_score = 1, provider_capabilities = []\<rparr>
     \<lparr>providers = []\<rparr>),
   provider_instances = []\<rparr>)) ''anthropic:claude-3-opus-20240229'' = Some
   \<lparr>provider_id = ''p-claude'', provider_name = ''anthropic'', model_name = ''claude-3-opus-20240229'',
      api_endpoint = ''https://api.anthropic.com/v1'', cost_per_token = 0.000015,
      avg_latency = 0, reliability_score = 1, provider_capabilities = []\<rparr>"
  "dict_get (providers (registry
   \<lparr>api_keys = [(''openai'', ''sk-o''), (''anthropic'', ''sk-a'')],
   registry = register_provider
     \<lparr>provider_id = ''p-claude'', provider_name = ''anthropic'', model_name = ''claude-3-opus-20240229'',
      api_endpoint = ''https://api.anthropic.com/v1'', cost_per_token = 0.000015,
      avg_latency = 0, reliability_score = 1, provider_capabilities = []\<rparr>
     (register_provider
     \<lparr>provider_id = ''p-gpt4'', provider_name = ''openai'', model_name = ''gpt-4'',
      api_endpoint = ''https://api.openai.com/v1'', cost_per_token = 0.00003,
      avg_latency = 0, reliability_score = 1, provider_capabilities = []\<rparr>
     \<lparr>providers = []\<rparr>),
   provider_instances = []\<rparr>)) ''openai:gpt-4'' = Some
   \<lparr>provider_id = ''p-gpt4'', provider_name = ''openai'', model_name = ''gpt-4'',
      api_endpoint = ''https://api.openai.com/v1'', cost_per_token = 0.00003,
      avg_latency = 0, reliability_score = 1, provider_capabilities = []\<rparr>"
  "can_instantiate
   \<lparr>api_keys = [(''openai'', ''sk-o''), (''anthropic'', ''sk-a'')],
   registry = register_provider
     \<lparr>provider_id = ''p-claude'', provider_name = ''anthropic'', model_name = ''claude-3-opus-20240229'',
      api_endpoint = ''https://api.anthropic.com/v1'', cost_per_token = 0.000015,
      avg_latency = 0, reliability_score = 1, provider_capabilities = []\<rparr>
     (register_provider
     \<lparr>provider_id = ''p-gpt4'', provider_name = ''openai'', model_name = ''gpt-4'',
      api_endpoint = ''https://api.openai.com/v1'', cost_per_token = 0.00003,
      avg_latency = 0, reliability_score = 1, provider_capabilities = []\<rparr>
     \<lparr>providers = []\<rparr>),
   provider_instances = []\<rparr> ''anthropic:claude-3-opus-20240229''
   \<lparr>provider_id = ''p-claude'', provider_name = ''anthropic'', model_name = ''claude-3-opus-20240229'',
      api_endpoint = ''https://api.anthropic.com/v1'', cost_per_token = 0.000015,
      avg_latency = 0, reliability_score = 1, provider_capabilities = []\<rparr>"
  "can_instantiate
   \<lparr>api_keys = [(''openai'', ''sk-o''), (''anthropic'', ''sk-a'')],
   registry = register_provider
     \<lparr>provider_id = ''p-claude'', provider_name = ''anthropic'', model_name = ''claude-3-opus-20240229'',
      api_endpoint = ''https://api.anthropic.com/v1'', cost_per_token = 0.000015,
      avg_latency = 0, reliability_score = 1, provider_capabilities = []\<rparr>
     (register_provider
     \<lparr>provider_id = ''p-gpt4'', provider_name = ''openai'', model_name = ''gpt-4'',
      api_endpoint = ''https://api.openai.com/v1'', cost_per_token = 0.00003,
      avg_latency = 0, reliability_score = 1, provider_capabilities = []\<rparr>
     \<lparr>providers = []\<rparr>),
   provider_instances = []\<rparr> ''openai:gpt-4''
   \<lparr>provider_id = ''p-gpt4'', provider_name = ''openai'', model_name = ''gpt-4'',
      api_endpoint = ''https://api.openai.com/v1'', cost_per_token = 0.00003,
      avg_latency = 0, reliability_score = 1, provider_capabilities = []\<rparr>"
  "backend_call
   [(''anthropic:claude-3-opus-20240229'', Inl (Exception ''overloaded'')),
   (''openai:gpt-4'', Inr
   \<lparr>provider =
     \<lparr>provider_id = ''p-gpt4'', provider_name = ''openai'', model_name = ''gpt-4'',
      api_endpoint = ''https://api.openai.com/v1'', cost_per_token = 0.00003,
      avg_latency = 0, reliability_score = 1, provider_capabilities = []\<rparr>,
   role = PLANNER, prompt = ''Plan the work'', response = ''Step 1'',
   confidence = 0.7, tokens_used = 12, latency = 2, cost = 0.00036,
   timestamp = ''2024-01-01T00:00:00''\<rparr>)] ''anthropic:claude-3-opus-20240229'' (task_prompt
   \<lparr>task_id = ''t1'', task_description = ''plan'', task_prompt = ''Plan the work'',
   task_context = [], critical = False\<rparr>)
   \<lparr>temperature = 0.7, max_tokens = 2000, top_p = 1, frequency_penalty = 0,
   presence_penalty = 0, stop_sequences = None\<rparr> PLANNER = Inl (Exception ''overloaded'')"
  "backend_call
   [(''anthropic:claude-3-opus-20240229'', Inl (Exception ''overloaded'')),
   (''openai:gpt-4'', Inr
   \<lparr>provider =
     \<lparr>provider_id = ''p-gpt4'', provider_name = ''openai'', model_name = ''gpt-4'',
      api_endpoint = ''https://api.openai.com/v1'', cost_per_token = 0.00003,
      avg_latency = 0, reliability_score = 1, provider_capabilities = []\<rparr>,
   role = PLANNER, prompt = ''Plan the work'', response = ''Step 1'',
   confidence = 0.7, tokens_used = 12, latency = 2, cost = 0.00036,
   timestamp = ''2024-01-01T00:00:00''\<rparr>)] ''openai:gpt-4'' (task_prompt
   \<lparr>task_id = ''t1'', task_description = ''plan'', task_prompt = ''Plan the work'',
   task_context = [], critical = False\<rparr>)
   \<lparr>temperature = 0.7, max_tokens = 2000, top_p = 1, frequency_penalty = 0,
   presence_penalty = 0, stop_sequences = None\<rparr> PLANNER = Inr
   \<lparr>provider =
     \<lparr>provider_id = ''p-gpt4'', provider_name = ''openai'', model_name = ''gpt-4'',
      api_endpoint = ''https://api.openai.com/v1'', cost_per_token = 0.00003,
      avg_latency = 0, reliability_score = 1, provider_capabilities = []\<rparr>,
   role = PLANNER, prompt = ''Plan the work'', response = ''Step 1'',
   confidence = 0.7, tokens_used = 12, latency = 2, cost = 0.00036,
   timestamp = ''2024-01-01T00:00:00''\<rparr>"
  by (simp_all add: get_providers_by_role_def register_provider_def provider_key_def
      sort_key_def sublist_code(3) less_eq_prod_def can_instantiate_def factory_supports_def
      backend_call_def lower_vendors)

text \<open>
  C9, as stated, says that in the two-provider case the reliability of the failing
  first-ranked provider is strictly lower after the call. Two registered providers with
  reliability 0 rank by cost; the cheaper one (first-ranked) raises, the other answers: the
  answer is returned, and the reliability of the first is 0 before and after the call.
\<close>

theorem fallback_reliability_floor_counterexample:
  "map fst (get_providers_by_role (registry
   \<lparr>api_keys = [(''openai'', ''sk-o''), (''anthropic'', ''sk-a'')],
   registry = register_provider
     \<lparr>provider_id = ''p-claude'', provider_name = ''anthropic'', model_name = ''claude-3-opus-20240229'',
      api_endpoint = ''https://api.anthropic.com/v1'', cost_per_token = 0.000015,
      avg_latency = 0, reliability_score = 0, provider_capabilities = []\<rparr>
     (register_provider
     \<lparr>provider_id = ''p-gpt4'', provider_name = ''openai'', model_name = ''gpt-4'',
      api_endpoint = ''https://api.openai.com/v1'', cost_per_token = 0.00003,
      avg_latency = 0, reliability_score = 0, provider_capabilities = []\<rparr>
     \<lparr>providers = []\<rparr>),
   provider_instances = []\<rparr>) PLANNER) = [''anthropic:claude-3-opus-20240229'', ''openai:gpt-4'']
   \<and> fst (execute_with_fallback
   [(''anthropic:claude-3-opus-20240229'', Inl (Exception ''overloaded'')),
   (''openai:gpt-4'', Inr
   \<lparr>provider =
     \<lparr>provider_id = ''p-gpt4'', provider_name = ''openai'', model_name = ''gpt-4'',
      api_endpoint = ''https://api.openai.com/v1'', cost_per_token = 0.00003,
      avg_latency = 0, reliability_score = 0, provider_capabilities = []\<rparr>,
   role = PLANNER, prompt = ''Plan the work'', response = ''Step 1'',
   confidence = 0.7, tokens_used = 12, latency = 2, cost = 0.00036,
   timestamp = ''2024-01-01T00:00:00''\<rparr>)]
   \<lparr>task_id = ''t1'', task_description = ''plan'', task_prompt = ''Plan the work'',
   task_context = [], critical = False\<rparr>
   PLANNER
   \<lparr>temperature = 0.7, max_tokens = 2000, top_p = 1, frequency_penalty = 0,
   presence_penalty = 0, stop_sequences = None\<rparr>
   \<lparr>api_keys = [(''openai'', ''sk-o''), (''anthropic'', ''sk-a'')],
   registry = register_provider
     \<lparr>provider_id = ''p-claude'', provider_name = ''anthropic'', model_name = ''claude-3-opus-20240229'',
      api_endpoint = ''https://api.anthropic.com/v1'', cost_per_token = 0.000015,
      avg_latency = 0, reliability_score = 0, provider_capabilities = []\<rparr>
     (register_provider
     \<lparr>provider_id = ''p-gpt4'', provider_name = ''openai'', model_name = ''gpt-4'',
      api_endpoint = ''https://api.openai.com/v1'', cost_per_token = 0.00003,
      avg_latency = 0, reliability_score = 0, provider_capabilities = []\<rparr>
     \<lparr>providers = []\<rparr>),
   provider_instances = []\<rparr>) = Inr
   (\<lparr>provider =
     \<lparr>provider_id = ''p-gpt4'', provider_name = ''openai'', model_name = ''gpt-4'',
      api_endpoint = ''https://api.openai.com/v1'', cost_per_token = 0.00003,
      avg_latency = 0, reliability_score = 0, provider_capabilities = []\<rparr>,
   role = PLANNER, prompt = ''Plan the work'', response = ''Step 1'',
   confidence = 0.7, tokens_used = 12, latency = 2, cost = 0.00036,
   timestamp = ''2024-01-01T00:00:00''\<rparr>
   \<lparr>provider := update_performance
     \<lparr>provider_id = ''p-gpt4'', provider_name = ''openai'', model_name = ''gpt-4'',
      api_endpoint = ''https://api.openai.com/v1'', cost_per_token = 0.00003,
      avg_latency = 0, reliability_score = 0, provider_capabilities = []\<rparr> 2 True\<rparr>)
   \<and> map_option reliability_score (dict_get (providers (registry
   \<lparr>api_keys = [(''openai'', ''sk-o''), (''anthropic'', ''sk-a'')],
   registry = register_provider
     \<lparr>provider_id = ''p-claude'', provider_name = ''anthropic'', model_name = ''claude-3-opus-20240229'',
      api_endpoint = ''https://api.anthropic.com/v1'', cost_per_token = 0.000015,
      avg_latency = 0, reliability_score = 0, provider_capabilities = []\<rparr>
     (register_provider
     \<lparr>provider_id = ''p-gpt4'', provider_name = ''openai'', model_name = ''gpt-4'',
      api_endpoint = ''https://api.openai.com/v1'', cost_per_token = 0.00003,
      avg_latency = 0, reliability_score = 0, provider_capabilities = []\<rparr>
     \<lparr>providers = []\<rparr>),
   provider_instances = []\<rparr>)) ''anthropic:claude-3-opus-20240229'') = Some 0
   \<and> map_option reliability_score (dict_get (providers (registry (snd (execute_with_fallback
   [(''anthropic:claude-3-opus-20240229'', Inl (Exception ''overloaded'')),
   (''openai:gpt-4'', Inr
   \<lparr>provider =
     \<lparr>provider_id = ''p-gpt4'', provider_name = ''openai'', model_name = ''gpt-4'',
      api_endpoint = ''https://api.openai.com/v1'', cost_per_token = 0.00003,
      avg_latency = 0, reliability_score = 0, provider_capabilities = []\<rparr>,
   role = PLANNER, prompt = ''Plan the work'', response = ''Step 1'',
   confidence = 0.7, tokens_used = 12, latency = 2, cost = 0.00036,
   timestamp = ''2024-01-01T00:00:00''\<rparr>)]
   \<lparr>task_id = ''t1'', task_description = ''plan'', task_prompt = ''Plan the work'',
   task_context = [], critical = False\<rparr>
   PLANNER
   \<lparr>temperature = 0.7, max_tokens = 2000, top_p = 1, frequency_penalty = 0,
   presence_penalty = 0, stop_sequences = None\<rparr>
   \<lparr>api_keys = [(''openai'', ''sk-o''), (''anthropic'', ''sk-a'')],
   registry = register_provider
     \<lparr>provider_id = ''p-claude'', provider_name = ''anthropic'', model_name = ''claude-3-opus-20240229'',
      api_endpoint = ''https://api.anthropic.com/v1'', cost_per_token = 0.000015,
      avg_latency = 0, reliability_score = 0, provider_capabilities = []\<rparr>
     (register_provider
     \<lparr>provider_id = ''p-gpt4'', provider_name = ''openai'', model_name = ''gpt-4'',
      api_endpoint = ''https://api.openai.com/v1'', cost_per_token = 0.00003,
      avg_latency = 0, reliability_score = 0, provider_capabilities = []\<rparr>
     \<lparr>providers = []\<rparr>),
   provider_instances = []\<rparr>)))) ''anthropic:claude-3-opus-20240229'') = Some 0"
proof -
  have ne: "''anthropic:claude-3-opus-20240229'' \<noteq> ''openai:gpt-4''" by simp
  from fallback_two_providers[OF sample_floor(1) ne sample_floor(2-7)] sample_floor(1,2)
  show ?thesis
    by (simp add: update_performance_def)
qed

text \<open>
  C9, amended. \<open>execute_with_fallback\<close> walks the ranked providers of the role in order.
  If it returns a response, the ranked list splits into providers whose calls all raised, the
  provider whose call returned that response, and the rest; the rest is never consulted:
  the result and the fabric are those of the loop over the list cut after the successful
  provider. If every call raises, it raises \<open>All LLM providers failed:\<close> followed by the
  text of the exception of the last-ranked provider (\<open>None\<close> when no provider is ranked).
  With two ranked providers \<open>A\<close>, \<open>B\<close> whose clients exist or can be made, where the call
  to \<open>A\<close> raises and \<open>B\<close> answers, it returns the response of \<open>B\<close>, and the reliability of
  \<open>A\<close> becomes \<open>max(0, old - 0.05)\<close>: strictly lower when it was above 0.
\<close>

theorem execute_with_fallback_behaviour:
  "(fst (execute_with_fallback backend task rl config fab) = Inr r \<longrightarrow>
      (\<exists>ks1 k ks2 fab1 e1.
          map fst (get_providers_by_role (registry fab) rl) = ks1 @ k # ks2
          \<and> fallback_loop backend ks1 (task_prompt task) config rl None fab = (Inl e1, fab1)
          \<and> call_llm backend k (task_prompt task) config rl fab1
              = (Inr r, snd (execute_with_fallback backend task rl config fab))))
   \<and> (map fst (get_providers_by_role (registry fab) rl) = ks @ ks'
        \<and> fst (fallback_loop backend ks (task_prompt task) config rl None fab) = Inr r' \<longrightarrow>
        execute_with_fallback backend task rl config fab
          = fallback_loop backend ks (task_prompt task) config rl None fab)
   \<and> (fst (execute_with_fallback backend task rl config fab) = Inl x
        \<and> get_providers_by_role (registry fab) rl \<noteq> [] \<longrightarrow>
      (\<exists>ks1 k fab1 e1 e.
          map fst (get_providers_by_role (registry fab) rl) = ks1 @ [k]
          \<and> fallback_loop backend ks1 (task_prompt task) config rl None fab = (Inl e1, fab1)
          \<and> call_llm backend k (task_prompt task) config rl fab1
              = (Inl e, snd (execute_with_fallback backend task rl config fab))
          \<and> x = Exception (''All LLM providers failed: '' @ str_exc e)))
   \<and> (get_providers_by_role (registry fab) rl = []  \<longrightarrow>
        execute_with_fallback backend task rl config fab
          = (Inl (Exception ''All LLM providers failed: None''), fab))
   \<and> (map fst (get_providers_by_role (registry fab) rl) = [kA, kB] \<and> kA \<noteq> kB
        \<and> dict_get (providers (registry fab)) kA = Some pA
        \<and> dict_get (providers (registry fab)) kB = Some pB
        \<and> can_instantiate fab kA pA \<and> can_instantiate fab kB pB
        \<and> backend_call backend kA (task_prompt task) config rl = Inl eA
        \<and> backend_call backend kB (task_prompt task) config rl = Inr resp \<longrightarrow>
        fst (execute_with_fallback backend task rl config fab)
          = Inr (resp\<lparr>provider := update_performance pB (latency resp) True\<rparr>)
        \<and> map_option reliability_score
            (dict_get (providers (registry (snd (execute_with_fallback backend task rl config fab))))
               kA)
          = Some (max 0 (reliability_score pA - 0.05))
        \<and> (0 < reliability_score pA \<longrightarrow>
              max 0 (reliability_score pA - 0.05) < reliability_score pA))"
proof (intro conjI impI)
  assume h: "fst (execute_with_fallback backend task rl config fab) = Inr r"
  then have "fallback_loop backend (map fst (get_providers_by_role (registry fab) rl))
               (task_prompt task) config rl None fab
             = (Inr r, snd (execute_with_fallback backend task rl config fab))"
    by (simp add: execute_with_fallback_def prod_eq_iff)
  from fallback_first_success[OF this]
  show "\<exists>ks1 k ks2 fab1 e1.
          map fst (get_providers_by_role (registry fab) rl) = ks1 @ k # ks2
          \<and> fallback_loop backend ks1 (task_prompt task) config rl None fab = (Inl e1, fab1)
          \<and> call_llm backend k (task_prompt task) config rl fab1
              = (Inr r, snd (execute_with_fallback backend task rl config fab))" .
next
  assume h: "map fst (get_providers_by_role (registry fab) rl) = ks @ ks'
        \<and> fst (fallback_loop backend ks (task_prompt task) config rl None fab) = Inr r'"
  then show "execute_with_fallback backend task rl config fab
          = fallback_loop backend ks (task_prompt task) config rl None fab"
    by (simp add: execute_with_fallback_def fallback_short_circuit)
next
  assume h: "fst (execute_with_fallback backend task rl config fab) = Inl x
        \<and> get_providers_by_role (registry fab) rl \<noteq> []"
  then have a: "fallback_loop backend (map fst (get_providers_by_role (registry fab) rl))
               (task_prompt task) config rl None fab
             = (Inl x, snd (execute_with_fallback backend task rl config fab))"
    and b: "map fst (get_providers_by_role (registry fab) rl) \<noteq> []"
    by (simp_all add: execute_with_fallback_def prod_eq_iff)
  from fallback_all_failed[OF a b]
  show "\<exists>ks1 k fab1 e1 e.
          map fst (get_providers_by_role (registry fab) rl) = ks1 @ [k]
          \<and> fallback_loop backend ks1 (task_prompt task) config rl None fab = (Inl e1, fab1)
          \<and> call_llm backend k (task_prompt task) config rl fab1
              = (Inl e, snd (execute_with_fallback backend task rl config fab))
          \<and> x = Exception (''All LLM providers failed: '' @ str_exc e)" .
next
  assume "get_providers_by_role (registry fab) rl = []"
  then show "execute_with_fallback backend task rl config fab
          = (Inl (Exception ''All LLM providers failed: None''), fab)"
    by (simp add: execute_with_fallback_def)
next
  assume h: "map fst (get_providers_by_role (registry fab) rl) = [kA, kB] \<and> kA \<noteq> kB
        \<and> dict_get (providers (registry fab)) kA = Some pA
        \<and> dict_get (providers (registry fab)) kB = Some pB
        \<and> can_instantiate fab kA pA \<and> can_instantiate fab kB pB
        \<and> backend_call backend kA (task_prompt task) config rl = Inl eA
        \<and> backend_call backend kB (task_prompt task) config rl = Inr resp"
  then have a: "map fst (get_providers_by_role (registry fab) rl) = [kA, kB]" "kA \<noteq> kB"
    "dict_get (providers (registry fab)) kA = Some pA"
    "dict_get (providers (registry fab)) kB = Some pB"
    "can_instantiate fab kA pA" "can_instantiate fab kB pB"
    "backend_call backend kA (task_prompt task) config rl = Inl eA"
    "backend_call backend kB (task_prompt task) config rl = Inr resp"
    by blast+
  note t = fallback_two_providers[OF a]
  from t show "fst (execute_with_fallback backend task rl config fab)
          = Inr (resp\<lparr>provider := update_performance pB (latency resp) True\<rparr>)"
    by simp
  from t show "map_option reliability_score
            (dict_get (providers (registry (snd (execute_with_fallback backend task rl config fab))))
               kA)
          = Some (max 0 (reliability_score pA - 0.05))"
    by (simp add: update_performance_def)
next
  assume "0 < reliability_score pA"
  then show "max 0 (reliability_score pA - 0.05) < reliability_score pA" by simp
qed

theorem execute_with_fallback_behaviour_witness:
  "map fst (get_providers_by_role (registry
   \<lparr>api_keys = [(''openai'', ''sk-o''), (''anthropic'', ''sk-a'')],
   registry = register_provider
     \<lparr>provider_id = ''p-claude'', provider_name = ''anthropic'', model_name = ''claude-3-opus-20240229'',
      api_endpoint = ''https://api.anthropic.com/v1'', cost_per_token = 0.000015,
      avg_latency = 0, reliability_score = 1, provider_capabilities = []\<rparr>
     (register_provider
     \<lparr>provider_id = ''p-gpt4'', provider_name = ''openai'', model_name = ''gpt-4'',
      api_endpoint = ''https://api.openai.com/v1'', cost_per_token = 0.00003,
      avg_latency = 0, reliability_score = 1, provider_capabilities = []\<rparr>
     \<lparr>providers = []\<rparr>),
   provider_instances = []\<rparr>) PLANNER) = [''anthropic:claude-3-opus-20240229'', ''openai:gpt-4'']
   \<and> fst (execute_with_fallback
   [(''anthropic:claude-3-opus-20240229'', Inl (Exception ''overloaded'')),
   (''openai:gpt-4'', Inr
   \<lparr>provider =
     \<lparr>provider_id = ''p-gpt4'', provider_name = ''openai'', model_name = ''gpt-4'',
      api_endpoint = ''https://api.openai.com/v1'', cost_per_token = 0.00003,
      avg_latency = 0, reliability_score = 1, provider_capabilities = []\<rparr>,
   role = PLANNER, prompt = ''Plan the work'', response = ''Step 1'',
   confidence = 0.7, tokens_used = 12, latency = 2, cost = 0.00036,
   timestamp = ''2024-01-01T00:00:00''\<rparr>)]
   \<lparr>task_id = ''t1'', task_description = ''plan'', task_prompt = ''Plan the work'',
   task_context = [], critical = False\<rparr>
   PLANNER
   \<lparr>temperature = 0.7, max_tokens = 2000, top_p = 1, frequency_penalty = 0,
   presence_penalty = 0, stop_sequences = None\<rparr>
   \<lparr>api_keys = [(''openai'', ''sk-o''), (''anthropic'', ''sk-a'')],
   registry = register_provider
     \<lparr>provider_id = ''p-claude'', provider_name = ''anthropic'', model_name = ''claude-3-opus-20240229'',
      api_endpoint = ''https://api.anthropic.com/v1'', cost_per_token = 0.000015,
      avg_latency = 0, reliability_score = 1, provider_capabilities = []\<rparr>
     (register_provider
     \<lparr>provider_id = ''p-gpt4'', provider_name = ''openai'', model_name = ''gpt-4'',
      api_endpoint = ''https://api.openai.com/v1'', cost_per_token = 0.00003,
      avg_latency = 0, reliability_score = 1, provider_capabilities = []\<rparr>
     \<lparr>providers = []\<rparr>),
   provider_instances = []\<rparr>) = Inr
   (\<lparr>provider =
     \<lparr>provider_id = ''p-gpt4'', provider_name = ''openai'', model_name = ''gpt-4'',
      api_endpoint = ''https://api.openai.com/v1'', cost_per_token = 0.00003,
      avg_latency = 0, reliability_score = 1, provider_capabilities = []\<rparr>,
   role = PLANNER, prompt = ''Plan the work'', response = ''Step 1'',
   confidence = 0.7, tokens_used = 12, latency = 2, cost = 0.00036,
   timestamp = ''2024-01-01T00:00:00''\<rparr>
   \<lparr>provider := update_performance
     \<lparr>provider_id = ''p-gpt4'', provider_name = ''openai'', model_name = ''gpt-4'',
      api_endpoint = ''https://api.openai.com/v1'', cost_per_token = 0.00003,
      avg_latency = 0, reliability_score = 1, provider_capabilities = []\<rparr> 2 True\<rparr>)
   \<and> map_option reliability_score (dict_get (providers (registry (snd (execute_with_fallback
   [(''anthropic:claude-3-opus-20240229'', Inl (Exception ''overloaded'')),
   (''openai:gpt-4'', Inr
   \<lparr>provider =
     \<lparr>provider_id = ''p-gpt4'', provider_name = ''openai'', model_name = ''gpt-4'',
      api_endpoint = ''https://api.openai.com/v1'', cost_per_token = 0.00003,
      avg_latency = 0, reliability_score = 1, provider_capabilities = []\<rparr>,
   role = PLANNER, prompt = ''Plan the work'', response = ''Step 1'',
   confidence = 0.7, tokens_used = 12, latency = 2, cost = 0.00036,
   timestamp = ''2024-01-01T00:00:00''\<rparr>)]
   \<lparr>task_id = ''t1'', task_description = ''plan'', task_prompt = ''Plan the work'',
   task_context = [], critical = False\<rparr>
   PLANNER
   \<lparr>temperature = 0.7, max_tokens = 2000, top_p = 1, frequency_penalty = 0,
   presence_penalty = 0, stop_sequences = None\<rparr>
   \<lparr>api_keys = [(''openai'', ''sk-o''), (''anthropic'', ''sk-a'')],
   registry = register_provider
     \<lparr>provider_id = ''p-claude'', provider_name = ''anthropic'', model_name = ''claude-3-opus-20240229'',
      api_endpoint = ''https://api.anthropic.com/v1'', cost_per_token = 0.000015,
      avg_latency = 0, reliability_score = 1, provider_capabilities = []\<rparr>
     (register_provider
     \<lparr>provider_id = ''p-gpt4'', provider_name = ''openai'', model_name = ''gpt-4'',
      api_endpoint = ''https://api.openai.com/v1'', cost_per_token = 0.00003,
      avg_latency = 0, reliability_score = 1, provider_capabilities = []\<rparr>
     \<lparr>providers = []\<rparr>),
   provider_instances = []\<rparr>)))) ''anthropic:claude-3-opus-20240229'') = Some 0.95
   \<and> fst (execute_with_fallback
   []
   \<lparr>task_id = ''t1'', task_description = ''plan'', task_prompt = ''Plan the work'',
   task_context = [], critical = False\<rparr>
   PLANNER
   \<lparr>temperature = 0.7, max_tokens = 2000, top_p = 1, frequency_penalty = 0,
   presence_penalty = 0, stop_sequences = None\<rparr>
   \<lparr>api_keys = [(''openai'', ''sk-o''), (''anthropic'', ''sk-a'')],
   registry = register_provider
     \<lparr>provider_id = ''p-claude'', provider_name = ''anthropic'', model_name = ''claude-3-opus-20240229'',
      api_endpoint = ''https://api.anthropic.com/v1'', cost_per_token = 0.000015,
      avg_latency = 0, reliability_score = 1, provider_capabilities = []\<rparr>
     (register_provider
     \<lparr>provider_id = ''p-gpt4'', provider_name = ''openai'', model_name = ''gpt-4'',
      api_endpoint = ''https://api.openai.com/v1'', cost_per_token = 0.00003,
      avg_latency = 0, reliability_score = 1, provider_capabilities = []\<rparr>
     \<lparr>providers = []\<rparr>),
   provider_instances = []\<rparr>) = Inl (Exception ''All LLM providers failed: provider unreachable'')"
proof -
  have ne: "''anthropic:claude-3-opus-20240229'' \<noteq> ''openai:gpt-4''" by simp
  note t = execute_with_fallback_behaviour[of
   "[(''anthropic:claude-3-opus-20240229'', Inl (Exception ''overloaded'')),
   (''openai:gpt-4'', Inr
   \<lparr>provider =
     \<lparr>provider_id = ''p-gpt4'', provider_name = ''openai'', model_name = ''gpt-4'',
      api_endpoint = ''https://api.openai.com/v1'', cost_per_token = 0.00003,
      avg_latency = 0, reliability_score = 1, provider_capabilities = []\<rparr>,
   role = PLANNER, prompt = ''Plan the work'', response = ''Step 1'',
   confidence = 0.7, tokens_used = 12, latency = 2, cost = 0.00036,
   timestamp = ''2024-01-01T00:00:00''\<rparr>)]"
   "\<lparr>task_id = ''t1'', task_description = ''plan'', task_prompt = ''Plan the work'',
   task_context = [], critical = False\<rparr>" PLANNER
   "\<lparr>temperature = 0.7, max_tokens = 2000, top_p = 1, frequency_penalty = 0,
   presence_penalty = 0, stop_sequences = None\<rparr>"
   "\<lparr>api_keys = [(''openai'', ''sk-o''), (''anthropic'', ''sk-a'')],
   registry = register_provider
     \<lparr>provider_id = ''p-claude'', provider_name = ''anthropic'', model_name = ''claude-3-opus-20240229'',
      api_endpoint = ''https://api.anthropic.com/v1'', cost_per_token = 0.000015,
      avg_latency = 0, reliability_score = 1, provider_capabilities = []\<rparr>
     (register_provider
     \<lparr>provider_id = ''p-gpt4'', provider_name = ''openai'', model_name = ''gpt-4'',
      api_endpoint = ''https://api.openai.com/v1'', cost_per_token = 0.00003,
      avg_latency = 0, reliability_score = 1, provider_capabilities = []\<rparr>
     \<lparr>providers = []\<rparr>),
   provider_instances = []\<rparr>"]
  from t[THEN conjunct2, THEN conjunct2, THEN conjunct2, THEN conjunct2, rule_format,
      OF conjI[OF sample_fresh(1) conjI[OF ne conjI[OF sample_fresh(2) conjI[OF sample_fresh(3)
         conjI[OF sample_fresh(4) conjI[OF sample_fresh(5) conjI[OF sample_fresh(6) sample_fresh(7)]]]]]]]]
  have two: "fst (execute_with_fallback
   [(''anthropic:claude-3-opus-20240229'', Inl (Exception ''overloaded'')),
   (''openai:gpt-4'', Inr
   \<lparr>provider =
     \<lparr>provider_id = ''p-gpt4'', provider_name = ''openai'', model_name = ''gpt-4'',
      api_endpoint = ''https://api.openai.com/v1'', cost_per_token = 0.00003,
      avg_latency = 0, reliability_score = 1, provider_capabilities = []\<rparr>,
   role = PLANNER, prompt = ''Plan the work'', response = ''Step 1'',
   confidence = 0.7, tokens_used = 12, latency = 2, cost = 0.00036,
   timestamp = ''2024-01-01T00:00:00''\<rparr>)]
   \<lparr>task_id = ''t1'', task_description = ''plan'', task_prompt = ''Plan the work'',
   task_context = [], critical = False\<rparr>
   PLANNER
   \<lparr>temperature = 0.7, max_tokens = 2000, top_p = 1, frequency_penalty = 0,
   presence_penalty = 0, stop_sequences = None\<rparr>
   \<lparr>api_keys = [(''openai'', ''sk-o''), (''anthropic'', ''sk-a'')],
   registry = register_provider
     \<lparr>provider_id = ''p-claude'', provider_name = ''anthropic'', model_name = ''claude-3-opus-20240229'',
      api_endpoint = ''https://api.anthropic.com/v1'', cost_per_token = 0.000015,
      avg_latency = 0, reliability_score = 1, provider_capabilities = []\<rparr>
     (register_provider
     \<lparr>provider_id = ''p-gpt4'', provider_name = ''openai'', model_name = ''gpt-4'',
      api_endpoint = ''https://api.openai.com/v1'', cost_per_token = 0.00003,
      avg_latency = 0, reliability_score = 1, provider_capabilities = []\<rparr>
     \<lparr>providers = []\<rparr>),
   provider_instances = []\<rparr>) = Inr
   (\<lparr>provider =
     \<lparr>provider_id = ''p-gpt4'', provider_name = ''openai'', model_name = ''gpt-4'',
      api_endpoint = ''https://api.openai.com/v1'', cost_per_token = 0.00003,
      avg_latency = 0, reliability_score = 1, provider_capabilities = []\<rparr>,
   role = PLANNER, prompt = ''Plan the work'', response = ''Step 1'',
   confidence = 0.7, tokens_used = 12, latency = 2, cost = 0.00036,
   timestamp = ''2024-01-01T00:00:00''\<rparr>
   \<lparr>provider := update_performance
     \<lparr>provider_id = ''p-gpt4'', provider_name = ''openai'', model_name = ''gpt-4'',
      api_endpoint = ''https://api.openai.com/v1'', cost_per_token = 0.00003,
      avg_latency = 0, reliability_score = 1, provider_capabilities = []\<rparr> 2 True\<rparr>)
   \<and> map_option reliability_score (dict_get (providers (registry (snd (execute_with_fallback
   [(''anthropic:claude-3-opus-20240229'', Inl (Exception ''overloaded'')),
   (''openai:gpt-4'', Inr
   \<lparr>provider =
     \<lparr>provider_id = ''p-gpt4'', provider_name = ''openai'', model_name = ''gpt-4'',
      api_endpoint = ''https://api.openai.com/v1'', cost_per_token = 0.00003,
      avg_latency = 0, reliability_score = 1, provider_capabilities = []\<rparr>,
   role = PLANNER, prompt = ''Plan the work'', response = ''Step 1'',
   confidence = 0.7, tokens_used = 12, latency = 2, cost = 0.00036,
   timestamp = ''2024-01-01T00:00:00''\<rparr>)]
   \<lparr>task_id = ''t1'', task_description = ''plan'', task_prompt = ''Plan the work'',
   task_context = [], critical = False\<rparr>
   PLANNER
   \<lparr>temperature = 0.7, max_tokens = 2000, top_p = 1, frequency_penalty = 0,
   presence_penalty = 0, stop_sequences = None\<rparr>
   \<lparr>api_keys = [(''openai'', ''sk-o''), (''anthropic'', ''sk-a'')],
   registry = register_provider
     \<lparr>provider_id = ''p-claude'', provider_name = ''anthropic'', model_name = ''claude-3-opus-20240229'',
      api_endpoint = ''https://api.anthropic.com/v1'', cost_per_token = 0.000015,
      avg_latency = 0, reliability_score = 1, provider_capabilities = []\<rparr>
     (register_provider
     \<lparr>provider_id = ''p-gpt4'', provider_name = ''openai'', model_name = ''gpt-4'',
      api_endpoint = ''https://api.openai.com/v1'', cost_per_token = 0.00003,
      avg_latency = 0, reliability_score = 1, provider_capabilities = []\<rparr>
     \<lparr>providers = []\<rparr>),
   provider_instances = []\<rparr>)))) ''anthropic:claude-3-opus-20240229'') = Some 0.95"
    by simp
  have none: "fst (execute_with_fallback
   []
   \<lparr>task_id = ''t1'', task_description = ''plan'', task_prompt = ''Plan the work'',
   task_context = [], critical = False\<rparr>
   PLANNER
   \<lparr>temperature = 0.7, max_tokens = 2000, top_p = 1, frequency_penalty = 0,
   presence_penalty = 0, stop_sequences = None\<rparr>
   \<lparr>api_keys = [(''openai'', ''sk-o''), (''anthropic'', ''sk-a'')],
   registry = register_provider
     \<lparr>provider_id = ''p-claude'', provider_name = ''anthropic'', model_name = ''claude-3-opus-20240229'',
      api_endpoint = ''https://api.anthropic.com/v1'', cost_per_token = 0.000015,
      avg_latency = 0, reliability_score = 1, provider_capabilities = []\<rparr>
     (register_provider
     \<lparr>provider_id = ''p-gpt4'', provider_name = ''openai'', model_name = ''gpt-4'',
      api_endpoint = ''https://api.openai.com/v1'', cost_per_token = 0.00003,
      avg_latency = 0, reliability_score = 1, provider_capabilities = []\<rparr>
     \<lparr>providers = []\<rparr>),
   provider_instances = []\<rparr>) = Inl (Exception ''All LLM providers failed: provider unreachable'')"
    unfolding execute_with_fallback_def sample_fresh(1)
    by (simp add: call_llm_def register_provider_def provider_key_def backend_call_def
        factory_supports_def lower_vendors Let_def)
  from sample_fresh(1) two none show ?thesis by simp
qed

end
